theory Spec2Isabelle
  imports Main "HOL-Library.Sublist" "HOL-Library.Word"
begin

unbundle bit_operations_syntax

section \<open>The iSCSI block-device orchestrator of \<^verbatim>\<open>iscsiblk/iscsi.go\<close>\<close>

text \<open>
  The package sequences calls to external collaborators (the target daemon, the initiator
  tools, the host lock, the kernel's device nodes). The embedding keeps the functions of
  the source as HOL functions over an explicit state: the state of the outside world, of
  an arbitrary type \<open>'w\<close>, and the trace of the calls made so far with their answers.
  A Go \<^verbatim>\<open>error\<close> is the text of its message; \<^verbatim>\<open>nil\<close> is \<open>None\<close>.
\<close>

subsection \<open>Package variables\<close>

type_synonym error = string

definition LockFile :: string where
  "LockFile = ''/var/run/longhorn-iscsi.lock''"

text \<open>Durations are in milliseconds.\<close>

definition LockTimeout :: nat where
  "LockTimeout = 120 * 1000"

definition TargetLunID :: int where
  "TargetLunID = 1"

definition RetryCounts :: nat where
  "RetryCounts = 5"

definition RetryIntervalSCSI :: nat where
  "RetryIntervalSCSI = 3 * 1000"

definition RetryIntervalTargetID :: nat where
  "RetryIntervalTargetID = 500"

definition HostProc :: string where
  "HostProc = ''/host/proc''"

subsection \<open>The Go library functions the package uses\<close>

text \<open>
  \<^verbatim>\<open>strings.Contains(s, substr)\<close>: \<open>substr\<close> occurs in \<open>s\<close> as a contiguous run of bytes.
\<close>

fun strings_Contains :: "string \<Rightarrow> string \<Rightarrow> bool" where
  "strings_Contains [] substr = (substr = [])"
| "strings_Contains (c # cs) substr =
     (prefix substr (c # cs) \<or> strings_Contains cs substr)"

text \<open>
  \<^verbatim>\<open>strings.Replace(s, old, new, n)\<close> replaces the first \<open>n\<close> non-overlapping occurrences of
  \<open>old\<close>, scanning from the left, and all of them when \<open>n < 0\<close>. The package calls it with
  a one-byte \<open>old\<close>; Go's treatment of an empty \<open>old\<close> (an insertion between the runes of
  \<open>s\<close>) is not needed and is left out: the model returns \<open>s\<close> there.
\<close>

function strings_Replace :: "string \<Rightarrow> string \<Rightarrow> string \<Rightarrow> int \<Rightarrow> string" where
  "strings_Replace s old new n =
     (if old = new \<or> n = 0 \<or> old = [] \<or> s = [] then s
      else if prefix old s
        then new @ strings_Replace (drop (length old) s) old new (if n < 0 then n else n - 1)
        else hd s # strings_Replace (tl s) old new n)"
  by pat_completeness auto
termination
  by (relation "measure (\<lambda>(s, old, new, n). length s)") auto

declare strings_Replace.simps [simp del]

text \<open>\<^verbatim>\<open>os.ModeDevice\<close>, bit 26 of the 32-bit \<^verbatim>\<open>os.FileMode\<close>.\<close>

definition os_ModeDevice :: "32 word" where
  "os_ModeDevice = push_bit 26 1"

subsection \<open>The device record and the target name\<close>

record ScsiDevice =
  Target :: string
  TargetID :: int
  Device :: string
  BackingFile :: string
  BSType :: string
  BSOpts :: string

definition Volume2ISCSIName :: "string \<Rightarrow> string" where
  "Volume2ISCSIName name = strings_Replace name ''_'' '':'' (- 1)"

definition GetTargetName :: "string \<Rightarrow> string" where
  "GetTargetName name = ''iqn.2014-09.com.rancher:'' @ Volume2ISCSIName name"

text \<open>Go's zero values fill the fields the literal leaves out.\<close>

definition NewScsiDevice :: "string \<Rightarrow> string \<Rightarrow> string \<Rightarrow> string \<Rightarrow> ScsiDevice \<times> error option" where
  "NewScsiDevice name backingFile bsType bsOpts =
     (\<lparr>Target = GetTargetName name, TargetID = 0, Device = [],
       BackingFile = backingFile, BSType = bsType, BSOpts = bsOpts\<rparr>, None)"

definition UpdateScsiBackingStore :: "ScsiDevice \<Rightarrow> string \<Rightarrow> string \<Rightarrow> ScsiDevice \<times> error option" where
  "UpdateScsiBackingStore dev bsType bsOpts = (dev\<lparr>BSType := bsType, BSOpts := bsOpts\<rparr>, None)"

subsection \<open>The external collaborators\<close>

text \<open>
  The packages \<^verbatim>\<open>iscsi\<close>, \<^verbatim>\<open>util\<close> and \<^verbatim>\<open>nsfilelock\<close>, \<^verbatim>\<open>os.Stat\<close> and \<^verbatim>\<open>time.Sleep\<close> are
  parameters of the model: each operation takes the state of the world and returns its
  answer with the new state. A Go result \<^verbatim>\<open>(v, err)\<close> is the pair of both values, as the
  callers test them. \<open>'ne\<close> is the type of the namespace executor handle.

  Modelled from the spec: the session and connection identifiers of
  \<^verbatim>\<open>iscsi.GetTargetConnections\<close> and \<^verbatim>\<open>iscsi.CloseConnection\<close>, whose declarations are not in
  the source file, are integers. The map that \<^verbatim>\<open>GetTargetConnections\<close> returns is the list of
  its entries in the order in which the \<^verbatim>\<open>range\<close> loop of \<^verbatim>\<open>DeleteTarget\<close> visits them.
\<close>

record ('w, 'ne) iscsi =
  util_GetHostNamespacePath :: "string \<Rightarrow> string"
  lock_Lock :: "string \<Rightarrow> string \<Rightarrow> nat \<Rightarrow> 'w \<Rightarrow> error option \<times> 'w"
  lock_Unlock :: "string \<Rightarrow> string \<Rightarrow> nat \<Rightarrow> 'w \<Rightarrow> 'w"
  util_NewNamespaceExecutor :: "string \<Rightarrow> 'w \<Rightarrow> ('ne \<times> error option) \<times> 'w"
  util_GetIPToHost :: "'w \<Rightarrow> (string \<times> error option) \<times> 'w"
  iscsi_CheckForInitiatorExistence :: "'ne \<Rightarrow> 'w \<Rightarrow> error option \<times> 'w"
  iscsi_StartDaemon :: "bool \<Rightarrow> 'w \<Rightarrow> error option \<times> 'w"
  iscsi_FindNextAvailableTargetID :: "'w \<Rightarrow> (int \<times> error option) \<times> 'w"
  iscsi_CreateTarget :: "int \<Rightarrow> string \<Rightarrow> 'w \<Rightarrow> error option \<times> 'w"
  iscsi_AddLun :: "int \<Rightarrow> int \<Rightarrow> string \<Rightarrow> string \<Rightarrow> string \<Rightarrow> 'w \<Rightarrow> error option \<times> 'w"
  iscsi_BindInitiator :: "int \<Rightarrow> string \<Rightarrow> 'w \<Rightarrow> error option \<times> 'w"
  iscsi_DiscoverTarget :: "string \<Rightarrow> string \<Rightarrow> 'ne \<Rightarrow> 'w \<Rightarrow> error option \<times> 'w"
  iscsi_IsTargetDiscovered :: "string \<Rightarrow> string \<Rightarrow> 'ne \<Rightarrow> 'w \<Rightarrow> bool \<times> 'w"
  iscsi_CleanupScsiNodes :: "string \<Rightarrow> 'ne \<Rightarrow> 'w \<Rightarrow> error option \<times> 'w"
  iscsi_LoginTarget :: "string \<Rightarrow> string \<Rightarrow> 'ne \<Rightarrow> 'w \<Rightarrow> error option \<times> 'w"
  iscsi_GetDevice :: "string \<Rightarrow> string \<Rightarrow> int \<Rightarrow> 'ne \<Rightarrow> 'w \<Rightarrow> (string \<times> error option) \<times> 'w"
  os_Stat :: "string \<Rightarrow> 'w \<Rightarrow> (32 word \<times> error option) \<times> 'w"
  iscsi_IsTargetLoggedIn :: "string \<Rightarrow> string \<Rightarrow> 'ne \<Rightarrow> 'w \<Rightarrow> bool \<times> 'w"
  iscsi_LogoutTarget :: "string \<Rightarrow> string \<Rightarrow> 'ne \<Rightarrow> 'w \<Rightarrow> error option \<times> 'w"
  iscsi_DeleteDiscoveredTarget :: "string \<Rightarrow> string \<Rightarrow> 'ne \<Rightarrow> 'w \<Rightarrow> error option \<times> 'w"
  iscsi_GetTargetTid :: "string \<Rightarrow> 'w \<Rightarrow> (int \<times> error option) \<times> 'w"
  iscsi_UnbindInitiator :: "int \<Rightarrow> string \<Rightarrow> 'w \<Rightarrow> error option \<times> 'w"
  iscsi_DeleteLun :: "int \<Rightarrow> int \<Rightarrow> 'w \<Rightarrow> error option \<times> 'w"
  iscsi_GetTargetConnections :: "int \<Rightarrow> 'w \<Rightarrow> ((int \<times> int list) list \<times> error option) \<times> 'w"
  iscsi_CloseConnection :: "int \<Rightarrow> int \<Rightarrow> int \<Rightarrow> 'w \<Rightarrow> error option \<times> 'w"
  iscsi_DeleteTarget :: "int \<Rightarrow> 'w \<Rightarrow> error option \<times> 'w"
  iscsi_RescanTarget :: "string \<Rightarrow> string \<Rightarrow> 'ne \<Rightarrow> 'w \<Rightarrow> error option \<times> 'w"
  time_Sleep :: "nat \<Rightarrow> 'w \<Rightarrow> 'w"

subsection \<open>The trace of a run\<close>

text \<open>
  Every call of a collaborator is recorded with its arguments (the executor handle left
  out) and its answer; so are the lines written to the log, with the format string and
  its arguments apart.
\<close>

datatype level = Info | Warn | Fatal

datatype logarg = AInt int | AStr string | AErr "error option"

datatype event =
    LockE string string nat "error option"
  | UnlockE string string nat
  | NewNamespaceExecutorE string "error option"
  | GetIPToHostE string "error option"
  | CheckForInitiatorExistenceE "error option"
  | StartDaemonE bool "error option"
  | FindNextAvailableTargetIDE int "error option"
  | CreateTargetE int string "error option"
  | AddLunE int int string string string "error option"
  | BindInitiatorE int string "error option"
  | DiscoverTargetE string string "error option"
  | IsTargetDiscoveredE string string bool
  | CleanupScsiNodesE string "error option"
  | LoginTargetE string string "error option"
  | GetDeviceE string string int string "error option"
  | StatE string "32 word" "error option"
  | IsTargetLoggedInE string string bool
  | LogoutTargetE string string "error option"
  | DeleteDiscoveredTargetE string string "error option"
  | GetTargetTidE string int "error option"
  | UnbindInitiatorE int string "error option"
  | DeleteLunE int int "error option"
  | GetTargetConnectionsE int "(int \<times> int list) list" "error option"
  | CloseConnectionE int int int "error option"
  | DeleteTargetE int "error option"
  | RescanTargetE string string "error option"
  | SleepE nat
  | LogE level string "logarg list"

type_synonym 'w state = "'w \<times> event list"

definition call :: "('w \<Rightarrow> 'r \<times> 'w) \<Rightarrow> ('r \<Rightarrow> event) \<Rightarrow> 'w state \<Rightarrow> 'r \<times> 'w state" where
  "call f ev s = (case f (fst s) of (r, w') \<Rightarrow> (r, (w', snd s @ [ev r])))"

definition effect :: "('w \<Rightarrow> 'w) \<Rightarrow> event \<Rightarrow> 'w state \<Rightarrow> 'w state" where
  "effect f ev s = (f (fst s), snd s @ [ev])"

definition logf :: "level \<Rightarrow> string \<Rightarrow> logarg list \<Rightarrow> 'w state \<Rightarrow> 'w state" where
  "logf lvl fmt args s = (fst s, snd s @ [LogE lvl fmt args])"

definition sleep :: "('w, 'ne) iscsi \<Rightarrow> nat \<Rightarrow> 'w state \<Rightarrow> 'w state" where
  "sleep env d s = effect (time_Sleep env d) (SleepE d) s"

text \<open>
  A function either returns or, after \<^verbatim>\<open>logrus.Fatalf\<close>, ends the process with the given
  exit status: nothing runs after that, deferred calls included.
\<close>

datatype 'a outcome = Return 'a | ProcessExit int

subsection \<open>SetupTarget\<close>

text \<open>
  The allocation loop of \<^verbatim>\<open>SetupTarget\<close>, from iteration \<open>i\<close>. The result \<open>Some err\<close> is the
  \<^verbatim>\<open>return err\<close> inside the loop; \<open>None\<close> means that control leaves the loop, by \<^verbatim>\<open>break\<close> or
  because \<open>i\<close> has reached \<open>RetryCounts\<close>.
\<close>

function SetupTarget_loop ::
  "('w, 'ne) iscsi \<Rightarrow> nat \<Rightarrow> ScsiDevice \<Rightarrow> 'w state \<Rightarrow> error option \<times> ScsiDevice \<times> 'w state" where
  "SetupTarget_loop env i dev s =
     (if i < RetryCounts then
        (case call (iscsi_FindNextAvailableTargetID env) (case_prod FindNextAvailableTargetIDE) s of
           ((tid, Some err), s1) \<Rightarrow> (Some err, dev, s1)
         | ((tid, None), s1) \<Rightarrow>
             (case call (iscsi_CreateTarget env tid (Target dev)) (CreateTargetE tid (Target dev))
                     (logf Info ''go-iscsi-helper: found available target id %v'' [AInt tid] s1) of
                (None, s2) \<Rightarrow> (None, dev\<lparr>TargetID := tid\<rparr>, s2)
              | (Some err, s2) \<Rightarrow>
                  SetupTarget_loop env (i + 1) dev
                    (sleep env RetryIntervalTargetID
                      (logf Info ''go-iscsi-helper: failed to use target id %v, retrying with a new target ID: err %v''
                         [AInt tid, AErr (Some err)] s2))))
      else (None, dev, s))"
  by pat_completeness auto
termination
  by (relation "measure (\<lambda>(env, i, dev, s). RetryCounts - i)") auto

declare SetupTarget_loop.simps [simp del]

definition SetupTarget ::
  "('w, 'ne) iscsi \<Rightarrow> ScsiDevice \<Rightarrow> 'w state \<Rightarrow> error option \<times> ScsiDevice \<times> 'w state" where
  "SetupTarget env dev s =
     (case call (iscsi_StartDaemon env False) (StartDaemonE False) s of
        (Some err, s1) \<Rightarrow> (Some err, dev, s1)
      | (None, s1) \<Rightarrow>
          (case SetupTarget_loop env 0 dev s1 of
             (Some err, dev1, s2) \<Rightarrow> (Some err, dev1, s2)
           | (None, dev1, s2) \<Rightarrow>
               (case call (iscsi_AddLun env (TargetID dev1) TargetLunID (BackingFile dev1)
                             (BSType dev1) (BSOpts dev1))
                       (AddLunE (TargetID dev1) TargetLunID (BackingFile dev1)
                             (BSType dev1) (BSOpts dev1)) s2 of
                  (Some err, s3) \<Rightarrow> (Some err, dev1, s3)
                | (None, s3) \<Rightarrow>
                    (case call (iscsi_BindInitiator env (TargetID dev1) ''ALL'')
                            (BindInitiatorE (TargetID dev1) ''ALL'') s3 of
                       (Some err, s4) \<Rightarrow> (Some err, dev1, s4)
                     | (None, s4) \<Rightarrow> (None, dev1, s4)))))"

subsection \<open>StartScsi\<close>

text \<open>
  The discovery loop. \<open>err\<close> is the variable of \<^verbatim>\<open>StartScsi\<close> that the loop assigns; the
  loop's result is its value when control leaves the loop.
\<close>

function StartScsi_discover_loop ::
  "('w, 'ne) iscsi \<Rightarrow> string \<Rightarrow> ScsiDevice \<Rightarrow> 'ne \<Rightarrow> nat \<Rightarrow> error option \<Rightarrow> 'w state
     \<Rightarrow> error option \<times> 'w state" where
  "StartScsi_discover_loop env localIP dev ne i err s =
     (if i < RetryCounts then
        (case call (iscsi_DiscoverTarget env localIP (Target dev) ne)
                (DiscoverTargetE localIP (Target dev)) s of
           (err1, s1) \<Rightarrow>
             (case call (iscsi_IsTargetDiscovered env localIP (Target dev) ne)
                     (IsTargetDiscoveredE localIP (Target dev)) s1 of
                (True, s2) \<Rightarrow> (err1, s2)
              | (False, s2) \<Rightarrow>
                  (case call (iscsi_CleanupScsiNodes env (Target dev) ne)
                          (CleanupScsiNodesE (Target dev))
                          (logf Warn ''FAIL to discover due to %v'' [AErr err1] s2) of
                     (Some cerr, s3) \<Rightarrow>
                       StartScsi_discover_loop env localIP dev ne (i + 1) err1
                         (sleep env RetryIntervalSCSI
                           (logf Warn ''Fail to cleanup nodes for %v: %v''
                              [AStr (Target dev), AErr (Some cerr)] s3))
                   | (None, s3) \<Rightarrow>
                       StartScsi_discover_loop env localIP dev ne (i + 1) err1
                         (sleep env RetryIntervalSCSI
                           (logf Warn ''Nodes cleaned up for %v'' [AStr (Target dev)] s3)))))
      else (err, s))"
  by pat_completeness auto
termination
  by (relation "measure (\<lambda>(env, localIP, dev, ne, i, err, s). RetryCounts - i)") auto

declare StartScsi_discover_loop.simps [simp del]

text \<open>The poll for the device node; the result is \<^verbatim>\<open>deviceFound\<close>.\<close>

function StartScsi_device_loop ::
  "('w, 'ne) iscsi \<Rightarrow> ScsiDevice \<Rightarrow> nat \<Rightarrow> 'w state \<Rightarrow> bool \<times> 'w state" where
  "StartScsi_device_loop env dev i s =
     (if i < RetryCounts then
        (case call (os_Stat env (Device dev)) (case_prod (StatE (Device dev))) s of
           ((mode, err), s1) \<Rightarrow>
             if err = None \<and> mode AND os_ModeDevice \<noteq> 0 then (True, s1)
             else StartScsi_device_loop env dev (i + 1) (sleep env RetryIntervalSCSI s1))
      else (False, s))"
  by pat_completeness auto
termination
  by (relation "measure (\<lambda>(env, dev, i, s). RetryCounts - i)") auto

declare StartScsi_device_loop.simps [simp del]

text \<open>
  The part of \<^verbatim>\<open>StartScsi\<close> under the comment \<^verbatim>\<open>// Setup initiator\<close>: discovery, login, the
  device path and the poll for the device node. The device is behind a pointer, so what
  the function has assigned by the time it returns an error stays assigned.
\<close>

definition StartScsi_initiator ::
  "('w, 'ne) iscsi \<Rightarrow> string \<Rightarrow> ScsiDevice \<Rightarrow> 'ne \<Rightarrow> 'w state
     \<Rightarrow> error option \<times> ScsiDevice \<times> 'w state" where
  "StartScsi_initiator env localIP dev ne s =
     (case StartScsi_discover_loop env localIP dev ne 0 None s of
        (err, s1) \<Rightarrow>
     (case call (iscsi_LoginTarget env localIP (Target dev) ne)
             (LoginTargetE localIP (Target dev)) s1 of
        (Some err, s2) \<Rightarrow> (Some err, dev, s2)
      | (None, s2) \<Rightarrow>
     (case call (iscsi_GetDevice env localIP (Target dev) TargetLunID ne)
             (case_prod (GetDeviceE localIP (Target dev) TargetLunID)) s2 of
        ((path, Some err), s3) \<Rightarrow> (Some err, dev\<lparr>Device := path\<rparr>, s3)
      | ((path, None), s3) \<Rightarrow>
     (case StartScsi_device_loop env (dev\<lparr>Device := path\<rparr>) 0 s3 of
        (deviceFound, s4) \<Rightarrow>
          if \<not> deviceFound
          then (Some (''Failed to wait for device '' @ path @ '' to show up''),
                dev\<lparr>Device := path\<rparr>, s4)
          else (None, dev\<lparr>Device := path\<rparr>, s4)))))"

text \<open>
  \<^verbatim>\<open>StartScsi\<close> after the lock is taken, up to its \<^verbatim>\<open>return\<close>; the deferred \<^verbatim>\<open>Unlock\<close> follows in
  \<open>StartScsi\<close>.
\<close>

definition StartScsi_locked ::
  "('w, 'ne) iscsi \<Rightarrow> ScsiDevice \<Rightarrow> 'w state \<Rightarrow> error option \<times> ScsiDevice \<times> 'w state" where
  "StartScsi_locked env dev s =
     (case call (util_NewNamespaceExecutor env (util_GetHostNamespacePath env HostProc))
             (\<lambda>(ne, err). NewNamespaceExecutorE (util_GetHostNamespacePath env HostProc) err) s of
        ((ne, Some err), s1) \<Rightarrow> (Some err, dev, s1)
      | ((ne, None), s1) \<Rightarrow>
     (case call (iscsi_CheckForInitiatorExistence env ne) CheckForInitiatorExistenceE s1 of
        (Some err, s2) \<Rightarrow> (Some err, dev, s2)
      | (None, s2) \<Rightarrow>
     (case call (util_GetIPToHost env) (case_prod GetIPToHostE) s2 of
        ((localIP, Some err), s3) \<Rightarrow> (Some err, dev, s3)
      | ((localIP, None), s3) \<Rightarrow>
     (case SetupTarget env dev s3 of
        (Some err, dev1, s4) \<Rightarrow> (Some err, dev1, s4)
      | (None, dev1, s4) \<Rightarrow> StartScsi_initiator env localIP dev1 ne s4))))"

definition StartScsi ::
  "('w, 'ne) iscsi \<Rightarrow> ScsiDevice \<Rightarrow> 'w state \<Rightarrow> error option \<times> ScsiDevice \<times> 'w state" where
  "StartScsi env dev s =
     (case call (lock_Lock env (util_GetHostNamespacePath env HostProc) LockFile LockTimeout)
             (LockE (util_GetHostNamespacePath env HostProc) LockFile LockTimeout) s of
        (Some err, s1) \<Rightarrow> (Some (''Fail to lock: '' @ err), dev, s1)
      | (None, s1) \<Rightarrow>
          (case StartScsi_locked env dev s1 of
             (r, dev1, s2) \<Rightarrow>
               (r, dev1,
                effect (lock_Unlock env (util_GetHostNamespacePath env HostProc) LockFile LockTimeout)
                  (UnlockE (util_GetHostNamespacePath env HostProc) LockFile LockTimeout) s2)))"

subsection \<open>LogoutTarget\<close>

text \<open>
  The logout loop; \<open>err\<close> and \<open>loggingOut\<close> are the variables of the enclosing block, and
  the result holds their values when control leaves the loop.
\<close>

function LogoutTarget_logout_loop ::
  "('w, 'ne) iscsi \<Rightarrow> string \<Rightarrow> string \<Rightarrow> 'ne \<Rightarrow> nat \<Rightarrow> error option \<Rightarrow> 'w state
     \<Rightarrow> error option \<times> bool \<times> 'w state" where
  "LogoutTarget_logout_loop env ip target ne i err s =
     (if i < RetryCounts then
        (case call (iscsi_LogoutTarget env ip target ne) (LogoutTargetE ip target) s of
           (None, s1) \<Rightarrow> (None, False, s1)
         | (Some e, s1) \<Rightarrow>
             if strings_Contains e ''exit status 21'' then (None, False, s1)
             else if strings_Contains e ''Timeout executing: '' then (Some e, True, s1)
             else LogoutTarget_logout_loop env ip target ne (i + 1) (Some e)
                    (sleep env RetryIntervalSCSI s1))
      else (err, False, s))"
  by pat_completeness auto
termination
  by (relation "measure (\<lambda>(env, ip, target, ne, i, err, s). RetryCounts - i)") auto

declare LogoutTarget_logout_loop.simps [simp del]

text \<open>The wait for the session to go away after a logout that timed out.\<close>

function LogoutTarget_wait_loop ::
  "('w, 'ne) iscsi \<Rightarrow> string \<Rightarrow> string \<Rightarrow> 'ne \<Rightarrow> nat \<Rightarrow> error option \<Rightarrow> 'w state
     \<Rightarrow> error option \<times> 'w state" where
  "LogoutTarget_wait_loop env ip target ne i err s =
     (if i < RetryCounts then
        (case call (iscsi_IsTargetLoggedIn env ip target ne) (IsTargetLoggedInE ip target) s of
           (False, s1) \<Rightarrow> (None, s1)
         | (True, s1) \<Rightarrow>
             LogoutTarget_wait_loop env ip target ne (i + 1) err (sleep env RetryIntervalSCSI s1))
      else (err, s))"
  by pat_completeness auto
termination
  by (relation "measure (\<lambda>(env, ip, target, ne, i, err, s). RetryCounts - i)") auto

declare LogoutTarget_wait_loop.simps [simp del]

text \<open>The removal of the discovered-target record.\<close>

function LogoutTarget_delete_loop ::
  "('w, 'ne) iscsi \<Rightarrow> string \<Rightarrow> string \<Rightarrow> 'ne \<Rightarrow> nat \<Rightarrow> error option \<Rightarrow> 'w state
     \<Rightarrow> error option \<times> 'w state" where
  "LogoutTarget_delete_loop env ip target ne i err s =
     (if i < RetryCounts then
        (case call (iscsi_IsTargetDiscovered env ip target ne) (IsTargetDiscoveredE ip target) s of
           (False, s1) \<Rightarrow> (None, s1)
         | (True, s1) \<Rightarrow>
             (case call (iscsi_DeleteDiscoveredTarget env ip target ne)
                     (DeleteDiscoveredTargetE ip target) s1 of
                (None, s2) \<Rightarrow> (None, s2)
              | (Some e, s2) \<Rightarrow>
                  if strings_Contains e ''exit status 21'' then (None, s2)
                  else LogoutTarget_delete_loop env ip target ne (i + 1) (Some e)
                         (sleep env RetryIntervalSCSI s2)))
      else (err, s))"
  by pat_completeness auto
termination
  by (relation "measure (\<lambda>(env, ip, target, ne, i, err, s). RetryCounts - i)") auto

declare LogoutTarget_delete_loop.simps [simp del]

definition LogoutTarget ::
  "('w, 'ne) iscsi \<Rightarrow> string \<Rightarrow> 'w state \<Rightarrow> error option \<times> 'w state" where
  "LogoutTarget env target s =
     (case call (util_NewNamespaceExecutor env (util_GetHostNamespacePath env HostProc))
             (\<lambda>(ne, err). NewNamespaceExecutorE (util_GetHostNamespacePath env HostProc) err) s of
        ((ne, Some err), s1) \<Rightarrow> (Some err, s1)
      | ((ne, None), s1) \<Rightarrow>
     (case call (util_GetIPToHost env) (case_prod GetIPToHostE) s1 of
        ((ip, Some err), s2) \<Rightarrow> (Some err, s2)
      | ((ip, None), s2) \<Rightarrow>
     (case call (iscsi_CheckForInitiatorExistence env ne) CheckForInitiatorExistenceE s2 of
        (Some err, s3) \<Rightarrow> (Some err, s3)
      | (None, s3) \<Rightarrow>
     (case call (iscsi_IsTargetLoggedIn env ip target ne) (IsTargetLoggedInE ip target) s3 of
        (False, s4) \<Rightarrow> (None, s4)
      | (True, s4) \<Rightarrow>
     (case LogoutTarget_logout_loop env ip target ne 0 None
             (logf Info ''Shutdown SCSI device for %v:%v'' [AStr ip, AStr target] s4) of
        (err, loggingOut, s5) \<Rightarrow>
     (case (if loggingOut
            then LogoutTarget_wait_loop env ip target ne 0 err
                   (logf Info ''Logout SCSI device timeout, waiting for logout complete'' [] s5)
            else (err, s5)) of
        (Some e, s6) \<Rightarrow> (Some (''Failed to logout target: '' @ e), s6)
      | (None, s6) \<Rightarrow>
     (case LogoutTarget_delete_loop env ip target ne 0 None s6 of
        (Some e, s7) \<Rightarrow> (Some e, s7)
      | (None, s7) \<Rightarrow> (None, s7))))))))"

subsection \<open>DeleteTarget, StopScsi and the update\<close>

fun close_connections ::
  "('w, 'ne) iscsi \<Rightarrow> int \<Rightarrow> int \<Rightarrow> int list \<Rightarrow> 'w state \<Rightarrow> error option \<times> 'w state" where
  "close_connections env tid sid [] s = (None, s)"
| "close_connections env tid sid (cid # cidList) s =
     (case call (iscsi_CloseConnection env tid sid cid) (CloseConnectionE tid sid cid) s of
        (Some err, s1) \<Rightarrow> (Some err, s1)
      | (None, s1) \<Rightarrow> close_connections env tid sid cidList s1)"

fun close_sessions ::
  "('w, 'ne) iscsi \<Rightarrow> int \<Rightarrow> (int \<times> int list) list \<Rightarrow> 'w state \<Rightarrow> error option \<times> 'w state" where
  "close_sessions env tid [] s = (None, s)"
| "close_sessions env tid ((sid, cidList) # rest) s =
     (case close_connections env tid sid cidList s of
        (Some err, s1) \<Rightarrow> (Some err, s1)
      | (None, s1) \<Rightarrow> close_sessions env tid rest s1)"

definition DeleteTarget ::
  "('w, 'ne) iscsi \<Rightarrow> string \<Rightarrow> int \<Rightarrow> 'w state \<Rightarrow> error option outcome \<times> 'w state" where
  "DeleteTarget env target targetID s =
     (case call (iscsi_GetTargetTid env target) (case_prod (GetTargetTidE target)) s of
        ((tid, err), s1) \<Rightarrow>
          if err = None \<and> tid \<noteq> - 1 then
            if tid \<noteq> targetID
            then (ProcessExit 1,
                  logf Fatal ''BUG: Invalid TID %v found for %v'' [AInt tid, AStr target] s1)
            else
     (case call (iscsi_UnbindInitiator env targetID ''ALL'') (UnbindInitiatorE targetID ''ALL'')
             (logf Info ''Shutdown SCSI target %v'' [AStr target] s1) of
        (Some err, s2) \<Rightarrow> (Return (Some err), s2)
      | (None, s2) \<Rightarrow>
     (case call (iscsi_DeleteLun env targetID TargetLunID) (DeleteLunE targetID TargetLunID) s2 of
        (Some err, s3) \<Rightarrow> (Return (Some err), s3)
      | (None, s3) \<Rightarrow>
     (case call (iscsi_GetTargetConnections env tid) (case_prod (GetTargetConnectionsE tid)) s3 of
        ((sessionConnectionsMap, Some err), s4) \<Rightarrow> (Return (Some err), s4)
      | ((sessionConnectionsMap, None), s4) \<Rightarrow>
     (case close_sessions env tid sessionConnectionsMap s4 of
        (Some err, s5) \<Rightarrow> (Return (Some err), s5)
      | (None, s5) \<Rightarrow>
     (case call (iscsi_DeleteTarget env targetID) (DeleteTargetE targetID) s5 of
        (Some err, s6) \<Rightarrow> (Return (Some err), s6)
      | (None, s6) \<Rightarrow> (Return None, s6))))))
          else (Return None, s1))"

definition StopScsi ::
  "('w, 'ne) iscsi \<Rightarrow> string \<Rightarrow> int \<Rightarrow> 'w state \<Rightarrow> error option outcome \<times> 'w state" where
  "StopScsi env volumeName targetID s =
     (case call (lock_Lock env (util_GetHostNamespacePath env HostProc) LockFile LockTimeout)
             (LockE (util_GetHostNamespacePath env HostProc) LockFile LockTimeout) s of
        (Some err, s1) \<Rightarrow> (Return (Some (''Fail to lock: '' @ err)), s1)
      | (None, s1) \<Rightarrow>
     (case LogoutTarget env (GetTargetName volumeName) s1 of
        (Some err, s2) \<Rightarrow>
          (Return (Some (''Fail to logout target: '' @ err)),
           effect (lock_Unlock env (util_GetHostNamespacePath env HostProc) LockFile LockTimeout)
             (UnlockE (util_GetHostNamespacePath env HostProc) LockFile LockTimeout) s2)
      | (None, s2) \<Rightarrow>
     (case DeleteTarget env (GetTargetName volumeName) targetID s2 of
        (ProcessExit status, s3) \<Rightarrow> (ProcessExit status, s3)
      | (Return (Some err), s3) \<Rightarrow>
          (Return (Some (''Fail to delete target: '' @ err)),
           effect (lock_Unlock env (util_GetHostNamespacePath env HostProc) LockFile LockTimeout)
             (UnlockE (util_GetHostNamespacePath env HostProc) LockFile LockTimeout) s3)
      | (Return None, s3) \<Rightarrow>
          (Return None,
           effect (lock_Unlock env (util_GetHostNamespacePath env HostProc) LockFile LockTimeout)
             (UnlockE (util_GetHostNamespacePath env HostProc) LockFile LockTimeout) s3))))"

definition UpdateTarget ::
  "('w, 'ne) iscsi \<Rightarrow> ScsiDevice \<Rightarrow> 'w state \<Rightarrow> error option outcome \<times> ScsiDevice \<times> 'w state" where
  "UpdateTarget env dev s =
     (case DeleteTarget env (Target dev) (TargetID dev) s of
        (ProcessExit status, s1) \<Rightarrow> (ProcessExit status, dev, s1)
      | (Return (Some err), s1) \<Rightarrow> (Return (Some err), dev, s1)
      | (Return None, s1) \<Rightarrow>
          (case SetupTarget env dev s1 of
             (Some err, dev1, s2) \<Rightarrow> (Return (Some err), dev1, s2)
           | (None, dev1, s2) \<Rightarrow> (Return None, dev1, s2)))"

text \<open>
  \<^verbatim>\<open>UpdateScsi\<close> after the lock is taken; as in \<open>StartScsi\<close> the deferred \<^verbatim>\<open>Unlock\<close> follows every
  return, and nothing follows the end of the process.
\<close>

definition UpdateScsi_locked ::
  "('w, 'ne) iscsi \<Rightarrow> ScsiDevice \<Rightarrow> 'w state \<Rightarrow> error option outcome \<times> ScsiDevice \<times> 'w state" where
  "UpdateScsi_locked env dev s =
     (case call (util_NewNamespaceExecutor env (util_GetHostNamespacePath env HostProc))
             (\<lambda>(ne, err). NewNamespaceExecutorE (util_GetHostNamespacePath env HostProc) err) s of
        ((ne, Some err), s1) \<Rightarrow> (Return (Some err), dev, s1)
      | ((ne, None), s1) \<Rightarrow>
     (case call (iscsi_CheckForInitiatorExistence env ne) CheckForInitiatorExistenceE s1 of
        (Some err, s2) \<Rightarrow> (Return (Some err), dev, s2)
      | (None, s2) \<Rightarrow>
     (case call (util_GetIPToHost env) (case_prod GetIPToHostE) s2 of
        ((ip, Some err), s3) \<Rightarrow> (Return (Some err), dev, s3)
      | ((ip, None), s3) \<Rightarrow>
     (case UpdateTarget env dev s3 of
        (ProcessExit status, dev1, s4) \<Rightarrow> (ProcessExit status, dev1, s4)
      | (Return (Some err), dev1, s4) \<Rightarrow> (Return (Some err), dev1, s4)
      | (Return None, dev1, s4) \<Rightarrow>
     (case call (iscsi_RescanTarget env ip (Target dev1) ne) (RescanTargetE ip (Target dev1)) s4 of
        (Some err, s5) \<Rightarrow> (Return (Some err), dev1, s5)
      | (None, s5) \<Rightarrow> (Return None, dev1, s5))))))"

definition UpdateScsi ::
  "('w, 'ne) iscsi \<Rightarrow> ScsiDevice \<Rightarrow> 'w state \<Rightarrow> error option outcome \<times> ScsiDevice \<times> 'w state" where
  "UpdateScsi env dev s =
     (case call (lock_Lock env (util_GetHostNamespacePath env HostProc) LockFile LockTimeout)
             (LockE (util_GetHostNamespacePath env HostProc) LockFile LockTimeout) s of
        (Some err, s1) \<Rightarrow> (Return (Some (''Fail to lock: '' @ err)), dev, s1)
      | (None, s1) \<Rightarrow>
          (case UpdateScsi_locked env dev s1 of
             (ProcessExit status, dev1, s2) \<Rightarrow> (ProcessExit status, dev1, s2)
           | (Return r, dev1, s2) \<Rightarrow>
               (Return r, dev1,
                effect (lock_Unlock env (util_GetHostNamespacePath env HostProc) LockFile LockTimeout)
                  (UnlockE (util_GetHostNamespacePath env HostProc) LockFile LockTimeout) s2)))"

subsection \<open>A simulated host\<close>

text \<open>
  A concrete world on which the functions can be run: the state is a clock that counts
  the sleeps so far, and nothing else changes it. On the host \<open>sim\<close> every collaborator
  succeeds: the target is discovered at once, no session is logged in, no target of the
  name is live, and the device node is ready. Each scenario below changes a few answers.
\<close>

definition sim :: "(nat, string) iscsi" where
  "sim = \<lparr>
     util_GetHostNamespacePath = (\<lambda>p. p @ ''/1/ns''),
     lock_Lock = (\<lambda>ns file timeout w. (None, w)),
     lock_Unlock = (\<lambda>ns file timeout w. w),
     util_NewNamespaceExecutor = (\<lambda>ns w. ((ns, None), w)),
     util_GetIPToHost = (\<lambda>w. ((''10.0.0.1'', None), w)),
     iscsi_CheckForInitiatorExistence = (\<lambda>ne w. (None, w)),
     iscsi_StartDaemon = (\<lambda>fg w. (None, w)),
     iscsi_FindNextAvailableTargetID = (\<lambda>w. ((int w + 1, None), w)),
     iscsi_CreateTarget = (\<lambda>tid name w. (None, w)),
     iscsi_AddLun = (\<lambda>tid lun file bsType bsOpts w. (None, w)),
     iscsi_BindInitiator = (\<lambda>tid initiator w. (None, w)),
     iscsi_DiscoverTarget = (\<lambda>ip target ne w. (None, w)),
     iscsi_IsTargetDiscovered = (\<lambda>ip target ne w. (True, w)),
     iscsi_CleanupScsiNodes = (\<lambda>target ne w. (None, w)),
     iscsi_LoginTarget = (\<lambda>ip target ne w. (None, w)),
     iscsi_GetDevice = (\<lambda>ip target lun ne w. ((''/dev/sdb'', None), w)),
     os_Stat = (\<lambda>path w. ((os_ModeDevice, None), w)),
     iscsi_IsTargetLoggedIn = (\<lambda>ip target ne w. (False, w)),
     iscsi_LogoutTarget = (\<lambda>ip target ne w. (None, w)),
     iscsi_DeleteDiscoveredTarget = (\<lambda>ip target ne w. (None, w)),
     iscsi_GetTargetTid = (\<lambda>target w. ((- 1, None), w)),
     iscsi_UnbindInitiator = (\<lambda>tid initiator w. (None, w)),
     iscsi_DeleteLun = (\<lambda>tid lun w. (None, w)),
     iscsi_GetTargetConnections = (\<lambda>tid w. (([], None), w)),
     iscsi_CloseConnection = (\<lambda>tid sid cid w. (None, w)),
     iscsi_DeleteTarget = (\<lambda>tid w. (None, w)),
     iscsi_RescanTarget = (\<lambda>ip target ne w. (None, w)),
     time_Sleep = (\<lambda>d w. w + 1)
   \<rparr>"

text \<open>Every attempt to create the target collides.\<close>

definition sim_collide :: "(nat, string) iscsi" where
  "sim_collide = sim\<lparr>iscsi_CreateTarget := (\<lambda>tid name w. (Some ''exit status 22'', w))\<rparr>"


text \<open>The target never shows as discovered, and every \<^verbatim>\<open>DiscoverTarget\<close> reports an error.\<close>

definition sim_undiscovered :: "(nat, string) iscsi" where
  "sim_undiscovered = sim\<lparr>
     iscsi_DiscoverTarget := (\<lambda>ip target ne w. (Some ''exit status 4'', w)),
     iscsi_IsTargetDiscovered := (\<lambda>ip target ne w. (False, w))\<rparr>"

text \<open>
  The device node is missing at the first poll, a regular file at the second and a device
  from the third on; and the host on which it never appears.
\<close>

definition sim_slow_device :: "(nat, string) iscsi" where
  "sim_slow_device = sim\<lparr>
     os_Stat := (\<lambda>path w.
        ((if w = 0 then (0, Some ''no such file or directory'')
          else if w = 1 then (0, None) else (os_ModeDevice, None)), w))\<rparr>"

definition sim_no_device :: "(nat, string) iscsi" where
  "sim_no_device = sim\<lparr>os_Stat := (\<lambda>path w. ((0, Some ''no such file or directory''), w))\<rparr>"

text \<open>
  A session is logged in; the first logout fails, the second times out, and the session is
  gone after two sleeps.
\<close>

definition sim_timeout :: "(nat, string) iscsi" where
  "sim_timeout = sim\<lparr>
     iscsi_IsTargetLoggedIn := (\<lambda>ip target ne w. (w < 2, w)),
     iscsi_LogoutTarget := (\<lambda>ip target ne w.
        (if w = 0 then Some ''exit status 8'' else Some ''Timeout executing: iscsiadm'', w))\<rparr>"

text \<open>
  A session is logged in and the logout succeeds; the first deletion of the discovered
  record fails, the second reports that there is no record.
\<close>

definition sim_session :: "(nat, string) iscsi" where
  "sim_session = sim\<lparr>
     iscsi_IsTargetLoggedIn := (\<lambda>ip target ne w. (True, w)),
     iscsi_DeleteDiscoveredTarget := (\<lambda>ip target ne w.
        (if w = 0 then Some ''exit status 6'' else Some ''exit status 21'', w))\<rparr>"

text \<open>A live target of the name has the ID 7.\<close>

definition sim_live :: "(nat, string) iscsi" where
  "sim_live = sim\<lparr>iscsi_GetTargetTid := (\<lambda>target w. ((7, None), w))\<rparr>"

text \<open>The lookup of the target ID fails, although it names the ID 7.\<close>

definition sim_lookup_fails :: "(nat, string) iscsi" where
  "sim_lookup_fails = sim\<lparr>iscsi_GetTargetTid := (\<lambda>target w. ((7, Some ''exit status 107''), w))\<rparr>"

text \<open>The device of the volume \<^verbatim>\<open>data_01\<close>, as \<^verbatim>\<open>NewScsiDevice\<close> makes it.\<close>

definition dev01 :: ScsiDevice where
  "dev01 = fst (NewScsiDevice ''data_01'' ''/var/lib/longhorn/data01.img'' ''file'' [])"

subsection \<open>Observations on traces\<close>

text \<open>
  The events of one discovery attempt that \<^verbatim>\<open>IsTargetDiscovered\<close> does not confirm, where
  \<open>e\<close> is the answer of \<^verbatim>\<open>DiscoverTarget\<close> and \<open>c\<close> the answer of \<^verbatim>\<open>CleanupScsiNodes\<close>; and of
  the attempt that it confirms.
\<close>

definition discover_failed :: "string \<Rightarrow> string \<Rightarrow> error option \<times> error option \<Rightarrow> event list" where
  "discover_failed ip target ec =
     [DiscoverTargetE ip target (fst ec),
      IsTargetDiscoveredE ip target False,
      LogE Warn ''FAIL to discover due to %v'' [AErr (fst ec)],
      CleanupScsiNodesE target (snd ec),
      (case snd ec of
         Some cerr \<Rightarrow> LogE Warn ''Fail to cleanup nodes for %v: %v'' [AStr target, AErr (Some cerr)]
       | None \<Rightarrow> LogE Warn ''Nodes cleaned up for %v'' [AStr target]),
      SleepE RetryIntervalSCSI]"

definition discover_confirmed :: "string \<Rightarrow> string \<Rightarrow> error option \<Rightarrow> event list" where
  "discover_confirmed ip target e =
     [DiscoverTargetE ip target e, IsTargetDiscoveredE ip target True]"

text \<open>
  The device node is ready when \<^verbatim>\<open>os.Stat\<close> succeeds on it and reports a device; the events
  of one poll that does not find it ready.
\<close>

definition device_ready :: "32 word \<times> error option \<Rightarrow> bool" where
  "device_ready st \<longleftrightarrow> snd st = None \<and> fst st AND os_ModeDevice \<noteq> 0"

definition poll_failed :: "string \<Rightarrow> 32 word \<times> error option \<Rightarrow> event list" where
  "poll_failed path st = [StatE path (fst st) (snd st), SleepE RetryIntervalSCSI]"

text \<open>The four calls of the discovery loop and of the login that follows it.\<close>

fun is_discovery_step :: "event \<Rightarrow> bool" where
  "is_discovery_step (DiscoverTargetE ip target r) = True"
| "is_discovery_step (IsTargetDiscoveredE ip target b) = True"
| "is_discovery_step (CleanupScsiNodesE target r) = True"
| "is_discovery_step (LoginTargetE ip target r) = True"
| "is_discovery_step e = False"

text \<open>A discovery attempt that \<^verbatim>\<open>IsTargetDiscovered\<close> did not confirm.\<close>

fun is_unconfirmed :: "event \<Rightarrow> bool" where
  "is_unconfirmed (IsTargetDiscoveredE ip target b) = (\<not> b)"
| "is_unconfirmed e = False"

text \<open>A poll of the device node, and one that did not find the node ready.\<close>

fun is_poll :: "event \<Rightarrow> bool" where
  "is_poll (StatE path mode err) = True"
| "is_poll e = False"

fun is_unready_poll :: "event \<Rightarrow> bool" where
  "is_unready_poll (StatE path mode err) = (\<not> device_ready (mode, err))"
| "is_unready_poll e = False"

text \<open>
  What \<^verbatim>\<open>StartScsi\<close> does around its initiator part: the lock, the executor, the check for
  the initiator, the host address and the steps of \<^verbatim>\<open>SetupTarget\<close>.
\<close>

fun is_setup_step :: "event \<Rightarrow> bool" where
  "is_setup_step (LockE ns file timeout r) = True"
| "is_setup_step (UnlockE ns file timeout) = True"
| "is_setup_step (NewNamespaceExecutorE ns r) = True"
| "is_setup_step (GetIPToHostE ip r) = True"
| "is_setup_step (CheckForInitiatorExistenceE r) = True"
| "is_setup_step (StartDaemonE fg r) = True"
| "is_setup_step (FindNextAvailableTargetIDE tid r) = True"
| "is_setup_step (CreateTargetE tid name r) = True"
| "is_setup_step (AddLunE tid lun file bsType bsOpts r) = True"
| "is_setup_step (BindInitiatorE tid initiator r) = True"
| "is_setup_step (LogE lvl fmt args) = (lvl = Info)"
| "is_setup_step (SleepE d) = (d = RetryIntervalTargetID)"
| "is_setup_step e = False"

text \<open>
  The events of one attempt of the allocation loop in which \<^verbatim>\<open>CreateTarget\<close> fails with \<open>e\<close>
  on the candidate \<open>tid\<close>, and of the attempt in which it succeeds.
\<close>

definition create_failed :: "string \<Rightarrow> int \<times> error \<Rightarrow> event list" where
  "create_failed name te =
     [FindNextAvailableTargetIDE (fst te) None,
      LogE Info ''go-iscsi-helper: found available target id %v'' [AInt (fst te)],
      CreateTargetE (fst te) name (Some (snd te)),
      LogE Info ''go-iscsi-helper: failed to use target id %v, retrying with a new target ID: err %v''
        [AInt (fst te), AErr (Some (snd te))],
      SleepE RetryIntervalTargetID]"

definition create_succeeded :: "string \<Rightarrow> int \<Rightarrow> event list" where
  "create_succeeded name tid =
     [FindNextAvailableTargetIDE tid None,
      LogE Info ''go-iscsi-helper: found available target id %v'' [AInt tid],
      CreateTargetE tid name None]"

text \<open>The two texts that \<^verbatim>\<open>LogoutTarget\<close> looks for in an error.\<close>

definition not_found :: "error \<Rightarrow> bool" where
  "not_found e = strings_Contains e ''exit status 21''"

definition timed_out :: "error \<Rightarrow> bool" where
  "timed_out e = strings_Contains e ''Timeout executing: ''"

text \<open>
  The events of a logout attempt that fails with \<open>e\<close> and is retried, of a poll that still
  sees the session, and of an attempt to delete the discovered-target record that fails
  with \<open>e\<close> and is retried.
\<close>

definition logout_failed :: "string \<Rightarrow> string \<Rightarrow> error \<Rightarrow> event list" where
  "logout_failed ip target e = [LogoutTargetE ip target (Some e), SleepE RetryIntervalSCSI]"

definition wait_failed :: "string \<Rightarrow> string \<Rightarrow> event list" where
  "wait_failed ip target = [IsTargetLoggedInE ip target True, SleepE RetryIntervalSCSI]"

definition delete_failed :: "string \<Rightarrow> string \<Rightarrow> error \<Rightarrow> event list" where
  "delete_failed ip target e =
     [IsTargetDiscoveredE ip target True, DeleteDiscoveredTargetE ip target (Some e),
      SleepE RetryIntervalSCSI]"

text \<open>A check of whether a session is logged in.\<close>

fun is_session_check :: "event \<Rightarrow> bool" where
  "is_session_check (IsTargetLoggedInE ip target b) = True"
| "is_session_check e = False"

text \<open>The calls of the logout phase and of the removal of the discovered-target record.\<close>

fun is_logout_call :: "event \<Rightarrow> bool" where
  "is_logout_call (LogoutTargetE ip target r) = True"
| "is_logout_call e = False"

fun is_record_step :: "event \<Rightarrow> bool" where
  "is_record_step (IsTargetDiscoveredE ip target b) = True"
| "is_record_step (DeleteDiscoveredTargetE ip target r) = True"
| "is_record_step e = False"

text \<open>
  The runs of the initiator part of \<^verbatim>\<open>StartScsi\<close> for the host address \<open>ip\<close> and the device
  \<open>dev\<close>: the events \<open>t\<close>, the result \<open>r\<close> and the device \<open>dev'\<close> at the end. First the
  unconfirmed discovery attempts and, unless they reach the bound, the confirmed one;
  then the login; after a login that succeeds the device path; and after a path without
  an error the polls of the device node.
\<close>

definition polls_run :: "string \<Rightarrow> event list \<Rightarrow> error option \<Rightarrow> bool" where
  "polls_run path t r \<longleftrightarrow>
     (\<exists>polls. list_all (\<lambda>st. \<not> device_ready st) polls \<and>
        (t = concat (map (poll_failed path) polls) \<and> length polls = RetryCounts \<and>
           r = Some (''Failed to wait for device '' @ path @ '' to show up'')
         \<or> (\<exists>st. t = concat (map (poll_failed path) polls) @ [StatE path (fst st) (snd st)] \<and>
                 device_ready st) \<and>
           length polls < RetryCounts \<and> r = None))"

definition login_run ::
  "string \<Rightarrow> ScsiDevice \<Rightarrow> event list \<Rightarrow> error option \<Rightarrow> ScsiDevice \<Rightarrow> bool" where
  "login_run ip dev t r dev' \<longleftrightarrow>
     (\<exists>e. t = [LoginTargetE ip (Target dev) (Some e)] \<and> r = Some e \<and> dev' = dev)
     \<or> (\<exists>path e. t = [LoginTargetE ip (Target dev) None,
                       GetDeviceE ip (Target dev) TargetLunID path (Some e)] \<and>
           r = Some e \<and> dev' = dev\<lparr>Device := path\<rparr>)
     \<or> (\<exists>path t2. t = LoginTargetE ip (Target dev) None #
                       GetDeviceE ip (Target dev) TargetLunID path None # t2 \<and>
           polls_run path t2 r \<and> dev' = dev\<lparr>Device := path\<rparr>)"

definition discovery_run :: "string \<Rightarrow> string \<Rightarrow> event list \<Rightarrow> bool" where
  "discovery_run ip target t \<longleftrightarrow>
     (\<exists>fails. t = concat (map (discover_failed ip target) fails) \<and> length fails = RetryCounts)
     \<or> (\<exists>fails e. t = concat (map (discover_failed ip target) fails) @ discover_confirmed ip target e \<and>
           length fails < RetryCounts)"

definition initiator_run ::
  "string \<Rightarrow> ScsiDevice \<Rightarrow> event list \<Rightarrow> error option \<Rightarrow> ScsiDevice \<Rightarrow> bool" where
  "initiator_run ip dev t r dev' \<longleftrightarrow>
     (\<exists>td tl. t = td @ tl \<and> discovery_run ip (Target dev) td \<and> login_run ip dev tl r dev')"

text \<open>
  The runs of the removal of the discovered-target record in \<^verbatim>\<open>LogoutTarget\<close>, with the
  result of the function: a number of deletions that fail with an error other than
  \<^verbatim>\<open>exit status 21\<close>; then either the bound is reached and the last error is the result, or
  the target is found not discovered, or a deletion succeeds or reports \<^verbatim>\<open>exit status 21\<close>.
\<close>

definition record_run :: "string \<Rightarrow> string \<Rightarrow> event list \<Rightarrow> error option \<Rightarrow> bool" where
  "record_run ip target t r \<longleftrightarrow>
     (\<exists>fails. list_all (\<lambda>e. \<not> not_found e) fails \<and>
        (t = concat (map (delete_failed ip target) fails) \<and> length fails = RetryCounts \<and>
           r = Some (last fails)
         \<or> length fails < RetryCounts \<and> r = None \<and>
           (t = concat (map (delete_failed ip target) fails) @ [IsTargetDiscoveredE ip target False]
            \<or> (\<exists>dr. t = concat (map (delete_failed ip target) fails) @
                        [IsTargetDiscoveredE ip target True, DeleteDiscoveredTargetE ip target dr] \<and>
                     (dr = None \<or> (\<exists>e. dr = Some e \<and> not_found e))))))"

text \<open>
  The runs of the logout phase of \<^verbatim>\<open>LogoutTarget\<close>, with the value of \<^verbatim>\<open>err\<close> at the test that
  follows it: a number of logouts that fail with an error that is neither
  \<^verbatim>\<open>exit status 21\<close> nor a timeout; then either the bound is reached, or a logout succeeds or
  reports \<^verbatim>\<open>exit status 21\<close>, or a logout times out and the session is polled.
\<close>

definition logout_run :: "string \<Rightarrow> string \<Rightarrow> event list \<Rightarrow> error option \<Rightarrow> bool" where
  "logout_run ip target t err \<longleftrightarrow>
     (\<exists>fails. list_all (\<lambda>e. \<not> not_found e \<and> \<not> timed_out e) fails \<and>
        (t = concat (map (logout_failed ip target) fails) \<and> length fails = RetryCounts \<and>
           err = Some (last fails)
         \<or> (\<exists>lr. t = concat (map (logout_failed ip target) fails) @ [LogoutTargetE ip target lr] \<and>
                 (lr = None \<or> (\<exists>e. lr = Some e \<and> not_found e))) \<and>
           length fails < RetryCounts \<and> err = None
         \<or> (\<exists>e k. \<not> not_found e \<and> timed_out e \<and> length fails < RetryCounts \<and>
               (t = concat (map (logout_failed ip target) fails) @
                      LogoutTargetE ip target (Some e) #
                      LogE Info ''Logout SCSI device timeout, waiting for logout complete'' [] #
                      concat (replicate k (wait_failed ip target)) \<and>
                  k = RetryCounts \<and> err = Some e
                \<or> t = concat (map (logout_failed ip target) fails) @
                      LogoutTargetE ip target (Some e) #
                      LogE Info ''Logout SCSI device timeout, waiting for logout complete'' [] #
                      concat (replicate k (wait_failed ip target)) @
                      [IsTargetLoggedInE ip target False] \<and>
                  k < RetryCounts \<and> err = None))))"

text \<open>The teardown steps of \<^verbatim>\<open>DeleteTarget\<close>: everything it calls after the lookup of the ID.\<close>

fun is_teardown :: "event \<Rightarrow> bool" where
  "is_teardown (UnbindInitiatorE tid initiator r) = True"
| "is_teardown (DeleteLunE tid lun r) = True"
| "is_teardown (GetTargetConnectionsE tid m r) = True"
| "is_teardown (CloseConnectionE tid sid cid r) = True"
| "is_teardown (DeleteTargetE tid r) = True"
| "is_teardown e = False"

text \<open>
  A set \<open>A\<close> of states of the world in which the host answers and the target is absent (no
  session is logged in and no live target has the name), and which no call that
  \<^verbatim>\<open>StopScsi\<close> makes there leaves.
\<close>

definition absent_host :: "('w, 'ne) iscsi \<Rightarrow> string \<Rightarrow> ('w \<Rightarrow> bool) \<Rightarrow> bool" where
  "absent_host env target A \<longleftrightarrow>
     (\<forall>w. A w \<longrightarrow>
        (\<forall>ns file t. fst (lock_Lock env ns file t w) = None
            \<and> A (snd (lock_Lock env ns file t w)) \<and> A (lock_Unlock env ns file t w))
      \<and> (\<forall>ns. snd (fst (util_NewNamespaceExecutor env ns w)) = None
            \<and> A (snd (util_NewNamespaceExecutor env ns w)))
      \<and> snd (fst (util_GetIPToHost env w)) = None \<and> A (snd (util_GetIPToHost env w))
      \<and> (\<forall>ne. fst (iscsi_CheckForInitiatorExistence env ne w) = None
            \<and> A (snd (iscsi_CheckForInitiatorExistence env ne w)))
      \<and> (\<forall>ip ne. \<not> fst (iscsi_IsTargetLoggedIn env ip target ne w)
            \<and> A (snd (iscsi_IsTargetLoggedIn env ip target ne w)))
      \<and> fst (iscsi_GetTargetTid env target w) = (- 1, None)
      \<and> A (snd (iscsi_GetTargetTid env target w)))"

section \<open>The target name\<close>

lemma strings_Replace_char:
  "a \<noteq> b \<Longrightarrow> n < 0 \<Longrightarrow>
   strings_Replace s [a] [b] n = map (\<lambda>c. if c = a then b else c) s"
proof (induction s)
  case Nil
  then show ?case by (simp add: strings_Replace.simps)
next
  case (Cons c cs)
  then show ?case
    by (subst strings_Replace.simps) auto
qed

lemma Volume2ISCSIName_map:
  "Volume2ISCSIName name = map (\<lambda>c. if c = CHR ''_'' then CHR '':'' else c) name"
  unfolding Volume2ISCSIName_def by (rule strings_Replace_char) simp_all

lemma map_replace_inj:
  "length xs = length ys \<Longrightarrow>
   list_all (\<lambda>(x, y). x = y \<or> (x \<noteq> a \<and> y \<noteq> a)) (zip xs ys) \<Longrightarrow>
   map (\<lambda>c. if c = a then b else c) xs = map (\<lambda>c. if c = a then b else c) ys \<Longrightarrow>
   xs = ys"
  by (induction xs ys rule: list_induct2) (auto split: if_splits)

text \<open>
  C5. For every volume name the target identifier is the authority prefix
  \<^verbatim>\<open>iqn.2014-09.com.rancher:\<close> followed by the name with every \<^verbatim>\<open>_\<close> replaced by \<^verbatim>\<open>:\<close>. Equal
  names give equal identifiers, and two different names that differ only by characters
  other than \<^verbatim>\<open>_\<close> (at every position where both have a character and the characters
  differ, neither is \<^verbatim>\<open>_\<close>) give different identifiers.
\<close>

theorem GetTargetName_spec:
  "GetTargetName name =
     ''iqn.2014-09.com.rancher:'' @ map (\<lambda>c. if c = CHR ''_'' then CHR '':'' else c) name
   \<and> (name = name' \<longrightarrow> GetTargetName name = GetTargetName name')
   \<and> (name \<noteq> name'
        \<and> list_all (\<lambda>(a, b). a = b \<or> (a \<noteq> CHR ''_'' \<and> b \<noteq> CHR ''_'')) (zip name name')
      \<longrightarrow> GetTargetName name \<noteq> GetTargetName name')"
proof (intro conjI impI)
  show "GetTargetName name =
     ''iqn.2014-09.com.rancher:'' @ map (\<lambda>c. if c = CHR ''_'' then CHR '':'' else c) name"
    by (simp add: GetTargetName_def Volume2ISCSIName_map)
next
  assume "name = name'"
  then show "GetTargetName name = GetTargetName name'" by simp
next
  let ?f = "\<lambda>c. if c = CHR ''_'' then CHR '':'' else c"
  assume h: "name \<noteq> name'
        \<and> list_all (\<lambda>(a, b). a = b \<or> (a \<noteq> CHR ''_'' \<and> b \<noteq> CHR ''_'')) (zip name name')"
  show "GetTargetName name \<noteq> GetTargetName name'"
  proof
    assume "GetTargetName name = GetTargetName name'"
    then have eq: "map ?f name = map ?f name'"
      by (simp add: GetTargetName_def Volume2ISCSIName_map)
    then have len: "length name = length name'"
      by (rule map_eq_imp_length_eq)
    from h have "list_all (\<lambda>(a, b). a = b \<or> (a \<noteq> CHR ''_'' \<and> b \<noteq> CHR ''_'')) (zip name name')"
      by (rule conjunct2)
    with len have "name = name'"
      using eq by (rule map_replace_inj)
    with h show False by simp
  qed
qed

theorem GetTargetName_spec_witness:
  "GetTargetName ''data_01'' = ''iqn.2014-09.com.rancher:data:01''
   \<and> GetTargetName ''data_01'' \<noteq> GetTargetName ''data_02''"
proof -
  have h: "''data_01'' \<noteq> ''data_02''
     \<and> list_all (\<lambda>(a, b). a = b \<or> (a \<noteq> CHR ''_'' \<and> b \<noteq> CHR ''_''))
         (zip ''data_01'' ''data_02'')"
    by simp
  have "GetTargetName ''data_01'' = ''iqn.2014-09.com.rancher:data:01''"
    using GetTargetName_spec [of "''data_01''" "''data_02''"] by simp
  moreover have "GetTargetName ''data_01'' \<noteq> GetTargetName ''data_02''"
    using GetTargetName_spec [of "''data_01''" "''data_02''"] h by blast
  ultimately show ?thesis by simp
qed

section \<open>DeleteTarget and StopScsi\<close>

lemma absent_hostD:
  assumes "absent_host env target A" "A w"
  shows "fst (lock_Lock env ns file t w) = None" "A (snd (lock_Lock env ns file t w))"
    "A (lock_Unlock env ns file t w)"
    "snd (fst (util_NewNamespaceExecutor env ns w)) = None"
    "A (snd (util_NewNamespaceExecutor env ns w))"
    "snd (fst (util_GetIPToHost env w)) = None" "A (snd (util_GetIPToHost env w))"
    "fst (iscsi_CheckForInitiatorExistence env ne w) = None"
    "A (snd (iscsi_CheckForInitiatorExistence env ne w))"
    "\<not> fst (iscsi_IsTargetLoggedIn env ip target ne w)"
    "A (snd (iscsi_IsTargetLoggedIn env ip target ne w))"
    "fst (iscsi_GetTargetTid env target w) = (- 1, None)"
    "A (snd (iscsi_GetTargetTid env target w))"
  using assms unfolding absent_host_def by blast+

text \<open>
  On a host where the target is absent, \<^verbatim>\<open>StopScsi\<close> takes the lock, finds no session and no
  live target, and releases the lock.
\<close>

lemma StopScsi_absent:
  assumes "absent_host env (GetTargetName volumeName) A" "A (fst s)"
  shows "\<exists>w' ns ns' ip. A w' \<and> StopScsi env volumeName targetID s =
     (Return None, (w', snd s @ [LockE ns LockFile LockTimeout None,
        NewNamespaceExecutorE ns' None, GetIPToHostE ip None,
        CheckForInitiatorExistenceE None,
        IsTargetLoggedInE ip (GetTargetName volumeName) False,
        GetTargetTidE (GetTargetName volumeName) (- 1) None,
        UnlockE ns LockFile LockTimeout]))"
  using assms
  by (simp add: StopScsi_def DeleteTarget_def effect_def LogoutTarget_def call_def
      case_prod_beta absent_hostD)

text \<open>
  C4. When the lookup finds a live target (no error, an ID other than \<open>- 1\<close>) whose ID is
  not the one the caller expects, \<^verbatim>\<open>DeleteTarget\<close> ends the process with the fatal log
  line: the run of the function consists of the lookup and that line, so no initiator is
  unbound, no LUN deleted, no connection listed or closed and no target deleted.
\<close>

theorem DeleteTarget_mismatch_fatal:
  assumes "iscsi_GetTargetTid env target (fst s) = ((tid, None), w')"
    and "tid \<noteq> - 1" and "tid \<noteq> targetID"
  shows "DeleteTarget env target targetID s =
           (ProcessExit 1,
            (w', snd s @ [GetTargetTidE target tid None,
                LogE Fatal ''BUG: Invalid TID %v found for %v'' [AInt tid, AStr target]]))
         \<and> list_all (\<lambda>e. \<not> is_teardown e)
             (drop (length (snd s)) (snd (snd (DeleteTarget env target targetID s))))"
  using assms by (simp add: DeleteTarget_def call_def logf_def)

theorem DeleteTarget_mismatch_fatal_witness:
  "DeleteTarget sim_live ''iqn.2014-09.com.rancher:data:01'' 3 (0, []) =
     (ProcessExit 1,
      (0, [GetTargetTidE ''iqn.2014-09.com.rancher:data:01'' 7 None,
           LogE Fatal ''BUG: Invalid TID %v found for %v''
             [AInt 7, AStr ''iqn.2014-09.com.rancher:data:01'']]))"
proof -
  have h: "iscsi_GetTargetTid sim_live ''iqn.2014-09.com.rancher:data:01''
             (fst (0::nat, [] :: event list)) = ((7, None), 0)"
    by (simp add: sim_live_def sim_def)
  have "(7::int) \<noteq> - 1" and "(7::int) \<noteq> 3" by simp_all
  with DeleteTarget_mismatch_fatal [OF h, of 3] show ?thesis by simp
qed

text \<open>
  C6. When the lookup reports the absent sentinel \<open>- 1\<close> without an error, \<^verbatim>\<open>DeleteTarget\<close>
  returns \<^verbatim>\<open>nil\<close> and its run is the lookup alone. On a host where the target is absent
  and stays so, \<^verbatim>\<open>StopScsi\<close> called twice in a row returns \<^verbatim>\<open>nil\<close> both times, and neither call
  makes a teardown step.
\<close>

theorem DeleteTarget_absent_noop:
  "(iscsi_GetTargetTid env target (fst s) = ((- 1, None), w') \<longrightarrow>
      DeleteTarget env target targetID s =
        (Return None, (w', snd s @ [GetTargetTidE target (- 1) None])))
   \<and> (absent_host env (GetTargetName volumeName) A \<and> A (fst s0) \<longrightarrow>
        (case StopScsi env volumeName targetID s0 of
           (r1, s1) \<Rightarrow>
             r1 = Return None \<and>
             (case StopScsi env volumeName targetID s1 of
                (r2, s2) \<Rightarrow>
                  r2 = Return None \<and>
                  list_all (\<lambda>e. \<not> is_teardown e) (drop (length (snd s0)) (snd s2)))))"
proof (intro conjI impI)
  assume "iscsi_GetTargetTid env target (fst s) = ((- 1, None), w')"
  then show "DeleteTarget env target targetID s =
        (Return None, (w', snd s @ [GetTargetTidE target (- 1) None]))"
    by (simp add: DeleteTarget_def call_def)
next
  assume h: "absent_host env (GetTargetName volumeName) A \<and> A (fst s0)"
  then obtain w1 t1 where
    1: "StopScsi env volumeName targetID s0 = (Return None, (w1, snd s0 @ t1))"
    and A1: "A w1" and t1: "list_all (\<lambda>e. \<not> is_teardown e) t1"
    using StopScsi_absent [of env volumeName A s0 targetID] by auto
  from h A1 obtain w2 t2 where
    2: "StopScsi env volumeName targetID (w1, snd s0 @ t1) = (Return None, (w2, (snd s0 @ t1) @ t2))"
    and t2: "list_all (\<lambda>e. \<not> is_teardown e) t2"
    using StopScsi_absent [of env volumeName A "(w1, snd s0 @ t1)" targetID] by auto
  from 1 2 t1 t2
  show "case StopScsi env volumeName targetID s0 of
           (r1, s1) \<Rightarrow>
             r1 = Return None \<and>
             (case StopScsi env volumeName targetID s1 of
                (r2, s2) \<Rightarrow>
                  r2 = Return None \<and>
                  list_all (\<lambda>e. \<not> is_teardown e) (drop (length (snd s0)) (snd s2)))"
    by simp
qed

theorem DeleteTarget_absent_noop_witness:
  "DeleteTarget sim ''iqn.2014-09.com.rancher:data:01'' 3 (0, []) =
     (Return None, (0, [GetTargetTidE ''iqn.2014-09.com.rancher:data:01'' (- 1) None]))
   \<and> fst (StopScsi sim ''data_01'' 3 (0, [])) = Return None
   \<and> fst (StopScsi sim ''data_01'' 3 (snd (StopScsi sim ''data_01'' 3 (0, [])))) = Return None"
proof -
  have h1: "iscsi_GetTargetTid sim ''iqn.2014-09.com.rancher:data:01''
              (fst (0::nat, [] :: event list)) = ((- 1, None), 0)"
    by (simp add: sim_def)
  have h2: "absent_host sim (GetTargetName ''data_01'') (\<lambda>w. True)
              \<and> (\<lambda>w. True) (fst (0::nat, [] :: event list))"
    by (simp add: absent_host_def sim_def)
  note inst = DeleteTarget_absent_noop [of sim "''iqn.2014-09.com.rancher:data:01''"
      "(0, [])" 0 3 "''data_01''" "\<lambda>w. True" "(0, [])"]
  from inst h1 have a: "DeleteTarget sim ''iqn.2014-09.com.rancher:data:01'' 3 (0, []) =
     (Return None, (0, [GetTargetTidE ''iqn.2014-09.com.rancher:data:01'' (- 1) None]))"
    by simp
  note b = inst [THEN conjunct2, THEN mp, OF h2]
  from a b show ?thesis by (simp add: case_prod_beta)
qed

text \<open>
  C10. When the lookup of the target ID itself returns an error, \<^verbatim>\<open>DeleteTarget\<close> returns
  \<^verbatim>\<open>nil\<close> and its run is the lookup alone, whatever ID came with the error. So \<^verbatim>\<open>StopScsi\<close>,
  once it holds the lock and \<^verbatim>\<open>LogoutTarget\<close> has returned \<^verbatim>\<open>nil\<close>, returns \<^verbatim>\<open>nil\<close> too: after
  the failed lookup it only releases the lock.
\<close>

theorem DeleteTarget_lookup_error_success:
  "(iscsi_GetTargetTid env target (fst s) = ((tid, Some e), w') \<longrightarrow>
      DeleteTarget env target targetID s =
        (Return None, (w', snd s @ [GetTargetTidE target tid (Some e)])))
   \<and> (call (lock_Lock env (util_GetHostNamespacePath env HostProc) LockFile LockTimeout)
          (LockE (util_GetHostNamespacePath env HostProc) LockFile LockTimeout) s0 = (None, s1)
       \<and> LogoutTarget env (GetTargetName volumeName) s1 = (None, s2)
       \<and> iscsi_GetTargetTid env (GetTargetName volumeName) (fst s2) = ((tid', Some e'), w'')
      \<longrightarrow> StopScsi env volumeName targetID s0 =
            (Return None,
             (lock_Unlock env (util_GetHostNamespacePath env HostProc) LockFile LockTimeout w'',
              snd s2 @ [GetTargetTidE (GetTargetName volumeName) tid' (Some e'),
                        UnlockE (util_GetHostNamespacePath env HostProc) LockFile LockTimeout])))"
  by (simp add: StopScsi_def DeleteTarget_def call_def effect_def)

theorem DeleteTarget_lookup_error_success_witness:
  "DeleteTarget sim_lookup_fails ''iqn.2014-09.com.rancher:data:01'' 7 (0, []) =
     (Return None,
      (0, [GetTargetTidE ''iqn.2014-09.com.rancher:data:01'' 7 (Some ''exit status 107'')]))
   \<and> fst (StopScsi sim_lookup_fails ''data_01'' 7 (0, [])) = Return None"
proof -
  let ?ns = "util_GetHostNamespacePath sim_lookup_fails HostProc"
  let ?t = "''iqn.2014-09.com.rancher:data:01''"
  let ?s1 = "(0::nat, [LockE ?ns LockFile LockTimeout None])"
  let ?s2 = "(0::nat, [LockE ?ns LockFile LockTimeout None, NewNamespaceExecutorE ?ns None,
      GetIPToHostE ''10.0.0.1'' None, CheckForInitiatorExistenceE None,
      IsTargetLoggedInE ''10.0.0.1'' (GetTargetName ''data_01'') False])"
  have h1: "iscsi_GetTargetTid sim_lookup_fails ?t (fst (0::nat, [] :: event list))
              = ((7, Some ''exit status 107''), 0)"
    by (simp add: sim_lookup_fails_def sim_def)
  have h2: "call (lock_Lock sim_lookup_fails ?ns LockFile LockTimeout)
              (LockE ?ns LockFile LockTimeout) (0, []) = (None, ?s1)"
    by (simp add: call_def sim_lookup_fails_def sim_def)
  have h3: "LogoutTarget sim_lookup_fails (GetTargetName ''data_01'') ?s1 = (None, ?s2)"
    by (simp add: LogoutTarget_def call_def sim_lookup_fails_def sim_def)
  have h4: "iscsi_GetTargetTid sim_lookup_fails (GetTargetName ''data_01'') (fst ?s2)
              = ((7, Some ''exit status 107''), 0)"
    by (simp add: sim_lookup_fails_def sim_def)
  note inst = DeleteTarget_lookup_error_success [of sim_lookup_fails ?t "(0, [])" 7
      "''exit status 107''" 0 7 "(0, [])" ?s1 "''data_01''" ?s2 7 "''exit status 107''" 0]
  from inst h1 have "DeleteTarget sim_lookup_fails ?t 7 (0, []) =
     (Return None, (0, [GetTargetTidE ?t 7 (Some ''exit status 107'')]))"
    by simp
  moreover from inst h2 h3 h4
  have "fst (StopScsi sim_lookup_fails ''data_01'' 7 (0, [])) = Return None"
    by simp
  ultimately show ?thesis by simp
qed

section \<open>SetupTarget\<close>

text \<open>
  The run of the allocation loop: a number of attempts in which \<^verbatim>\<open>CreateTarget\<close> fails, and
  then either nothing more (the bound is reached), or the attempt that succeeds, or a
  failure of \<^verbatim>\<open>FindNextAvailableTargetID\<close>, which returns from \<^verbatim>\<open>SetupTarget\<close>.
\<close>

lemma SetupTarget_loop_shape:
  "SetupTarget_loop env i dev s = (r, dev', s') \<Longrightarrow>
   \<exists>fails tl. snd s' = snd s @ concat (map (create_failed (Target dev)) fails) @ tl \<and>
     (tl = [] \<and> i + length fails = max i RetryCounts \<and> r = None \<and> dev' = dev
      \<or> (\<exists>tid. tl = create_succeeded (Target dev) tid \<and> r = None \<and> dev' = dev\<lparr>TargetID := tid\<rparr>)
          \<and> i + length fails < RetryCounts
      \<or> (\<exists>tid e. tl = [FindNextAvailableTargetIDE tid (Some e)] \<and> r = Some e \<and> dev' = dev)
          \<and> i + length fails < RetryCounts)"
proof (induction "RetryCounts - i" arbitrary: i s)
  case 0
  then have "SetupTarget_loop env i dev s = (None, dev, s)"
    by (subst SetupTarget_loop.simps) simp
  with 0 show ?case
    by (intro exI [of _ "[]"]) simp
next
  case (Suc n)
  then have lt: "i < RetryCounts" and n: "n = RetryCounts - (i + 1)" by simp_all
  obtain tid fe w1 where c1: "iscsi_FindNextAvailableTargetID env (fst s) = ((tid, fe), w1)"
    by (metis surj_pair)
  show ?case
  proof (cases fe)
    case (Some e)
    with lt c1 Suc.prems
    have "snd s' = snd s @ [FindNextAvailableTargetIDE tid (Some e)] \<and> r = Some e \<and> dev' = dev"
      by (subst (asm) SetupTarget_loop.simps) (auto simp: call_def)
    with lt show ?thesis
      by (intro exI [of _ "[]"] exI [of _ "[FindNextAvailableTargetIDE tid (Some e)]"]) auto
  next
    case None
    obtain ce w2 where c2: "iscsi_CreateTarget env tid (Target dev) w1 = (ce, w2)"
      by (metis surj_pair)
    show ?thesis
    proof (cases ce)
      case None
      with lt c1 c2 \<open>fe = None\<close> Suc.prems
      have "snd s' = snd s @ create_succeeded (Target dev) tid \<and> r = None
            \<and> dev' = dev\<lparr>TargetID := tid\<rparr>"
        by (subst (asm) SetupTarget_loop.simps)
           (auto simp: call_def logf_def create_succeeded_def)
      with lt show ?thesis
        by (intro exI [of _ "[]"] exI [of _ "create_succeeded (Target dev) tid"]) auto
    next
      case (Some e)
      let ?s3 = "(time_Sleep env RetryIntervalTargetID w2,
                  snd s @ create_failed (Target dev) (tid, e))"
      from lt c1 c2 \<open>fe = None\<close> Some Suc.prems
      have rec: "SetupTarget_loop env (i + 1) dev ?s3 = (r, dev', s')"
        by (subst (asm) SetupTarget_loop.simps)
           (auto simp: call_def logf_def sleep_def effect_def create_failed_def)
      from Suc.hyps(1) [OF n rec] obtain fails tl where
        f: "snd s' = snd ?s3 @ concat (map (create_failed (Target dev)) fails) @ tl"
        and g: "tl = [] \<and> (i + 1) + length fails = max (i + 1) RetryCounts \<and> r = None \<and> dev' = dev
      \<or> (\<exists>tid. tl = create_succeeded (Target dev) tid \<and> r = None \<and> dev' = dev\<lparr>TargetID := tid\<rparr>)
          \<and> (i + 1) + length fails < RetryCounts
      \<or> (\<exists>tid e. tl = [FindNextAvailableTargetIDE tid (Some e)] \<and> r = Some e \<and> dev' = dev)
          \<and> (i + 1) + length fails < RetryCounts"
        by blast
      show ?thesis
        using f g lt
        by (intro exI [of _ "(tid, e) # fails"] exI [of _ tl]) auto
    qed
  qed
qed

lemma create_failed_steps: "list_all is_setup_step (concat (map (create_failed name) fails))"
  by (induction fails) (simp_all add: create_failed_def)

lemma SetupTarget_loop_steps:
  assumes "SetupTarget_loop env i dev s = (r, dev', s')"
  shows "\<exists>t. snd s' = snd s @ t \<and> list_all is_setup_step t \<and> Target dev' = Target dev"
  using SetupTarget_loop_shape [OF assms]
  by (auto simp: create_failed_steps create_succeeded_def)

lemma SetupTarget_steps:
  assumes "SetupTarget env dev s = (r, dev', s')"
  shows "\<exists>t. snd s' = snd s @ t \<and> list_all is_setup_step t \<and> Target dev' = Target dev"
proof -
  obtain e1 w1 where c1: "iscsi_StartDaemon env False (fst s) = (e1, w1)" by (metis surj_pair)
  let ?s1 = "(w1, snd s @ [StartDaemonE False e1])"
  show ?thesis
  proof (cases e1)
    case (Some e)
    with assms c1 show ?thesis by (auto simp: SetupTarget_def call_def)
  next
    case None
    obtain r2 dev2 s2 where c2: "SetupTarget_loop env 0 dev ?s1 = (r2, dev2, s2)"
      by (metis prod_cases3)
    from SetupTarget_loop_steps [OF c2] obtain t2 where
      t2: "snd s2 = snd s @ StartDaemonE False e1 # t2" "list_all is_setup_step t2"
         "Target dev2 = Target dev" by auto
    from assms c1 c2 None t2 show ?thesis
      by (auto simp: SetupTarget_def call_def split: option.splits prod.splits)
  qed
qed

section \<open>StartScsi\<close>

lemma discover_loop_shape:
  "StartScsi_discover_loop env ip dev ne i err s = (err', s') \<Longrightarrow>
   \<exists>fails conf. snd s' = snd s @ concat (map (discover_failed ip (Target dev)) fails) @ conf \<and>
     (conf = [] \<and> i + length fails = max i RetryCounts
      \<or> (\<exists>e. conf = discover_confirmed ip (Target dev) e) \<and> i + length fails < RetryCounts)"
proof (induction "RetryCounts - i" arbitrary: i err s)
  case 0
  then have "StartScsi_discover_loop env ip dev ne i err s = (err, s)"
    by (subst StartScsi_discover_loop.simps) simp
  with 0 show ?case
    by (intro exI [of _ "[]"]) simp
next
  case (Suc n)
  then have lt: "i < RetryCounts" and n: "n = RetryCounts - (i + 1)" by simp_all
  obtain e1 w1 where c1: "iscsi_DiscoverTarget env ip (Target dev) ne (fst s) = (e1, w1)"
    by (metis surj_pair)
  obtain b w2 where c2: "iscsi_IsTargetDiscovered env ip (Target dev) ne w1 = (b, w2)"
    by (metis surj_pair)
  show ?case
  proof (cases b)
    case True
    with lt c1 c2 Suc.prems
    have "snd s' = snd s @ discover_confirmed ip (Target dev) e1"
      by (subst (asm) StartScsi_discover_loop.simps)
         (auto simp: call_def discover_confirmed_def)
    with lt show ?thesis
      by (intro exI [of _ "[]"] exI [of _ "discover_confirmed ip (Target dev) e1"]) auto
  next
    case False
    obtain c w3 where c3: "iscsi_CleanupScsiNodes env (Target dev) ne w2 = (c, w3)"
      by (metis surj_pair)
    let ?s4 = "(time_Sleep env RetryIntervalSCSI w3,
                snd s @ discover_failed ip (Target dev) (e1, c))"
    from lt c1 c2 c3 False Suc.prems
    have rec: "StartScsi_discover_loop env ip dev ne (i + 1) e1 ?s4 = (err', s')"
      by (subst (asm) StartScsi_discover_loop.simps)
         (auto simp: call_def logf_def sleep_def effect_def discover_failed_def
               split: option.splits)
    from Suc.hyps(1) [OF n rec] obtain fails conf where
      f: "snd s' = snd ?s4 @ concat (map (discover_failed ip (Target dev)) fails) @ conf"
      and g: "conf = [] \<and> (i + 1) + length fails = max (i + 1) RetryCounts
        \<or> (\<exists>e. conf = discover_confirmed ip (Target dev) e) \<and> (i + 1) + length fails < RetryCounts"
      by blast
    show ?thesis
      using f g lt
      by (intro exI [of _ "(e1, c) # fails"] exI [of _ conf]) auto
  qed
qed

lemma discover_loop_run:
  assumes "StartScsi_discover_loop env ip dev ne 0 err s = (err', s')"
  shows "\<exists>t. snd s' = snd s @ t \<and> discovery_run ip (Target dev) t"
  using discover_loop_shape [OF assms]
  unfolding discovery_run_def by (elim exE conjE disjE) auto

lemma device_loop_shape:
  "StartScsi_device_loop env dev i s = (found, s') \<Longrightarrow>
   \<exists>polls tl. snd s' = snd s @ concat (map (poll_failed (Device dev)) polls) @ tl \<and>
     list_all (\<lambda>st. \<not> device_ready st) polls \<and>
     (tl = [] \<and> \<not> found \<and> i + length polls = max i RetryCounts
      \<or> (\<exists>st. tl = [StatE (Device dev) (fst st) (snd st)] \<and> device_ready st) \<and> found
          \<and> i + length polls < RetryCounts)"
proof (induction "RetryCounts - i" arbitrary: i s)
  case 0
  then have "StartScsi_device_loop env dev i s = (False, s)"
    by (subst StartScsi_device_loop.simps) simp
  with 0 show ?case
    by (intro exI [of _ "[]"]) simp
next
  case (Suc n)
  then have lt: "i < RetryCounts" and n: "n = RetryCounts - (i + 1)" by simp_all
  obtain st w1 where c1: "os_Stat env (Device dev) (fst s) = (st, w1)"
    by (metis surj_pair)
  show ?case
  proof (cases "device_ready st")
    case True
    with lt c1 Suc.prems
    have "snd s' = snd s @ [StatE (Device dev) (fst st) (snd st)] \<and> found"
      by (subst (asm) StartScsi_device_loop.simps)
         (auto simp: call_def device_ready_def split: prod.splits)
    with lt True show ?thesis
      by (intro exI [of _ "[]"] exI [of _ "[StatE (Device dev) (fst st) (snd st)]"]) auto
  next
    case False
    let ?s2 = "(time_Sleep env RetryIntervalSCSI w1, snd s @ poll_failed (Device dev) st)"
    from lt c1 False Suc.prems
    have rec: "StartScsi_device_loop env dev (i + 1) ?s2 = (found, s')"
      by (subst (asm) StartScsi_device_loop.simps)
         (auto simp: call_def sleep_def effect_def device_ready_def poll_failed_def
               split: prod.splits if_splits)
    from Suc.hyps(1) [OF n rec] obtain polls tl where
      f: "snd s' = snd ?s2 @ concat (map (poll_failed (Device dev)) polls) @ tl"
      and p: "list_all (\<lambda>st. \<not> device_ready st) polls"
      and g: "tl = [] \<and> \<not> found \<and> (i + 1) + length polls = max (i + 1) RetryCounts
      \<or> (\<exists>st. tl = [StatE (Device dev) (fst st) (snd st)] \<and> device_ready st) \<and> found
          \<and> (i + 1) + length polls < RetryCounts"
      by blast
    show ?thesis
      using f g p lt False
      by (intro exI [of _ "st # polls"] exI [of _ tl]) auto
  qed
qed

lemma device_loop_run:
  assumes "StartScsi_device_loop env dev 0 s = (found, s')"
  shows "\<exists>t. snd s' = snd s @ t \<and>
     polls_run (Device dev) t
       (if \<not> found then Some (''Failed to wait for device '' @ Device dev @ '' to show up'')
        else None)"
  using device_loop_shape [OF assms]
  unfolding polls_run_def by (elim exE conjE disjE) auto

lemma StartScsi_initiator_run:
  assumes "StartScsi_initiator env ip dev ne s = (r, dev', s')"
  shows "\<exists>t. snd s' = snd s @ t \<and> initiator_run ip dev t r dev'"
proof -
  obtain err1 s1 where c1: "StartScsi_discover_loop env ip dev ne 0 None s = (err1, s1)"
    by (metis surj_pair)
  from discover_loop_run [OF c1] obtain td where
    td: "snd s1 = snd s @ td" "discovery_run ip (Target dev) td" by blast
  obtain lr w2 where c2: "iscsi_LoginTarget env ip (Target dev) ne (fst s1) = (lr, w2)"
    by (metis surj_pair)
  have "\<exists>tl. snd s' = snd s1 @ tl \<and> login_run ip dev tl r dev'"
  proof (cases lr)
    case (Some e)
    with assms c1 c2 show ?thesis
      by (auto simp: StartScsi_initiator_def call_def login_run_def)
  next
    case None
    obtain path gr w3 where c3:
      "iscsi_GetDevice env ip (Target dev) TargetLunID ne w2 = ((path, gr), w3)"
      by (metis surj_pair)
    show ?thesis
    proof (cases gr)
      case (Some e)
      with assms c1 c2 c3 None show ?thesis
        by (auto simp: StartScsi_initiator_def call_def login_run_def)
    next
      case gnone: None
      let ?s3 = "(w3, snd s1 @ [LoginTargetE ip (Target dev) None,
                   GetDeviceE ip (Target dev) TargetLunID path None])"
      obtain found s4 where c4:
        "StartScsi_device_loop env (dev\<lparr>Device := path\<rparr>) 0 ?s3 = (found, s4)"
        by (metis surj_pair)
      from device_loop_run [OF c4] obtain t2 where
        t2: "snd s4 = snd ?s3 @ t2"
          "polls_run path t2
             (if \<not> found then Some (''Failed to wait for device '' @ path @ '' to show up'')
              else None)"
        by (auto cong: if_cong)
      from assms c1 c2 c3 c4 None gnone
      have "s' = s4" "dev' = dev\<lparr>Device := path\<rparr>"
        "r = (if \<not> found then Some (''Failed to wait for device '' @ path @ '' to show up'')
              else None)"
        by (auto simp: StartScsi_initiator_def call_def split: if_splits)
      with t2 show ?thesis
        by (auto simp: login_run_def)
    qed
  qed
  with td show ?thesis
    by (auto simp: initiator_run_def)
qed

text \<open>
  Every run of \<^verbatim>\<open>StartScsi\<close> either fails in the steps before the initiator part, or
  consists of such steps, a run of the initiator part and the release of the lock.
\<close>

lemma StartScsi_locked_shape:
  assumes "StartScsi_locked env dev s = (r, dev', s')"
  shows "\<exists>t. snd s' = snd s @ t \<and>
     (r \<noteq> None \<and> list_all is_setup_step t
      \<or> (\<exists>pre ip dev1 it. t = pre @ it \<and> list_all is_setup_step pre \<and>
            Target dev1 = Target dev \<and> initiator_run ip dev1 it r dev'))"
proof -
  let ?ns = "util_GetHostNamespacePath env HostProc"
  obtain ne e1 w1 where c1: "util_NewNamespaceExecutor env ?ns (fst s) = ((ne, e1), w1)"
    by (metis surj_pair)
  obtain e2 w2 where c2: "iscsi_CheckForInitiatorExistence env ne w1 = (e2, w2)"
    by (metis surj_pair)
  obtain localIP e3 w3 where c3: "util_GetIPToHost env w2 = ((localIP, e3), w3)"
    by (metis surj_pair)
  let ?s3 = "(w3, snd s @ [NewNamespaceExecutorE ?ns None, CheckForInitiatorExistenceE None,
                GetIPToHostE localIP None])"
  obtain e4 dev1 s4 where c4: "SetupTarget env dev ?s3 = (e4, dev1, s4)"
    by (metis prod_cases3)
  from SetupTarget_steps [OF c4] obtain t4 where
    t4: "snd s4 = snd ?s3 @ t4" "list_all is_setup_step t4" "Target dev1 = Target dev"
    by blast
  consider (early) "e1 \<noteq> None \<or> e2 \<noteq> None \<or> e3 \<noteq> None \<or> e4 \<noteq> None"
    | (init) "e1 = None" "e2 = None" "e3 = None" "e4 = None" by blast
  then show ?thesis
  proof cases
    case early
    with assms c1 c2 c3 c4 t4 show ?thesis
      by (auto simp: StartScsi_locked_def call_def split: option.splits)
  next
    case init
    with assms c1 c2 c3 c4
    have c5: "StartScsi_initiator env localIP dev1 ne s4 = (r, dev', s')"
      by (auto simp: StartScsi_locked_def call_def)
    from StartScsi_initiator_run [OF c5] obtain it where
      it: "snd s' = snd s4 @ it" "initiator_run localIP dev1 it r dev'" by blast
    show ?thesis
    proof (intro exI conjI disjI2)
      show "snd s' = snd s @ ([NewNamespaceExecutorE ?ns None, CheckForInitiatorExistenceE None,
                GetIPToHostE localIP None] @ t4) @ it"
        using it t4 by simp
      show "list_all is_setup_step ([NewNamespaceExecutorE ?ns None,
                CheckForInitiatorExistenceE None, GetIPToHostE localIP None] @ t4)"
        using t4 by simp
      show "Target dev1 = Target dev" by fact
      show "initiator_run localIP dev1 it r dev'" by fact
    qed simp
  qed
qed

lemma StartScsi_shape:
  assumes "StartScsi env dev s = (r, dev', s')"
  shows "\<exists>t. snd s' = snd s @ t \<and>
     (r \<noteq> None \<and> list_all is_setup_step t
      \<or> (\<exists>pre ip dev1 it. t = pre @ it @
               [UnlockE (util_GetHostNamespacePath env HostProc) LockFile LockTimeout] \<and>
            list_all is_setup_step pre \<and>
            Target dev1 = Target dev \<and> initiator_run ip dev1 it r dev'))"
proof -
  let ?ns = "util_GetHostNamespacePath env HostProc"
  obtain e1 w1 where c1: "lock_Lock env ?ns LockFile LockTimeout (fst s) = (e1, w1)"
    by (metis surj_pair)
  show ?thesis
  proof (cases e1)
    case (Some e)
    with assms c1 show ?thesis
      by (auto simp: StartScsi_def call_def)
  next
    case None
    let ?s1 = "(w1, snd s @ [LockE ?ns LockFile LockTimeout None])"
    obtain r2 dev2 s2 where c2: "StartScsi_locked env dev ?s1 = (r2, dev2, s2)"
      by (metis prod_cases3)
    from assms c1 c2 None
    have eq: "r = r2" "dev' = dev2"
      "snd s' = snd s2 @ [UnlockE ?ns LockFile LockTimeout]"
      by (auto simp: StartScsi_def call_def effect_def)
    from StartScsi_locked_shape [OF c2] obtain t where
      t: "snd s2 = snd ?s1 @ t"
      and d: "r2 \<noteq> None \<and> list_all is_setup_step t
      \<or> (\<exists>pre ip dev1 it. t = pre @ it \<and> list_all is_setup_step pre \<and>
            Target dev1 = Target dev \<and> initiator_run ip dev1 it r2 dev2)"
      by blast
    from d show ?thesis
    proof
      assume "r2 \<noteq> None \<and> list_all is_setup_step t"
      with eq t show ?thesis by auto
    next
      assume "\<exists>pre ip dev1 it. t = pre @ it \<and> list_all is_setup_step pre \<and>
            Target dev1 = Target dev \<and> initiator_run ip dev1 it r2 dev2"
      then obtain pre ip dev1 it where
        p: "t = pre @ it" "list_all is_setup_step pre" "Target dev1 = Target dev"
          "initiator_run ip dev1 it r2 dev2" by blast
      show ?thesis
      proof (intro exI conjI disjI2)
        show "snd s' = snd s @ (LockE ?ns LockFile LockTimeout None # pre) @ it @
            [UnlockE ?ns LockFile LockTimeout]"
          using eq t p by simp
        show "list_all is_setup_step (LockE ?ns LockFile LockTimeout None # pre)"
          using p by simp
        show "Target dev1 = Target dev" by fact
        show "initiator_run ip dev1 it r dev'" using p eq by simp
      qed simp
    qed
  qed
qed

lemma setup_step_kinds:
  "is_setup_step e \<Longrightarrow> \<not> is_discovery_step e \<and> \<not> is_unconfirmed e \<and> \<not> is_unready_poll e"
  by (cases e) auto

lemma setup_steps_no_discovery:
  "list_all is_setup_step t \<Longrightarrow> list_all (\<lambda>e. \<not> is_discovery_step e) t"
  by (induction t) (auto simp: setup_step_kinds)

lemma setup_steps_filter:
  "list_all is_setup_step t \<Longrightarrow>
   filter is_unconfirmed t = [] \<and> filter is_unready_poll t = []"
  by (induction t) (auto simp: setup_step_kinds)

lemma discover_failed_filter:
  "length (filter is_unconfirmed (concat (map (discover_failed ip target) fails))) = length fails"
  "filter is_unready_poll (concat (map (discover_failed ip target) fails)) = []"
  by (induction fails) (simp_all add: discover_failed_def split: option.splits)

lemma poll_failed_filter:
  "list_all (\<lambda>e. \<not> is_discovery_step e) (concat (map (poll_failed path) polls))"
  "filter is_unconfirmed (concat (map (poll_failed path) polls)) = []"
  "list_all (\<lambda>st. \<not> device_ready st) polls \<Longrightarrow>
   length (filter is_unready_poll (concat (map (poll_failed path) polls))) = length polls"
  by (induction polls) (simp_all add: poll_failed_def)

lemma polls_run_filter:
  assumes "polls_run path t r"
  shows "list_all (\<lambda>e. \<not> is_discovery_step e) t" "filter is_unconfirmed t = []"
    "length (filter is_unready_poll t) = RetryCounts \<longleftrightarrow>
       r = Some (''Failed to wait for device '' @ path @ '' to show up'')"
  using assms unfolding polls_run_def
  by (auto simp: poll_failed_filter)

lemma login_run_filter:
  assumes "login_run ip dev t r dev'"
  shows "\<exists>lr rest. t = LoginTargetE ip (Target dev) lr # rest \<and>
           list_all (\<lambda>e. \<not> is_discovery_step e) rest"
    "filter is_unconfirmed t = []"
    "length (filter is_unready_poll t) = RetryCounts \<Longrightarrow>
       r = Some (''Failed to wait for device '' @ Device dev' @ '' to show up'')"
proof -
  have pos: "RetryCounts \<noteq> 0" "0 \<noteq> RetryCounts" by (simp_all add: RetryCounts_def)
  from assms
  show "\<exists>lr rest. t = LoginTargetE ip (Target dev) lr # rest \<and>
           list_all (\<lambda>e. \<not> is_discovery_step e) rest"
    unfolding login_run_def by (auto simp: polls_run_filter)
  from assms show "filter is_unconfirmed t = []"
    unfolding login_run_def by (auto simp: polls_run_filter)
  from assms
  show "length (filter is_unready_poll t) = RetryCounts \<Longrightarrow>
       r = Some (''Failed to wait for device '' @ Device dev' @ '' to show up'')"
    unfolding login_run_def using pos by (auto simp: polls_run_filter)
qed

section \<open>Running the functions on the simulated host\<close>

lemma sim_sel:
  "util_GetHostNamespacePath sim = (\<lambda>p. p @ ''/1/ns'')"
  "lock_Lock sim = (\<lambda>ns file timeout w. (None, w))"
  "lock_Unlock sim = (\<lambda>ns file timeout w. w)"
  "util_NewNamespaceExecutor sim = (\<lambda>ns w. ((ns, None), w))"
  "util_GetIPToHost sim = (\<lambda>w. ((''10.0.0.1'', None), w))"
  "iscsi_CheckForInitiatorExistence sim = (\<lambda>ne w. (None, w))"
  "iscsi_StartDaemon sim = (\<lambda>fg w. (None, w))"
  "iscsi_FindNextAvailableTargetID sim = (\<lambda>w. ((int w + 1, None), w))"
  "iscsi_CreateTarget sim = (\<lambda>tid name w. (None, w))"
  "iscsi_AddLun sim = (\<lambda>tid lun file bsType bsOpts w. (None, w))"
  "iscsi_BindInitiator sim = (\<lambda>tid initiator w. (None, w))"
  "iscsi_DiscoverTarget sim = (\<lambda>ip target ne w. (None, w))"
  "iscsi_IsTargetDiscovered sim = (\<lambda>ip target ne w. (True, w))"
  "iscsi_CleanupScsiNodes sim = (\<lambda>target ne w. (None, w))"
  "iscsi_LoginTarget sim = (\<lambda>ip target ne w. (None, w))"
  "iscsi_GetDevice sim = (\<lambda>ip target lun ne w. ((''/dev/sdb'', None), w))"
  "os_Stat sim = (\<lambda>path w. ((os_ModeDevice, None), w))"
  "iscsi_IsTargetLoggedIn sim = (\<lambda>ip target ne w. (False, w))"
  "iscsi_LogoutTarget sim = (\<lambda>ip target ne w. (None, w))"
  "iscsi_DeleteDiscoveredTarget sim = (\<lambda>ip target ne w. (None, w))"
  "iscsi_GetTargetTid sim = (\<lambda>target w. ((- 1, None), w))"
  "iscsi_UnbindInitiator sim = (\<lambda>tid initiator w. (None, w))"
  "iscsi_DeleteLun sim = (\<lambda>tid lun w. (None, w))"
  "iscsi_GetTargetConnections sim = (\<lambda>tid w. (([], None), w))"
  "iscsi_CloseConnection sim = (\<lambda>tid sid cid w. (None, w))"
  "iscsi_DeleteTarget sim = (\<lambda>tid w. (None, w))"
  "iscsi_RescanTarget sim = (\<lambda>ip target ne w. (None, w))"
  "time_Sleep sim = (\<lambda>d w. w + 1)"
  by (simp_all add: sim_def)

lemma GetTargetName_data_01: "GetTargetName ''data_01'' = ''iqn.2014-09.com.rancher:data:01''"
  by (simp add: GetTargetName_def Volume2ISCSIName_map)

lemma dev01_eq:
  "dev01 = \<lparr>Target = ''iqn.2014-09.com.rancher:data:01'', TargetID = 0, Device = [],
            BackingFile = ''/var/lib/longhorn/data01.img'', BSType = ''file'', BSOpts = []\<rparr>"
  by (simp add: dev01_def NewScsiDevice_def GetTargetName_data_01)

lemma ModeDevice_ready: "os_ModeDevice \<noteq> 0"
  by (simp add: os_ModeDevice_def)

lemmas run_simps =
  call_def logf_def sleep_def effect_def sim_sel RetryCounts_def dev01_eq ModeDevice_ready
  HostProc_def

lemmas StartScsi_simps =
  StartScsi_def StartScsi_locked_def StartScsi_initiator_def SetupTarget_def
  SetupTarget_loop.simps StartScsi_discover_loop.simps StartScsi_device_loop.simps

section \<open>The discovery loop of StartScsi\<close>





text \<open>
  C3. \<^verbatim>\<open>StartScsi\<close> does not return the last discovery error when the discovery loop is
  exhausted. On a host where the target never shows as discovered and every
  \<^verbatim>\<open>DiscoverTarget\<close> reports an error, it makes its five attempts, none confirmed, then
  logs in and returns \<^verbatim>\<open>nil\<close>: the error that the loop has kept in \<^verbatim>\<open>err\<close> is never tested.
\<close>

theorem StartScsi_discovery_error_dropped:
  "fst (StartScsi sim_undiscovered dev01 (0, [])) = None
   \<and> filter is_discovery_step (snd (snd (snd (StartScsi sim_undiscovered dev01 (0, []))))) =
       concat (replicate 5
         [DiscoverTargetE ''10.0.0.1'' ''iqn.2014-09.com.rancher:data:01'' (Some ''exit status 4''),
          IsTargetDiscoveredE ''10.0.0.1'' ''iqn.2014-09.com.rancher:data:01'' False,
          CleanupScsiNodesE ''iqn.2014-09.com.rancher:data:01'' None])
       @ [LoginTargetE ''10.0.0.1'' ''iqn.2014-09.com.rancher:data:01'' None]"
  by (simp add: StartScsi_simps run_simps sim_undiscovered_def eval_nat_numeral)

text \<open>
  What the code does in general when \<open>RetryCounts\<close> discovery attempts go unconfirmed: the
  error of each attempt is written to the log as a warning, the login follows the last
  attempt, and the result is that of the login and of what follows it.
\<close>

lemma StartScsi_discovery_exhausted:
  assumes "StartScsi env dev s = (r, dev', s')"
    and "snd s' = snd s @ t"
    and "length (filter is_unconfirmed t) = RetryCounts"
  shows "\<exists>pre ip fails dev1 tl.
     t = pre @ concat (map (discover_failed ip (Target dev)) fails) @ tl @
           [UnlockE (util_GetHostNamespacePath env HostProc) LockFile LockTimeout]
     \<and> length fails = RetryCounts
     \<and> list_all (\<lambda>e. \<not> is_discovery_step e) pre
     \<and> Target dev1 = Target dev \<and> login_run ip dev1 tl r dev'"
proof -
  let ?unlock = "UnlockE (util_GetHostNamespacePath env HostProc) LockFile LockTimeout"
  have pos: "RetryCounts \<noteq> 0" "0 \<noteq> RetryCounts" by (simp_all add: RetryCounts_def)
  from StartScsi_shape [OF assms(1)] assms(2)
  have d: "r \<noteq> None \<and> list_all is_setup_step t
      \<or> (\<exists>pre ip dev1 it. t = pre @ it @ [?unlock] \<and> list_all is_setup_step pre \<and>
            Target dev1 = Target dev \<and> initiator_run ip dev1 it r dev')"
    by auto
  from d show ?thesis
  proof
    assume "r \<noteq> None \<and> list_all is_setup_step t"
    with assms(3) pos show ?thesis
      by (simp add: setup_steps_filter)
  next
    assume "\<exists>pre ip dev1 it. t = pre @ it @ [?unlock] \<and> list_all is_setup_step pre \<and>
            Target dev1 = Target dev \<and> initiator_run ip dev1 it r dev'"
    then obtain pre ip dev1 td tl where
      p: "t = pre @ (td @ tl) @ [?unlock]" "list_all is_setup_step pre"
        "Target dev1 = Target dev" "discovery_run ip (Target dev1) td"
        "login_run ip dev1 tl r dev'"
      unfolding initiator_run_def by blast
    from assms(3) p(1,2) login_run_filter(2) [OF p(5)]
    have n: "length (filter is_unconfirmed td) = RetryCounts"
      by (simp add: setup_steps_filter)
    from p(4) n obtain fails where
      td: "td = concat (map (discover_failed ip (Target dev1)) fails)"
        "length fails = RetryCounts"
      unfolding discovery_run_def
      by (auto simp: discover_failed_filter discover_confirmed_def)
    show ?thesis
    proof (intro exI conjI)
      show "t = pre @ concat (map (discover_failed ip (Target dev)) fails) @ tl @ [?unlock]"
        using p td by simp
      show "length fails = RetryCounts" by fact
      show "list_all (\<lambda>e. \<not> is_discovery_step e) pre"
        using p by (simp add: setup_steps_no_discovery)
      show "Target dev1 = Target dev" by fact
      show "login_run ip dev1 tl r dev'" by fact
    qed
  qed
qed

section \<open>The device node\<close>

text \<open>
  C9. When \<^verbatim>\<open>StartScsi\<close> returns \<^verbatim>\<open>nil\<close>, its run ends with these events: \<^verbatim>\<open>GetDevice\<close> answers
  without an error the path that is now in \<^verbatim>\<open>dev.Device\<close>; fewer than \<open>RetryCounts\<close> polls
  of that path do not find a device node there, each followed by a sleep of
  \<open>RetryIntervalSCSI\<close>; one more poll finds that the path exists and is a device node; the
  lock is released. And a run in which \<open>RetryCounts\<close> polls do not find the device node
  ready returns the error that the device did not show up.
\<close>

theorem StartScsi_device_ready:
  assumes "StartScsi env dev s = (r, dev', s')" and "snd s' = snd s @ t"
  shows "(r = None \<longrightarrow>
           (\<exists>pre ip polls st.
              t = pre @ GetDeviceE ip (Target dev) TargetLunID (Device dev') None #
                    concat (map (poll_failed (Device dev')) polls) @
                    [StatE (Device dev') (fst st) (snd st),
                     UnlockE (util_GetHostNamespacePath env HostProc) LockFile LockTimeout]
              \<and> list_all (\<lambda>st. \<not> device_ready st) polls
              \<and> length polls < RetryCounts \<and> device_ready st))
       \<and> (length (filter is_unready_poll t) = RetryCounts \<longrightarrow>
            r = Some (''Failed to wait for device '' @ Device dev' @ '' to show up''))"
proof -
  let ?unlock = "UnlockE (util_GetHostNamespacePath env HostProc) LockFile LockTimeout"
  have pos: "RetryCounts \<noteq> 0" "0 \<noteq> RetryCounts" by (simp_all add: RetryCounts_def)
  from StartScsi_shape [OF assms(1)] assms(2)
  have d: "r \<noteq> None \<and> list_all is_setup_step t
      \<or> (\<exists>pre ip dev1 it. t = pre @ it @ [?unlock] \<and> list_all is_setup_step pre \<and>
            Target dev1 = Target dev \<and> initiator_run ip dev1 it r dev')"
    by auto
  from d show ?thesis
  proof
    assume "r \<noteq> None \<and> list_all is_setup_step t"
    with pos show ?thesis
      by (auto simp: setup_steps_filter)
  next
    assume "\<exists>pre ip dev1 it. t = pre @ it @ [?unlock] \<and> list_all is_setup_step pre \<and>
            Target dev1 = Target dev \<and> initiator_run ip dev1 it r dev'"
    then obtain pre ip dev1 td tl where
      p: "t = pre @ (td @ tl) @ [?unlock]" "list_all is_setup_step pre"
        "Target dev1 = Target dev" "discovery_run ip (Target dev1) td"
        "login_run ip dev1 tl r dev'"
      unfolding initiator_run_def by blast
    have td: "filter is_unready_poll td = []"
      using p(4) unfolding discovery_run_def
      by (auto simp: discover_failed_filter discover_confirmed_def)
    have 2: "length (filter is_unready_poll t) = RetryCounts \<longrightarrow>
            r = Some (''Failed to wait for device '' @ Device dev' @ '' to show up'')"
      using login_run_filter(3) [OF p(5)] p(1,2) td
      by (simp add: setup_steps_filter)
    have 1: "\<exists>pre ip polls st.
              t = pre @ GetDeviceE ip (Target dev) TargetLunID (Device dev') None #
                    concat (map (poll_failed (Device dev')) polls) @
                    [StatE (Device dev') (fst st) (snd st), ?unlock]
              \<and> list_all (\<lambda>st. \<not> device_ready st) polls
              \<and> length polls < RetryCounts \<and> device_ready st" if "r = None"
    proof -
      from p(5) that obtain path polls st where
        tl: "tl = LoginTargetE ip (Target dev1) None #
               GetDeviceE ip (Target dev1) TargetLunID path None #
               concat (map (poll_failed path) polls) @ [StatE path (fst st) (snd st)]"
        and q: "list_all (\<lambda>st. \<not> device_ready st) polls" "length polls < RetryCounts"
          "device_ready st" "dev' = dev1\<lparr>Device := path\<rparr>"
        unfolding login_run_def polls_run_def by auto
      show ?thesis
      proof (intro exI conjI)
        show "t = (pre @ td @ [LoginTargetE ip (Target dev1) None]) @
                GetDeviceE ip (Target dev) TargetLunID (Device dev') None #
                    concat (map (poll_failed (Device dev')) polls) @
                    [StatE (Device dev') (fst st) (snd st), ?unlock]"
          using p(1,3) tl q(4) by simp
      qed (use q in simp_all)
    qed
    from 1 2 show ?thesis by blast
  qed
qed

theorem StartScsi_device_ready_witness:
  "fst (StartScsi sim_slow_device dev01 (0, [])) = None
   \<and> Device (fst (snd (StartScsi sim_slow_device dev01 (0, [])))) = ''/dev/sdb''
   \<and> filter is_poll (snd (snd (snd (StartScsi sim_slow_device dev01 (0, []))))) =
       [StatE ''/dev/sdb'' 0 (Some ''no such file or directory''),
        StatE ''/dev/sdb'' 0 None,
        StatE ''/dev/sdb'' os_ModeDevice None]
   \<and> (\<exists>pre ip polls st.
         snd (snd (snd (StartScsi sim_slow_device dev01 (0, [])))) =
           pre @ GetDeviceE ip (Target dev01) TargetLunID ''/dev/sdb'' None #
             concat (map (poll_failed ''/dev/sdb'') polls) @
             [StatE ''/dev/sdb'' (fst st) (snd st),
              UnlockE (util_GetHostNamespacePath sim_slow_device HostProc) LockFile LockTimeout]
         \<and> list_all (\<lambda>st. \<not> device_ready st) polls
         \<and> length polls < RetryCounts \<and> device_ready st)
   \<and> length (filter is_unready_poll (snd (snd (snd (StartScsi sim_no_device dev01 (0, []))))))
       = RetryCounts
   \<and> fst (StartScsi sim_no_device dev01 (0, []))
       = Some ''Failed to wait for device /dev/sdb to show up''"
proof -
  let ?R = "StartScsi sim_slow_device dev01 (0, [])"
  let ?Q = "StartScsi sim_no_device dev01 (0, [])"
  have runR: "?R = (fst ?R, fst (snd ?R), snd (snd ?R))" by simp
  have trR: "snd (snd (snd ?R)) = snd (0::nat, [] :: event list) @ snd (snd (snd ?R))" by simp
  have runQ: "?Q = (fst ?Q, fst (snd ?Q), snd (snd ?Q))" by simp
  have trQ: "snd (snd (snd ?Q)) = snd (0::nat, [] :: event list) @ snd (snd (snd ?Q))" by simp
  have a: "fst ?R = None"
    by (simp add: StartScsi_simps run_simps sim_slow_device_def)
  have b: "Device (fst (snd ?R)) = ''/dev/sdb''"
    by (simp add: StartScsi_simps run_simps sim_slow_device_def)
  have c: "filter is_poll (snd (snd (snd ?R))) =
       [StatE ''/dev/sdb'' 0 (Some ''no such file or directory''),
        StatE ''/dev/sdb'' 0 None,
        StatE ''/dev/sdb'' os_ModeDevice None]"
    by (simp add: StartScsi_simps run_simps sim_slow_device_def)
  have d: "length (filter is_unready_poll (snd (snd (snd ?Q)))) = RetryCounts"
    by (simp add: StartScsi_simps run_simps sim_no_device_def device_ready_def)
  have e: "Device (fst (snd ?Q)) = ''/dev/sdb''"
    by (simp add: StartScsi_simps run_simps sim_no_device_def)
  from StartScsi_device_ready [OF runR trR] a b
  have 1: "\<exists>pre ip polls st.
         snd (snd (snd ?R)) =
           pre @ GetDeviceE ip (Target dev01) TargetLunID ''/dev/sdb'' None #
             concat (map (poll_failed ''/dev/sdb'') polls) @
             [StatE ''/dev/sdb'' (fst st) (snd st),
              UnlockE (util_GetHostNamespacePath sim_slow_device HostProc) LockFile LockTimeout]
         \<and> list_all (\<lambda>st. \<not> device_ready st) polls
         \<and> length polls < RetryCounts \<and> device_ready st"
    by simp
  from StartScsi_device_ready [OF runQ trQ] d e
  have 2: "fst ?Q = Some ''Failed to wait for device /dev/sdb to show up''"
    by simp
  from a b c d 1 2 show ?thesis by blast
qed

section \<open>LogoutTarget\<close>

lemma logout_loop_shape:
  "LogoutTarget_logout_loop env ip target ne i err s = (err', lo, s') \<Longrightarrow>
   \<exists>fails tl. snd s' = snd s @ concat (map (logout_failed ip target) fails) @ tl \<and>
     list_all (\<lambda>e. \<not> not_found e \<and> \<not> timed_out e) fails \<and>
     (tl = [] \<and> i + length fails = max i RetryCounts \<and> \<not> lo \<and>
        err' = (if fails = [] then err else Some (last fails))
      \<or> (\<exists>lr. tl = [LogoutTargetE ip target lr] \<and>
              (lr = None \<or> (\<exists>e. lr = Some e \<and> not_found e))) \<and>
        err' = None \<and> \<not> lo \<and> i + length fails < RetryCounts
      \<or> (\<exists>e. tl = [LogoutTargetE ip target (Some e)] \<and> \<not> not_found e \<and> timed_out e \<and>
              err' = Some e) \<and>
        lo \<and> i + length fails < RetryCounts)"
proof (induction "RetryCounts - i" arbitrary: i err s)
  case 0
  then have "LogoutTarget_logout_loop env ip target ne i err s = (err, False, s)"
    by (subst LogoutTarget_logout_loop.simps) simp
  with 0 show ?case
    by (intro exI [of _ "[]"]) simp
next
  case (Suc n)
  then have lt: "i < RetryCounts" and n: "n = RetryCounts - (i + 1)" by simp_all
  obtain lr w1 where c1: "iscsi_LogoutTarget env ip target ne (fst s) = (lr, w1)"
    by (metis surj_pair)
  consider (ok) "lr = None \<or> (\<exists>e. lr = Some e \<and> not_found e)"
    | (timeout) e where "lr = Some e" "\<not> not_found e" "timed_out e"
    | (fail) e where "lr = Some e" "\<not> not_found e" "\<not> timed_out e"
    by (cases lr) auto
  then show ?case
  proof cases
    case ok
    with lt c1 Suc.prems
    have "snd s' = snd s @ [LogoutTargetE ip target lr] \<and> err' = None \<and> \<not> lo"
      by (subst (asm) LogoutTarget_logout_loop.simps)
         (auto simp: call_def not_found_def)
    with lt ok show ?thesis
      by (intro exI [of _ "[]"] exI [of _ "[LogoutTargetE ip target lr]"]) auto
  next
    case timeout
    with lt c1 Suc.prems
    have "snd s' = snd s @ [LogoutTargetE ip target (Some e)] \<and> err' = Some e \<and> lo"
      by (subst (asm) LogoutTarget_logout_loop.simps)
         (auto simp: call_def not_found_def timed_out_def)
    with lt timeout show ?thesis
      by (intro exI [of _ "[]"] exI [of _ "[LogoutTargetE ip target (Some e)]"]) auto
  next
    case fail
    let ?s2 = "(time_Sleep env RetryIntervalSCSI w1, snd s @ logout_failed ip target e)"
    from lt c1 fail Suc.prems
    have rec: "LogoutTarget_logout_loop env ip target ne (i + 1) (Some e) ?s2 = (err', lo, s')"
      by (subst (asm) LogoutTarget_logout_loop.simps)
         (auto simp: call_def sleep_def effect_def not_found_def timed_out_def
               logout_failed_def)
    from Suc.hyps(1) [OF n rec] obtain fails tl where
      f: "snd s' = snd ?s2 @ concat (map (logout_failed ip target) fails) @ tl"
      and p: "list_all (\<lambda>e. \<not> not_found e \<and> \<not> timed_out e) fails"
      and g: "tl = [] \<and> (i + 1) + length fails = max (i + 1) RetryCounts \<and> \<not> lo \<and>
        err' = (if fails = [] then Some e else Some (last fails))
      \<or> (\<exists>lr. tl = [LogoutTargetE ip target lr] \<and>
              (lr = None \<or> (\<exists>e. lr = Some e \<and> not_found e))) \<and>
        err' = None \<and> \<not> lo \<and> (i + 1) + length fails < RetryCounts
      \<or> (\<exists>e. tl = [LogoutTargetE ip target (Some e)] \<and> \<not> not_found e \<and> timed_out e \<and>
              err' = Some e) \<and>
        lo \<and> (i + 1) + length fails < RetryCounts"
      by blast
    show ?thesis
      using f g p lt fail
      by (intro exI [of _ "e # fails"] exI [of _ tl]) auto
  qed
qed

lemma wait_loop_shape:
  "LogoutTarget_wait_loop env ip target ne i err s = (err', s') \<Longrightarrow>
   \<exists>k. snd s' = snd s @ concat (replicate k (wait_failed ip target)) \<and>
          i + k = max i RetryCounts \<and> err' = err
      \<or> snd s' = snd s @ concat (replicate k (wait_failed ip target)) @
            [IsTargetLoggedInE ip target False] \<and>
          i + k < RetryCounts \<and> err' = None"
proof (induction "RetryCounts - i" arbitrary: i s)
  case 0
  then have "LogoutTarget_wait_loop env ip target ne i err s = (err, s)"
    by (subst LogoutTarget_wait_loop.simps) simp
  with 0 show ?case
    by (intro exI [of _ 0]) simp
next
  case (Suc n)
  then have lt: "i < RetryCounts" and n: "n = RetryCounts - (i + 1)" by simp_all
  obtain b w1 where c1: "iscsi_IsTargetLoggedIn env ip target ne (fst s) = (b, w1)"
    by (metis surj_pair)
  show ?case
  proof (cases b)
    case False
    with lt c1 Suc.prems
    have "snd s' = snd s @ [IsTargetLoggedInE ip target False] \<and> err' = None"
      by (subst (asm) LogoutTarget_wait_loop.simps) (auto simp: call_def)
    with lt show ?thesis
      by (intro exI [of _ 0]) simp
  next
    case True
    let ?s2 = "(time_Sleep env RetryIntervalSCSI w1, snd s @ wait_failed ip target)"
    from lt c1 True Suc.prems
    have rec: "LogoutTarget_wait_loop env ip target ne (i + 1) err ?s2 = (err', s')"
      by (subst (asm) LogoutTarget_wait_loop.simps)
         (auto simp: call_def sleep_def effect_def wait_failed_def)
    from Suc.hyps(1) [OF n rec] obtain k where
      g: "snd s' = snd ?s2 @ concat (replicate k (wait_failed ip target)) \<and>
          (i + 1) + k = max (i + 1) RetryCounts \<and> err' = err
      \<or> snd s' = snd ?s2 @ concat (replicate k (wait_failed ip target)) @
            [IsTargetLoggedInE ip target False] \<and>
          (i + 1) + k < RetryCounts \<and> err' = None"
      by blast
    show ?thesis
      using g lt
      by (intro exI [of _ "Suc k"]) auto
  qed
qed

lemma delete_loop_shape:
  "LogoutTarget_delete_loop env ip target ne i err s = (err', s') \<Longrightarrow>
   \<exists>fails tl. snd s' = snd s @ concat (map (delete_failed ip target) fails) @ tl \<and>
     list_all (\<lambda>e. \<not> not_found e) fails \<and>
     (tl = [] \<and> i + length fails = max i RetryCounts \<and>
        err' = (if fails = [] then err else Some (last fails))
      \<or> (tl = [IsTargetDiscoveredE ip target False]
          \<or> (\<exists>dr. tl = [IsTargetDiscoveredE ip target True, DeleteDiscoveredTargetE ip target dr] \<and>
                (dr = None \<or> (\<exists>e. dr = Some e \<and> not_found e)))) \<and>
        err' = None \<and> i + length fails < RetryCounts)"
proof (induction "RetryCounts - i" arbitrary: i err s)
  case 0
  then have "LogoutTarget_delete_loop env ip target ne i err s = (err, s)"
    by (subst LogoutTarget_delete_loop.simps) simp
  with 0 show ?case
    by (intro exI [of _ "[]"]) simp
next
  case (Suc n)
  then have lt: "i < RetryCounts" and n: "n = RetryCounts - (i + 1)" by simp_all
  obtain b w1 where c1: "iscsi_IsTargetDiscovered env ip target ne (fst s) = (b, w1)"
    by (metis surj_pair)
  obtain dr w2 where c2: "iscsi_DeleteDiscoveredTarget env ip target ne w1 = (dr, w2)"
    by (metis surj_pair)
  consider (gone) "\<not> b"
    | (ok) "b" "dr = None \<or> (\<exists>e. dr = Some e \<and> not_found e)"
    | (fail) e where "b" "dr = Some e" "\<not> not_found e"
    by (cases dr) auto
  then show ?case
  proof cases
    case gone
    with lt c1 Suc.prems
    have "snd s' = snd s @ [IsTargetDiscoveredE ip target False] \<and> err' = None"
      by (subst (asm) LogoutTarget_delete_loop.simps) (auto simp: call_def)
    with lt show ?thesis
      by (intro exI [of _ "[]"] exI [of _ "[IsTargetDiscoveredE ip target False]"]) auto
  next
    case ok
    with lt c1 c2 Suc.prems
    have "snd s' = snd s @ [IsTargetDiscoveredE ip target True,
             DeleteDiscoveredTargetE ip target dr] \<and> err' = None"
      by (subst (asm) LogoutTarget_delete_loop.simps)
         (auto simp: call_def not_found_def)
    with lt ok show ?thesis
      by (intro exI [of _ "[]"] exI [of _ "[IsTargetDiscoveredE ip target True,
             DeleteDiscoveredTargetE ip target dr]"]) auto
  next
    case fail
    let ?s3 = "(time_Sleep env RetryIntervalSCSI w2, snd s @ delete_failed ip target e)"
    from lt c1 c2 fail Suc.prems
    have rec: "LogoutTarget_delete_loop env ip target ne (i + 1) (Some e) ?s3 = (err', s')"
      by (subst (asm) LogoutTarget_delete_loop.simps)
         (auto simp: call_def sleep_def effect_def not_found_def delete_failed_def)
    from Suc.hyps(1) [OF n rec] obtain fails tl where
      f: "snd s' = snd ?s3 @ concat (map (delete_failed ip target) fails) @ tl"
      and p: "list_all (\<lambda>e. \<not> not_found e) fails"
      and g: "tl = [] \<and> (i + 1) + length fails = max (i + 1) RetryCounts \<and>
        err' = (if fails = [] then Some e else Some (last fails))
      \<or> (tl = [IsTargetDiscoveredE ip target False]
          \<or> (\<exists>dr. tl = [IsTargetDiscoveredE ip target True, DeleteDiscoveredTargetE ip target dr] \<and>
                (dr = None \<or> (\<exists>e. dr = Some e \<and> not_found e)))) \<and>
        err' = None \<and> (i + 1) + length fails < RetryCounts"
      by blast
    show ?thesis
      using f g p lt fail
      by (intro exI [of _ "e # fails"] exI [of _ tl]) auto
  qed
qed

lemma delete_loop_run:
  assumes "LogoutTarget_delete_loop env ip target ne 0 None s = (r, s')"
  shows "\<exists>t. snd s' = snd s @ t \<and> record_run ip target t r"
proof -
  have pos: "0 \<noteq> RetryCounts" by (simp add: RetryCounts_def)
  from delete_loop_shape [OF assms] obtain fails tl where
    f: "snd s' = snd s @ concat (map (delete_failed ip target) fails) @ tl"
    and p: "list_all (\<lambda>e. \<not> not_found e) fails"
    and g: "tl = [] \<and> 0 + length fails = max 0 RetryCounts \<and>
        r = (if fails = [] then None else Some (last fails))
      \<or> (tl = [IsTargetDiscoveredE ip target False]
          \<or> (\<exists>dr. tl = [IsTargetDiscoveredE ip target True, DeleteDiscoveredTargetE ip target dr] \<and>
                (dr = None \<or> (\<exists>e. dr = Some e \<and> not_found e)))) \<and>
        r = None \<and> 0 + length fails < RetryCounts"
    by blast
  from g have "record_run ip target (concat (map (delete_failed ip target) fails) @ tl) r"
  proof
    assume a: "tl = [] \<and> 0 + length fails = max 0 RetryCounts \<and>
        r = (if fails = [] then None else Some (last fails))"
    with pos have "fails \<noteq> []" by auto
    with a p show ?thesis
      unfolding record_run_def by (intro exI [of _ fails]) simp
  next
    assume "(tl = [IsTargetDiscoveredE ip target False]
          \<or> (\<exists>dr. tl = [IsTargetDiscoveredE ip target True, DeleteDiscoveredTargetE ip target dr] \<and>
                (dr = None \<or> (\<exists>e. dr = Some e \<and> not_found e)))) \<and>
        r = None \<and> 0 + length fails < RetryCounts"
    with p show ?thesis
      unfolding record_run_def by (intro exI [of _ fails]) auto
  qed
  with f show ?thesis by blast
qed

lemma logout_phase_run:
  assumes 1: "LogoutTarget_logout_loop env ip target ne 0 None s = (err, lo, s1)"
    and 2: "(if lo
            then LogoutTarget_wait_loop env ip target ne 0 err
                   (logf Info ''Logout SCSI device timeout, waiting for logout complete'' [] s1)
            else (err, s1)) = (err1, s2)"
  shows "\<exists>t. snd s2 = snd s @ t \<and> logout_run ip target t err1"
proof -
  let ?log = "LogE Info ''Logout SCSI device timeout, waiting for logout complete'' []"
  have pos: "0 \<noteq> RetryCounts" by (simp add: RetryCounts_def)
  from logout_loop_shape [OF 1] obtain fails tl where
    f: "snd s1 = snd s @ concat (map (logout_failed ip target) fails) @ tl"
    and p: "list_all (\<lambda>e. \<not> not_found e \<and> \<not> timed_out e) fails"
    and g: "tl = [] \<and> 0 + length fails = max 0 RetryCounts \<and> \<not> lo \<and>
        err = (if fails = [] then None else Some (last fails))
      \<or> (\<exists>lr. tl = [LogoutTargetE ip target lr] \<and>
              (lr = None \<or> (\<exists>e. lr = Some e \<and> not_found e))) \<and>
        err = None \<and> \<not> lo \<and> 0 + length fails < RetryCounts
      \<or> (\<exists>e. tl = [LogoutTargetE ip target (Some e)] \<and> \<not> not_found e \<and> timed_out e \<and>
              err = Some e) \<and>
        lo \<and> 0 + length fails < RetryCounts"
    by blast
  from g consider
    (exhausted) "tl = []" "length fails = RetryCounts" "\<not> lo" "err = Some (last fails)"
    | (ok) lr where "tl = [LogoutTargetE ip target lr]"
        "lr = None \<or> (\<exists>e. lr = Some e \<and> not_found e)" "err = None" "\<not> lo"
        "length fails < RetryCounts"
    | (timeout) e where "tl = [LogoutTargetE ip target (Some e)]" "\<not> not_found e" "timed_out e"
        "err = Some e" "lo" "length fails < RetryCounts"
    using pos by (elim disjE conjE exE) (auto split: if_splits)
  then show ?thesis
  proof cases
    case exhausted
    with 2 f p show ?thesis
      unfolding logout_run_def by (intro exI [of _ "concat (map (logout_failed ip target) fails)"]) auto
  next
    case ok
    with 2 f p show ?thesis
      unfolding logout_run_def
      by (intro exI [of _ "concat (map (logout_failed ip target) fails) @ [LogoutTargetE ip target lr]"])
         auto
  next
    case timeout
    with 2 have w: "LogoutTarget_wait_loop env ip target ne 0 (Some e)
                   (logf Info ''Logout SCSI device timeout, waiting for logout complete'' [] s1)
                 = (err1, s2)" by simp
    from wait_loop_shape [OF w] obtain k where
      k: "snd s2 = snd s1 @ ?log # concat (replicate k (wait_failed ip target)) \<and>
          k = RetryCounts \<and> err1 = Some e
      \<or> snd s2 = snd s1 @ ?log # concat (replicate k (wait_failed ip target)) @
            [IsTargetLoggedInE ip target False] \<and>
          k < RetryCounts \<and> err1 = None"
      by (auto simp: logf_def)
    from k show ?thesis
    proof
      assume a: "snd s2 = snd s1 @ ?log # concat (replicate k (wait_failed ip target)) \<and>
          k = RetryCounts \<and> err1 = Some e"
      show ?thesis
      proof (intro exI conjI)
        show "snd s2 = snd s @ concat (map (logout_failed ip target) fails) @
            LogoutTargetE ip target (Some e) # ?log # concat (replicate k (wait_failed ip target))"
          using a f timeout by simp
        show "logout_run ip target (concat (map (logout_failed ip target) fails) @
            LogoutTargetE ip target (Some e) # ?log # concat (replicate k (wait_failed ip target))) err1"
          unfolding logout_run_def
          by (rule exI [of _ fails], rule conjI [OF p], rule disjI2, rule disjI2,
              rule exI [of _ e], rule exI [of _ k], insert a timeout, simp)
      qed
    next
      assume a: "snd s2 = snd s1 @ ?log # concat (replicate k (wait_failed ip target)) @
            [IsTargetLoggedInE ip target False] \<and>
          k < RetryCounts \<and> err1 = None"
      show ?thesis
      proof (intro exI conjI)
        show "snd s2 = snd s @ concat (map (logout_failed ip target) fails) @
            LogoutTargetE ip target (Some e) # ?log # concat (replicate k (wait_failed ip target)) @
            [IsTargetLoggedInE ip target False]"
          using a f timeout by simp
        show "logout_run ip target (concat (map (logout_failed ip target) fails) @
            LogoutTargetE ip target (Some e) # ?log # concat (replicate k (wait_failed ip target)) @
            [IsTargetLoggedInE ip target False]) err1"
          unfolding logout_run_def
          by (rule exI [of _ fails], rule conjI [OF p], rule disjI2, rule disjI2,
              rule exI [of _ e], rule exI [of _ k], insert a timeout, simp)
      qed
    qed
  qed
qed

text \<open>
  Every run of \<^verbatim>\<open>LogoutTarget\<close> is of one of three kinds: it fails in the steps before the
  test for a session; or it finds no session and returns \<^verbatim>\<open>nil\<close>; or it finds one, runs the
  logout phase and, if that leaves no error, the removal of the record.
\<close>

lemma LogoutTarget_shape:
  assumes "LogoutTarget env target s = (r, s')"
  shows "\<exists>t. snd s' = snd s @ t \<and>
     (r \<noteq> None \<and> list_all is_setup_step t
      \<or> (\<exists>pre ip. t = pre @ [IsTargetLoggedInE ip target False] \<and>
            list_all is_setup_step pre \<and> r = None)
      \<or> (\<exists>pre ip tl err tr.
            t = pre @ IsTargetLoggedInE ip target True #
                  LogE Info ''Shutdown SCSI device for %v:%v'' [AStr ip, AStr target] # tl @ tr \<and>
            list_all is_setup_step pre \<and> logout_run ip target tl err \<and>
            ((\<exists>e. err = Some e \<and> tr = [] \<and> r = Some (''Failed to logout target: '' @ e))
             \<or> err = None \<and> record_run ip target tr r)))"
proof -
  let ?ns = "util_GetHostNamespacePath env HostProc"
  obtain ne e1 w1 where c1: "util_NewNamespaceExecutor env ?ns (fst s) = ((ne, e1), w1)"
    by (metis surj_pair)
  obtain ip e2 w2 where c2: "util_GetIPToHost env w1 = ((ip, e2), w2)"
    by (metis surj_pair)
  obtain e3 w3 where c3: "iscsi_CheckForInitiatorExistence env ne w2 = (e3, w3)"
    by (metis surj_pair)
  obtain b w4 where c4: "iscsi_IsTargetLoggedIn env ip target ne w3 = (b, w4)"
    by (metis surj_pair)
  let ?pre = "[NewNamespaceExecutorE ?ns None, GetIPToHostE ip None,
               CheckForInitiatorExistenceE None]"
  let ?log = "LogE Info ''Shutdown SCSI device for %v:%v'' [AStr ip, AStr target]"
  consider (early) "e1 \<noteq> None \<or> e2 \<noteq> None \<or> e3 \<noteq> None"
    | (nosession) "e1 = None" "e2 = None" "e3 = None" "\<not> b"
    | (session) "e1 = None" "e2 = None" "e3 = None" "b" by blast
  then show ?thesis
  proof cases
    case early
    with assms c1 c2 c3 show ?thesis
      by (auto simp: LogoutTarget_def call_def split: option.splits)
  next
    case nosession
    with assms c1 c2 c3 c4
    have "snd s' = snd s @ ?pre @ [IsTargetLoggedInE ip target False] \<and> r = None"
      by (auto simp: LogoutTarget_def call_def)
    then show ?thesis
      by (intro exI [of _ "?pre @ [IsTargetLoggedInE ip target False]"] conjI)
         (simp, rule disjI2, rule disjI1, rule exI [of _ ?pre], rule exI [of _ ip], simp)
  next
    case session
    let ?s4 = "(w4, snd s @ ?pre @ [IsTargetLoggedInE ip target True, ?log])"
    obtain err lo s5 where c5:
      "LogoutTarget_logout_loop env ip target ne 0 None ?s4 = (err, lo, s5)"
      by (metis prod_cases3)
    obtain err1 s6 where c6: "(if lo
            then LogoutTarget_wait_loop env ip target ne 0 err
                   (logf Info ''Logout SCSI device timeout, waiting for logout complete'' [] s5)
            else (err, s5)) = (err1, s6)"
      by (metis surj_pair)
    from logout_phase_run [OF c5 c6] obtain tl where
      tl: "snd s6 = snd ?s4 @ tl" "logout_run ip target tl err1" by blast
    have unf: "LogoutTarget env target s =
        (case err1 of Some e \<Rightarrow> (Some (''Failed to logout target: '' @ e), s6)
         | None \<Rightarrow> (case LogoutTarget_delete_loop env ip target ne 0 None s6 of
                       (Some e, s7) \<Rightarrow> (Some e, s7) | (None, s7) \<Rightarrow> (None, s7)))"
      using c1 c2 c3 c4 c5 c6 session
      by (simp add: LogoutTarget_def call_def logf_def)
    show ?thesis
    proof (cases err1)
      case (Some e)
      with unf assms have "r = Some (''Failed to logout target: '' @ e)" "s' = s6" by simp_all
      note f = this tl Some
      show ?thesis
        by (rule exI [of _ "?pre @ IsTargetLoggedInE ip target True # ?log # tl @ []"],
            rule conjI, (insert f, simp)[1], rule disjI2, rule disjI2,
            rule exI [of _ ?pre], rule exI [of _ ip], rule exI [of _ tl],
            rule exI [of _ err1], rule exI [of _ "[]"], insert f, simp)
    next
      case None
      obtain r7 s7 where c7: "LogoutTarget_delete_loop env ip target ne 0 None s6 = (r7, s7)"
        by (metis surj_pair)
      with unf assms None have eq: "r = r7" "s' = s7"
        by (auto split: option.splits)
      from delete_loop_run [OF c7] obtain tr where
        tr: "snd s7 = snd s6 @ tr" "record_run ip target tr r7" by blast
      note f = this tl None eq
      show ?thesis
        by (rule exI [of _ "?pre @ IsTargetLoggedInE ip target True # ?log # tl @ tr"],
            rule conjI, (insert f, simp)[1], rule disjI2, rule disjI2,
            rule exI [of _ ?pre], rule exI [of _ ip], rule exI [of _ tl],
            rule exI [of _ err1], rule exI [of _ tr], insert f, simp)
    qed
  qed
qed

lemmas LogoutTarget_simps =
  LogoutTarget_def LogoutTarget_logout_loop.simps LogoutTarget_wait_loop.simps
  LogoutTarget_delete_loop.simps not_found_def timed_out_def

lemma setup_step_logout_kinds:
  "is_setup_step e \<Longrightarrow> \<not> is_logout_call e \<and> \<not> is_record_step e"
  by (cases e) auto

lemma setup_steps_no_logout:
  "list_all is_setup_step t \<Longrightarrow>
   list_all (\<lambda>e. \<not> is_logout_call e) t \<and> list_all (\<lambda>e. \<not> is_record_step e) t"
  by (induction t) (auto simp: setup_step_logout_kinds)

lemma logout_failed_no_record:
  "list_all (\<lambda>e. \<not> is_record_step e) (concat (map (logout_failed ip target) fails))"
  by (induction fails) (simp_all add: logout_failed_def)

lemma wait_failed_no_record:
  "list_all (\<lambda>e. \<not> is_record_step e) (concat (replicate k (wait_failed ip target)))"
  by (induction k) (simp_all add: wait_failed_def)

lemma logout_run_no_record:
  "logout_run ip target t err \<Longrightarrow> list_all (\<lambda>e. \<not> is_record_step e) t"
  unfolding logout_run_def
  by (auto simp: logout_failed_no_record wait_failed_no_record)

text \<open>
  Where the logout phase of \<^verbatim>\<open>LogoutTarget\<close> starts: the executor is made, the host address
  is known, the initiator is found and a session is logged in.
\<close>

lemma LogoutTarget_session:
  assumes "call (util_NewNamespaceExecutor env (util_GetHostNamespacePath env HostProc))
             (\<lambda>(ne, err). NewNamespaceExecutorE (util_GetHostNamespacePath env HostProc) err) s
           = ((ne, None), s1)"
    and "call (util_GetIPToHost env) (case_prod GetIPToHostE) s1 = ((ip, None), s2)"
    and "call (iscsi_CheckForInitiatorExistence env ne) CheckForInitiatorExistenceE s2 = (None, s3)"
    and "call (iscsi_IsTargetLoggedIn env ip target ne) (IsTargetLoggedInE ip target) s3 = (True, s4)"
    and "LogoutTarget env target s = (r, s')"
  shows "\<exists>tl err tr.
           snd s' = snd s4 @ LogE Info ''Shutdown SCSI device for %v:%v'' [AStr ip, AStr target] #
                      tl @ tr
           \<and> logout_run ip target tl err
           \<and> ((\<exists>e. err = Some e \<and> tr = [] \<and> r = Some (''Failed to logout target: '' @ e))
              \<or> err = None \<and> record_run ip target tr r)"
proof -
  let ?s4 = "logf Info ''Shutdown SCSI device for %v:%v'' [AStr ip, AStr target] s4"
  obtain err lo s5 where c5:
    "LogoutTarget_logout_loop env ip target ne 0 None ?s4 = (err, lo, s5)"
    by (metis prod_cases3)
  obtain err1 s6 where c6: "(if lo
          then LogoutTarget_wait_loop env ip target ne 0 err
                 (logf Info ''Logout SCSI device timeout, waiting for logout complete'' [] s5)
          else (err, s5)) = (err1, s6)"
    by (metis surj_pair)
  from logout_phase_run [OF c5 c6] obtain tl where
    tl: "snd s6 = snd s4 @ LogE Info ''Shutdown SCSI device for %v:%v'' [AStr ip, AStr target] # tl"
      "logout_run ip target tl err1" by (auto simp: logf_def)
  have unf: "LogoutTarget env target s =
      (case err1 of Some e \<Rightarrow> (Some (''Failed to logout target: '' @ e), s6)
       | None \<Rightarrow> (case LogoutTarget_delete_loop env ip target ne 0 None s6 of
                     (Some e, s7) \<Rightarrow> (Some e, s7) | (None, s7) \<Rightarrow> (None, s7)))"
    using assms(1-4) c5 c6 by (simp add: LogoutTarget_def)
  show ?thesis
  proof (cases err1)
    case (Some e)
    with unf assms(5) have "r = Some (''Failed to logout target: '' @ e)" "s' = s6" by simp_all
    note f = this tl Some
    show ?thesis
      by (rule exI [of _ tl], rule exI [of _ err1], rule exI [of _ "[]"], insert f, simp)
  next
    case None
    obtain r7 s7 where c7: "LogoutTarget_delete_loop env ip target ne 0 None s6 = (r7, s7)"
      by (metis surj_pair)
    with unf assms(5) None have eq: "r = r7" "s' = s7"
      by (auto split: option.splits)
    from delete_loop_run [OF c7] obtain tr where
      tr: "snd s7 = snd s6 @ tr" "record_run ip target tr r7" by blast
    note f = tr tl None eq
    show ?thesis
      by (rule exI [of _ tl], rule exI [of _ err1], rule exI [of _ tr], insert f, simp)
  qed
qed

lemma LogoutTarget_no_session:
  assumes "call (util_NewNamespaceExecutor env (util_GetHostNamespacePath env HostProc))
             (\<lambda>(ne, err). NewNamespaceExecutorE (util_GetHostNamespacePath env HostProc) err) s
           = ((ne, None), s1)"
    and "call (util_GetIPToHost env) (case_prod GetIPToHostE) s1 = ((ip, None), s2)"
    and "call (iscsi_CheckForInitiatorExistence env ne) CheckForInitiatorExistenceE s2 = (None, s3)"
    and "call (iscsi_IsTargetLoggedIn env ip target ne) (IsTargetLoggedInE ip target) s3 = (False, s4)"
    and "LogoutTarget env target s = (r, s')"
  shows "r = None \<and> s' = s4"
  using assms by (simp add: LogoutTarget_def)

text \<open>The three ways in which the logout phase ends, with what follows each.\<close>

lemma logout_run_cases:
  assumes "logout_run ip target tlo err"
    and "(\<exists>e. err = Some e \<and> tr = [] \<and> r = Some (''Failed to logout target: '' @ e))
          \<or> err = None \<and> record_run ip target tr r"
  shows "\<exists>fails tl'.
          tlo @ tr = concat (map (logout_failed ip target) fails) @ tl'
          \<and> list_all (\<lambda>e. \<not> not_found e \<and> \<not> timed_out e) fails
          \<and> (tl' = [] \<and> length fails = RetryCounts
                \<and> r = Some (''Failed to logout target: '' @ last fails)
             \<or> (\<exists>lr tr. tl' = LogoutTargetE ip target lr # tr
                   \<and> (lr = None \<or> (\<exists>e. lr = Some e \<and> not_found e))
                   \<and> length fails < RetryCounts \<and> record_run ip target tr r)
             \<or> (\<exists>e k tw.
                   tl' = LogoutTargetE ip target (Some e) #
                        LogE Info ''Logout SCSI device timeout, waiting for logout complete'' [] #
                        concat (replicate k (wait_failed ip target)) @ tw
                   \<and> \<not> not_found e \<and> timed_out e \<and> length fails < RetryCounts
                   \<and> (tw = [] \<and> k = RetryCounts
                         \<and> r = Some (''Failed to logout target: '' @ e)
                      \<or> (\<exists>tr. tw = IsTargetLoggedInE ip target False # tr
                            \<and> k < RetryCounts \<and> record_run ip target tr r))))"
proof -
  let ?wlog = "LogE Info ''Logout SCSI device timeout, waiting for logout complete'' []"
  from assms(1) obtain fails where
    p: "list_all (\<lambda>e. \<not> not_found e \<and> \<not> timed_out e) fails"
    and g: "tlo = concat (map (logout_failed ip target) fails) \<and> length fails = RetryCounts \<and>
         err = Some (last fails)
       \<or> (\<exists>lr. tlo = concat (map (logout_failed ip target) fails) @ [LogoutTargetE ip target lr] \<and>
               (lr = None \<or> (\<exists>e. lr = Some e \<and> not_found e))) \<and>
         length fails < RetryCounts \<and> err = None
       \<or> (\<exists>e k. \<not> not_found e \<and> timed_out e \<and> length fails < RetryCounts \<and>
             (tlo = concat (map (logout_failed ip target) fails) @
                    LogoutTargetE ip target (Some e) # ?wlog #
                    concat (replicate k (wait_failed ip target)) \<and>
                k = RetryCounts \<and> err = Some e
              \<or> tlo = concat (map (logout_failed ip target) fails) @
                    LogoutTargetE ip target (Some e) # ?wlog #
                    concat (replicate k (wait_failed ip target)) @
                    [IsTargetLoggedInE ip target False] \<and>
                k < RetryCounts \<and> err = None))"
    unfolding logout_run_def by blast
  from g consider
    (exhausted) "tlo = concat (map (logout_failed ip target) fails)"
      "length fails = RetryCounts" "err = Some (last fails)"
    | (ok) lr where
      "tlo = concat (map (logout_failed ip target) fails) @ [LogoutTargetE ip target lr]"
      "lr = None \<or> (\<exists>e. lr = Some e \<and> not_found e)" "length fails < RetryCounts" "err = None"
    | (stuck) e k where "\<not> not_found e" "timed_out e" "length fails < RetryCounts"
      "tlo = concat (map (logout_failed ip target) fails) @
                    LogoutTargetE ip target (Some e) # ?wlog #
                    concat (replicate k (wait_failed ip target))"
      "k = RetryCounts" "err = Some e"
    | (gone) e k where "\<not> not_found e" "timed_out e" "length fails < RetryCounts"
      "tlo = concat (map (logout_failed ip target) fails) @
                    LogoutTargetE ip target (Some e) # ?wlog #
                    concat (replicate k (wait_failed ip target)) @
                    [IsTargetLoggedInE ip target False]"
      "k < RetryCounts" "err = None"
    by blast
  then show ?thesis
  proof cases
    case exhausted
    with assms(2) p show ?thesis
      by - (rule exI [of _ fails], rule exI [of _ "[]"], simp)
  next
    case ok
    with assms(2) p show ?thesis
      by - (rule exI [of _ fails], rule exI [of _ "LogoutTargetE ip target lr # tr"], simp)
  next
    case stuck
    with assms(2) p show ?thesis
      by - (rule exI [of _ fails],
            rule exI [of _ "LogoutTargetE ip target (Some e) # ?wlog #
                    concat (replicate k (wait_failed ip target)) @ []"],
            rule conjI, simp, rule conjI, simp,
            rule disjI2, rule disjI2, rule exI [of _ e], rule exI [of _ k],
            rule exI [of _ "[]"], simp)
  next
    case gone
    with assms(2) p show ?thesis
      by - (rule exI [of _ fails],
            rule exI [of _ "LogoutTargetE ip target (Some e) # ?wlog #
                    concat (replicate k (wait_failed ip target)) @
                    IsTargetLoggedInE ip target False # tr"],
            rule conjI, simp, rule conjI, simp,
            rule disjI2, rule disjI2, rule exI [of _ e], rule exI [of _ k],
            rule exI [of _ "IsTargetLoggedInE ip target False # tr"], simp)
  qed
qed

text \<open>
  C8. Once \<^verbatim>\<open>LogoutTarget\<close> has found a session logged in, its run goes on with the logout
  loop. A number of logouts fail with an error that holds neither \<^verbatim>\<open>exit status 21\<close> nor the
  timeout text; each is followed by a sleep of \<open>RetryIntervalSCSI\<close>. Then one of three
  things happens. The failures reach \<open>RetryCounts\<close>, and the last error is returned. Or a
  logout succeeds or its error holds \<^verbatim>\<open>exit status 21\<close> (the test the loop makes first): the
  function goes on to remove the discovered record. Or a logout's error holds the timeout
  text: no further logout is called; the session is polled, with a sleep of
  \<open>RetryIntervalSCSI\<close> after each poll that still sees it; after \<open>RetryCounts\<close> such polls the
  timeout error is returned, and as soon as a poll does not see the session the function
  goes on to remove the discovered record. And every run of \<^verbatim>\<open>LogoutTarget\<close> either returns
  an error after steps of the setup only, or finds no session after such steps and
  returns \<^verbatim>\<open>nil\<close>, or has this form after such steps and the test that finds the session.
\<close>

theorem LogoutTarget_logout_retry:
  assumes "LogoutTarget env target s = (r, s')"
  shows
    "(call (util_NewNamespaceExecutor env (util_GetHostNamespacePath env HostProc))
         (\<lambda>(ne, err). NewNamespaceExecutorE (util_GetHostNamespacePath env HostProc) err) s
           = ((ne, None), s1)
      \<and> call (util_GetIPToHost env) (case_prod GetIPToHostE) s1 = ((ip, None), s2)
      \<and> call (iscsi_CheckForInitiatorExistence env ne) CheckForInitiatorExistenceE s2 = (None, s3)
      \<and> call (iscsi_IsTargetLoggedIn env ip target ne) (IsTargetLoggedInE ip target) s3 = (True, s4)
      \<longrightarrow> (\<exists>fails tl.
            snd s' = snd s4 @ LogE Info ''Shutdown SCSI device for %v:%v'' [AStr ip, AStr target] #
                       concat (map (logout_failed ip target) fails) @ tl
            \<and> list_all (\<lambda>e. \<not> not_found e \<and> \<not> timed_out e) fails
            \<and> (tl = [] \<and> length fails = RetryCounts
                \<and> r = Some (''Failed to logout target: '' @ last fails)
             \<or> (\<exists>lr tr. tl = LogoutTargetE ip target lr # tr
                   \<and> (lr = None \<or> (\<exists>e. lr = Some e \<and> not_found e))
                   \<and> length fails < RetryCounts \<and> record_run ip target tr r)
             \<or> (\<exists>e k tw.
                   tl = LogoutTargetE ip target (Some e) #
                        LogE Info ''Logout SCSI device timeout, waiting for logout complete'' [] #
                        concat (replicate k (wait_failed ip target)) @ tw
                   \<and> \<not> not_found e \<and> timed_out e \<and> length fails < RetryCounts
                   \<and> (tw = [] \<and> k = RetryCounts
                         \<and> r = Some (''Failed to logout target: '' @ e)
                      \<or> (\<exists>tr. tw = IsTargetLoggedInE ip target False # tr
                            \<and> k < RetryCounts \<and> record_run ip target tr r))))))
     \<and> (\<exists>t. snd s' = snd s @ t \<and>
          (r \<noteq> None \<and> list_all is_setup_step t
           \<or> (\<exists>pre ip. t = pre @ [IsTargetLoggedInE ip target False]
                 \<and> list_all is_setup_step pre \<and> r = None)
           \<or> (\<exists>pre ip fails tl.
                 t = pre @ IsTargetLoggedInE ip target True #
                       LogE Info ''Shutdown SCSI device for %v:%v'' [AStr ip, AStr target] #
                       concat (map (logout_failed ip target) fails) @ tl
                 \<and> list_all is_setup_step pre
                 \<and> list_all (\<lambda>e. \<not> not_found e \<and> \<not> timed_out e) fails
                 \<and> (tl = [] \<and> length fails = RetryCounts
                \<and> r = Some (''Failed to logout target: '' @ last fails)
             \<or> (\<exists>lr tr. tl = LogoutTargetE ip target lr # tr
                   \<and> (lr = None \<or> (\<exists>e. lr = Some e \<and> not_found e))
                   \<and> length fails < RetryCounts \<and> record_run ip target tr r)
             \<or> (\<exists>e k tw.
                   tl = LogoutTargetE ip target (Some e) #
                        LogE Info ''Logout SCSI device timeout, waiting for logout complete'' [] #
                        concat (replicate k (wait_failed ip target)) @ tw
                   \<and> \<not> not_found e \<and> timed_out e \<and> length fails < RetryCounts
                   \<and> (tw = [] \<and> k = RetryCounts
                         \<and> r = Some (''Failed to logout target: '' @ e)
                      \<or> (\<exists>tr. tw = IsTargetLoggedInE ip target False # tr
                            \<and> k < RetryCounts \<and> record_run ip target tr r)))))))"
proof (rule conjI, rule impI)
  assume h: "call (util_NewNamespaceExecutor env (util_GetHostNamespacePath env HostProc))
         (\<lambda>(ne, err). NewNamespaceExecutorE (util_GetHostNamespacePath env HostProc) err) s
           = ((ne, None), s1)
      \<and> call (util_GetIPToHost env) (case_prod GetIPToHostE) s1 = ((ip, None), s2)
      \<and> call (iscsi_CheckForInitiatorExistence env ne) CheckForInitiatorExistenceE s2 = (None, s3)
      \<and> call (iscsi_IsTargetLoggedIn env ip target ne) (IsTargetLoggedInE ip target) s3 = (True, s4)"
  from LogoutTarget_session [OF h [THEN conjunct1] h [THEN conjunct2, THEN conjunct1]
      h [THEN conjunct2, THEN conjunct2, THEN conjunct1]
      h [THEN conjunct2, THEN conjunct2, THEN conjunct2] assms]
  obtain tlo err tr where
    a: "snd s' = snd s4 @ LogE Info ''Shutdown SCSI device for %v:%v'' [AStr ip, AStr target] #
                      tlo @ tr"
      "logout_run ip target tlo err"
      "(\<exists>e. err = Some e \<and> tr = [] \<and> r = Some (''Failed to logout target: '' @ e))
              \<or> err = None \<and> record_run ip target tr r"
    by blast
  from logout_run_cases [OF a(2,3)] obtain fails tl' where
    c: "tlo @ tr = concat (map (logout_failed ip target) fails) @ tl'"
      "list_all (\<lambda>e. \<not> not_found e \<and> \<not> timed_out e) fails"
      "(tl' = [] \<and> length fails = RetryCounts
                \<and> r = Some (''Failed to logout target: '' @ last fails)
             \<or> (\<exists>lr tr. tl' = LogoutTargetE ip target lr # tr
                   \<and> (lr = None \<or> (\<exists>e. lr = Some e \<and> not_found e))
                   \<and> length fails < RetryCounts \<and> record_run ip target tr r)
             \<or> (\<exists>e k tw.
                   tl' = LogoutTargetE ip target (Some e) #
                        LogE Info ''Logout SCSI device timeout, waiting for logout complete'' [] #
                        concat (replicate k (wait_failed ip target)) @ tw
                   \<and> \<not> not_found e \<and> timed_out e \<and> length fails < RetryCounts
                   \<and> (tw = [] \<and> k = RetryCounts
                         \<and> r = Some (''Failed to logout target: '' @ e)
                      \<or> (\<exists>tr. tw = IsTargetLoggedInE ip target False # tr
                            \<and> k < RetryCounts \<and> record_run ip target tr r))))"
    by (elim exE conjE) (rule that, assumption+)
  show "(\<exists>fails tl.
            snd s' = snd s4 @ LogE Info ''Shutdown SCSI device for %v:%v'' [AStr ip, AStr target] #
                       concat (map (logout_failed ip target) fails) @ tl
            \<and> list_all (\<lambda>e. \<not> not_found e \<and> \<not> timed_out e) fails
            \<and> (tl = [] \<and> length fails = RetryCounts
                \<and> r = Some (''Failed to logout target: '' @ last fails)
             \<or> (\<exists>lr tr. tl = LogoutTargetE ip target lr # tr
                   \<and> (lr = None \<or> (\<exists>e. lr = Some e \<and> not_found e))
                   \<and> length fails < RetryCounts \<and> record_run ip target tr r)
             \<or> (\<exists>e k tw.
                   tl = LogoutTargetE ip target (Some e) #
                        LogE Info ''Logout SCSI device timeout, waiting for logout complete'' [] #
                        concat (replicate k (wait_failed ip target)) @ tw
                   \<and> \<not> not_found e \<and> timed_out e \<and> length fails < RetryCounts
                   \<and> (tw = [] \<and> k = RetryCounts
                         \<and> r = Some (''Failed to logout target: '' @ e)
                      \<or> (\<exists>tr. tw = IsTargetLoggedInE ip target False # tr
                            \<and> k < RetryCounts \<and> record_run ip target tr r)))))"
  proof (rule exI [of _ fails], rule exI [of _ tl'], intro conjI)
    show "snd s' = snd s4 @ LogE Info ''Shutdown SCSI device for %v:%v'' [AStr ip, AStr target] #
                       concat (map (logout_failed ip target) fails) @ tl'"
      using a(1) c(1) by simp
    show "list_all (\<lambda>e. \<not> not_found e \<and> \<not> timed_out e) fails" by fact
    show "(tl' = [] \<and> length fails = RetryCounts
                \<and> r = Some (''Failed to logout target: '' @ last fails)
             \<or> (\<exists>lr tr. tl' = LogoutTargetE ip target lr # tr
                   \<and> (lr = None \<or> (\<exists>e. lr = Some e \<and> not_found e))
                   \<and> length fails < RetryCounts \<and> record_run ip target tr r)
             \<or> (\<exists>e k tw.
                   tl' = LogoutTargetE ip target (Some e) #
                        LogE Info ''Logout SCSI device timeout, waiting for logout complete'' [] #
                        concat (replicate k (wait_failed ip target)) @ tw
                   \<and> \<not> not_found e \<and> timed_out e \<and> length fails < RetryCounts
                   \<and> (tw = [] \<and> k = RetryCounts
                         \<and> r = Some (''Failed to logout target: '' @ e)
                      \<or> (\<exists>tr. tw = IsTargetLoggedInE ip target False # tr
                            \<and> k < RetryCounts \<and> record_run ip target tr r))))" by (rule c(3))
  qed
next
  from LogoutTarget_shape [OF assms] obtain t where
    t: "snd s' = snd s @ t"
    and d: "r \<noteq> None \<and> list_all is_setup_step t
      \<or> (\<exists>pre ip. t = pre @ [IsTargetLoggedInE ip target False] \<and>
            list_all is_setup_step pre \<and> r = None)
      \<or> (\<exists>pre ip tl err tr.
            t = pre @ IsTargetLoggedInE ip target True #
                  LogE Info ''Shutdown SCSI device for %v:%v'' [AStr ip, AStr target] # tl @ tr \<and>
            list_all is_setup_step pre \<and> logout_run ip target tl err \<and>
            ((\<exists>e. err = Some e \<and> tr = [] \<and> r = Some (''Failed to logout target: '' @ e))
             \<or> err = None \<and> record_run ip target tr r))"
    by blast
  from d consider (early) "r \<noteq> None" "list_all is_setup_step t"
    | (nosession) pre ip where "t = pre @ [IsTargetLoggedInE ip target False]"
        "list_all is_setup_step pre" "r = None"
    | (session) pre ip tlo err tr where
        "t = pre @ IsTargetLoggedInE ip target True #
               LogE Info ''Shutdown SCSI device for %v:%v'' [AStr ip, AStr target] # tlo @ tr"
        "list_all is_setup_step pre" "logout_run ip target tlo err"
        "(\<exists>e. err = Some e \<and> tr = [] \<and> r = Some (''Failed to logout target: '' @ e))
             \<or> err = None \<and> record_run ip target tr r"
    by (elim disjE exE conjE) blast+
  then show "(\<exists>t. snd s' = snd s @ t \<and>
          (r \<noteq> None \<and> list_all is_setup_step t
           \<or> (\<exists>pre ip. t = pre @ [IsTargetLoggedInE ip target False]
                 \<and> list_all is_setup_step pre \<and> r = None)
           \<or> (\<exists>pre ip fails tl.
                 t = pre @ IsTargetLoggedInE ip target True #
                       LogE Info ''Shutdown SCSI device for %v:%v'' [AStr ip, AStr target] #
                       concat (map (logout_failed ip target) fails) @ tl
                 \<and> list_all is_setup_step pre
                 \<and> list_all (\<lambda>e. \<not> not_found e \<and> \<not> timed_out e) fails
                 \<and> (tl = [] \<and> length fails = RetryCounts
                \<and> r = Some (''Failed to logout target: '' @ last fails)
             \<or> (\<exists>lr tr. tl = LogoutTargetE ip target lr # tr
                   \<and> (lr = None \<or> (\<exists>e. lr = Some e \<and> not_found e))
                   \<and> length fails < RetryCounts \<and> record_run ip target tr r)
             \<or> (\<exists>e k tw.
                   tl = LogoutTargetE ip target (Some e) #
                        LogE Info ''Logout SCSI device timeout, waiting for logout complete'' [] #
                        concat (replicate k (wait_failed ip target)) @ tw
                   \<and> \<not> not_found e \<and> timed_out e \<and> length fails < RetryCounts
                   \<and> (tw = [] \<and> k = RetryCounts
                         \<and> r = Some (''Failed to logout target: '' @ e)
                      \<or> (\<exists>tr. tw = IsTargetLoggedInE ip target False # tr
                            \<and> k < RetryCounts \<and> record_run ip target tr r)))))))"
  proof cases
    case early
    show ?thesis
      by (rule exI [of _ t], rule conjI [OF t], rule disjI1, insert early, simp)
  next
    case nosession
    show ?thesis
      by (rule exI [of _ t], rule conjI [OF t], rule disjI2, rule disjI1,
          rule exI [of _ pre], rule exI [of _ ip], insert nosession, simp)
  next
    case session
    from logout_run_cases [OF session(3,4)] obtain fails tl' where
      c: "tlo @ tr = concat (map (logout_failed ip target) fails) @ tl'"
        "list_all (\<lambda>e. \<not> not_found e \<and> \<not> timed_out e) fails"
        "(tl' = [] \<and> length fails = RetryCounts
                \<and> r = Some (''Failed to logout target: '' @ last fails)
             \<or> (\<exists>lr tr. tl' = LogoutTargetE ip target lr # tr
                   \<and> (lr = None \<or> (\<exists>e. lr = Some e \<and> not_found e))
                   \<and> length fails < RetryCounts \<and> record_run ip target tr r)
             \<or> (\<exists>e k tw.
                   tl' = LogoutTargetE ip target (Some e) #
                        LogE Info ''Logout SCSI device timeout, waiting for logout complete'' [] #
                        concat (replicate k (wait_failed ip target)) @ tw
                   \<and> \<not> not_found e \<and> timed_out e \<and> length fails < RetryCounts
                   \<and> (tw = [] \<and> k = RetryCounts
                         \<and> r = Some (''Failed to logout target: '' @ e)
                      \<or> (\<exists>tr. tw = IsTargetLoggedInE ip target False # tr
                            \<and> k < RetryCounts \<and> record_run ip target tr r))))"
      by (elim exE conjE) (rule that, assumption+)
    show ?thesis
    proof (rule exI [of _ t], rule conjI [OF t], rule disjI2, rule disjI2,
          rule exI [of _ pre], rule exI [of _ ip], rule exI [of _ fails], rule exI [of _ tl'],
          intro conjI)
      show "t = pre @ IsTargetLoggedInE ip target True #
                       LogE Info ''Shutdown SCSI device for %v:%v'' [AStr ip, AStr target] #
                       concat (map (logout_failed ip target) fails) @ tl'"
        using session(1) c(1) by simp
      show "list_all is_setup_step pre" by fact
      show "list_all (\<lambda>e. \<not> not_found e \<and> \<not> timed_out e) fails" by fact
      show "(tl' = [] \<and> length fails = RetryCounts
                \<and> r = Some (''Failed to logout target: '' @ last fails)
             \<or> (\<exists>lr tr. tl' = LogoutTargetE ip target lr # tr
                   \<and> (lr = None \<or> (\<exists>e. lr = Some e \<and> not_found e))
                   \<and> length fails < RetryCounts \<and> record_run ip target tr r)
             \<or> (\<exists>e k tw.
                   tl' = LogoutTargetE ip target (Some e) #
                        LogE Info ''Logout SCSI device timeout, waiting for logout complete'' [] #
                        concat (replicate k (wait_failed ip target)) @ tw
                   \<and> \<not> not_found e \<and> timed_out e \<and> length fails < RetryCounts
                   \<and> (tw = [] \<and> k = RetryCounts
                         \<and> r = Some (''Failed to logout target: '' @ e)
                      \<or> (\<exists>tr. tw = IsTargetLoggedInE ip target False # tr
                            \<and> k < RetryCounts \<and> record_run ip target tr r))))" by (rule c(3))
    qed
  qed
qed

theorem LogoutTarget_logout_retry_witness:
  "fst (LogoutTarget sim_timeout ''iqn.2014-09.com.rancher:data:01'' (0, [])) = None
   \<and> call (iscsi_IsTargetLoggedIn sim_timeout ''10.0.0.1'' ''iqn.2014-09.com.rancher:data:01'' ''/host/proc/1/ns'')
       (IsTargetLoggedInE ''10.0.0.1'' ''iqn.2014-09.com.rancher:data:01'')
       (0, [NewNamespaceExecutorE ''/host/proc/1/ns'' None,
            GetIPToHostE ''10.0.0.1'' None,
            CheckForInitiatorExistenceE None]) =
     (True, (0, [NewNamespaceExecutorE ''/host/proc/1/ns'' None,
            GetIPToHostE ''10.0.0.1'' None,
            CheckForInitiatorExistenceE None,
            IsTargetLoggedInE ''10.0.0.1'' ''iqn.2014-09.com.rancher:data:01'' True]))
   \<and> snd (snd (LogoutTarget sim_timeout ''iqn.2014-09.com.rancher:data:01'' (0, []))) =
        [NewNamespaceExecutorE ''/host/proc/1/ns'' None,
            GetIPToHostE ''10.0.0.1'' None,
            CheckForInitiatorExistenceE None,
            IsTargetLoggedInE ''10.0.0.1'' ''iqn.2014-09.com.rancher:data:01'' True] @
        LogE Info ''Shutdown SCSI device for %v:%v'' [AStr ''10.0.0.1'', AStr ''iqn.2014-09.com.rancher:data:01''] #
        concat (map (logout_failed ''10.0.0.1'' ''iqn.2014-09.com.rancher:data:01'') [''exit status 8'']) @
        LogoutTargetE ''10.0.0.1'' ''iqn.2014-09.com.rancher:data:01'' (Some ''Timeout executing: iscsiadm'') #
        LogE Info ''Logout SCSI device timeout, waiting for logout complete'' [] #
        concat (replicate 1 (wait_failed ''10.0.0.1'' ''iqn.2014-09.com.rancher:data:01'')) @
        IsTargetLoggedInE ''10.0.0.1'' ''iqn.2014-09.com.rancher:data:01'' False #
        [IsTargetDiscoveredE ''10.0.0.1'' ''iqn.2014-09.com.rancher:data:01'' True,
         DeleteDiscoveredTargetE ''10.0.0.1'' ''iqn.2014-09.com.rancher:data:01'' None]
   \<and> (\<exists>fails tl.
            snd (snd (LogoutTarget sim_timeout ''iqn.2014-09.com.rancher:data:01'' (0, []))) =
           [NewNamespaceExecutorE ''/host/proc/1/ns'' None,
            GetIPToHostE ''10.0.0.1'' None,
            CheckForInitiatorExistenceE None,
            IsTargetLoggedInE ''10.0.0.1'' ''iqn.2014-09.com.rancher:data:01'' True] @ LogE Info ''Shutdown SCSI device for %v:%v'' [AStr ''10.0.0.1'', AStr ''iqn.2014-09.com.rancher:data:01''] #
                       concat (map (logout_failed ''10.0.0.1'' ''iqn.2014-09.com.rancher:data:01'') fails) @ tl
            \<and> list_all (\<lambda>e. \<not> not_found e \<and> \<not> timed_out e) fails
            \<and> (tl = [] \<and> length fails = RetryCounts
                \<and> None = Some (''Failed to logout target: '' @ last fails)
             \<or> (\<exists>lr tr. tl = LogoutTargetE ''10.0.0.1'' ''iqn.2014-09.com.rancher:data:01'' lr # tr
                   \<and> (lr = None \<or> (\<exists>e. lr = Some e \<and> not_found e))
                   \<and> length fails < RetryCounts \<and> record_run ''10.0.0.1'' ''iqn.2014-09.com.rancher:data:01'' tr None)
             \<or> (\<exists>e k tw.
                   tl = LogoutTargetE ''10.0.0.1'' ''iqn.2014-09.com.rancher:data:01'' (Some e) #
                        LogE Info ''Logout SCSI device timeout, waiting for logout complete'' [] #
                        concat (replicate k (wait_failed ''10.0.0.1'' ''iqn.2014-09.com.rancher:data:01'')) @ tw
                   \<and> \<not> not_found e \<and> timed_out e \<and> length fails < RetryCounts
                   \<and> (tw = [] \<and> k = RetryCounts
                         \<and> None = Some (''Failed to logout target: '' @ e)
                      \<or> (\<exists>tr. tw = IsTargetLoggedInE ''10.0.0.1'' ''iqn.2014-09.com.rancher:data:01'' False # tr
                            \<and> k < RetryCounts \<and> record_run ''10.0.0.1'' ''iqn.2014-09.com.rancher:data:01'' tr None)))))"
proof -
  let ?T = "''iqn.2014-09.com.rancher:data:01''"
  let ?ns = "''/host/proc/1/ns''"
  let ?R = "LogoutTarget sim_timeout ?T (0, [])"
  let ?t1 = "[NewNamespaceExecutorE ?ns None]"
  let ?t2 = "?t1 @ [GetIPToHostE ''10.0.0.1'' None]"
  let ?t3 = "?t2 @ [CheckForInitiatorExistenceE None]"
  let ?t4 = "?t3 @ [IsTargetLoggedInE ''10.0.0.1'' ?T True]"
  have run: "?R = (fst ?R, snd ?R)" by simp
  have p1: "call (util_NewNamespaceExecutor sim_timeout (util_GetHostNamespacePath sim_timeout HostProc))
              (\<lambda>(ne, err). NewNamespaceExecutorE (util_GetHostNamespacePath sim_timeout HostProc) err)
              (0, []) = ((?ns, None), (0, ?t1))"
    by (simp add: sim_timeout_def run_simps)
  have p2: "call (util_GetIPToHost sim_timeout) (case_prod GetIPToHostE) (0, ?t1)
              = ((''10.0.0.1'', None), (0, ?t2))"
    by (simp add: sim_timeout_def run_simps)
  have p3: "call (iscsi_CheckForInitiatorExistence sim_timeout ?ns) CheckForInitiatorExistenceE
              (0, ?t2) = (None, (0, ?t3))"
    by (simp add: sim_timeout_def run_simps)
  have p4: "call (iscsi_IsTargetLoggedIn sim_timeout ''10.0.0.1'' ?T ?ns)
              (IsTargetLoggedInE ''10.0.0.1'' ?T) (0, ?t3) = (True, (0, ?t4))"
    by (simp add: sim_timeout_def run_simps)
  have a: "fst ?R = None"
    by (simp add: LogoutTarget_simps run_simps sim_timeout_def)
  have b: "snd (snd ?R) =
        ?t4 @ LogE Info ''Shutdown SCSI device for %v:%v'' [AStr ''10.0.0.1'', AStr ?T] #
        concat (map (logout_failed ''10.0.0.1'' ?T) [''exit status 8'']) @
        LogoutTargetE ''10.0.0.1'' ?T (Some ''Timeout executing: iscsiadm'') #
        LogE Info ''Logout SCSI device timeout, waiting for logout complete'' [] #
        concat (replicate 1 (wait_failed ''10.0.0.1'' ?T)) @
        IsTargetLoggedInE ''10.0.0.1'' ?T False #
        [IsTargetDiscoveredE ''10.0.0.1'' ?T True, DeleteDiscoveredTargetE ''10.0.0.1'' ?T None]"
    by (simp add: LogoutTarget_simps run_simps sim_timeout_def logout_failed_def
        wait_failed_def RetryIntervalSCSI_def)
  note c = LogoutTarget_logout_retry [OF run, THEN conjunct1, THEN mp,
      OF conjI [OF p1 conjI [OF p2 conjI [OF p3 p4]]]]
  have c': "(\<exists>fails tl.
            snd (snd (LogoutTarget sim_timeout ''iqn.2014-09.com.rancher:data:01'' (0, []))) =
           ?t4 @ LogE Info ''Shutdown SCSI device for %v:%v'' [AStr ''10.0.0.1'', AStr ''iqn.2014-09.com.rancher:data:01''] #
                       concat (map (logout_failed ''10.0.0.1'' ''iqn.2014-09.com.rancher:data:01'') fails) @ tl
            \<and> list_all (\<lambda>e. \<not> not_found e \<and> \<not> timed_out e) fails
            \<and> (tl = [] \<and> length fails = RetryCounts
                \<and> None = Some (''Failed to logout target: '' @ last fails)
             \<or> (\<exists>lr tr. tl = LogoutTargetE ''10.0.0.1'' ''iqn.2014-09.com.rancher:data:01'' lr # tr
                   \<and> (lr = None \<or> (\<exists>e. lr = Some e \<and> not_found e))
                   \<and> length fails < RetryCounts \<and> record_run ''10.0.0.1'' ''iqn.2014-09.com.rancher:data:01'' tr None)
             \<or> (\<exists>e k tw.
                   tl = LogoutTargetE ''10.0.0.1'' ''iqn.2014-09.com.rancher:data:01'' (Some e) #
                        LogE Info ''Logout SCSI device timeout, waiting for logout complete'' [] #
                        concat (replicate k (wait_failed ''10.0.0.1'' ''iqn.2014-09.com.rancher:data:01'')) @ tw
                   \<and> \<not> not_found e \<and> timed_out e \<and> length fails < RetryCounts
                   \<and> (tw = [] \<and> k = RetryCounts
                         \<and> None = Some (''Failed to logout target: '' @ e)
                      \<or> (\<exists>tr. tw = IsTargetLoggedInE ''10.0.0.1'' ''iqn.2014-09.com.rancher:data:01'' False # tr
                            \<and> k < RetryCounts \<and> record_run ''10.0.0.1'' ''iqn.2014-09.com.rancher:data:01'' tr None)))))"
    using c a by simp
  from a p4 b c' show ?thesis by simp
qed

section \<open>The discovered-target record\<close>

text \<open>
  C2. The claim that the discovered-target record is removed also when no session is
  logged in fails: on a host where the target is discovered and no session is logged in,
  \<^verbatim>\<open>LogoutTarget\<close> returns \<^verbatim>\<open>nil\<close> after the test for a session, without a call of
  \<^verbatim>\<open>IsTargetDiscovered\<close> or \<^verbatim>\<open>DeleteDiscoveredTarget\<close>, and the target is still discovered.
\<close>

theorem LogoutTarget_no_session_keeps_record:
  "LogoutTarget sim ''iqn.2014-09.com.rancher:data:01'' (0, []) =
     (None, (0, [NewNamespaceExecutorE ''/host/proc/1/ns'' None,
                 GetIPToHostE ''10.0.0.1'' None,
                 CheckForInitiatorExistenceE None,
                 IsTargetLoggedInE ''10.0.0.1'' ''iqn.2014-09.com.rancher:data:01'' False]))
   \<and> fst (iscsi_IsTargetDiscovered sim ''10.0.0.1'' ''iqn.2014-09.com.rancher:data:01''
            ''/host/proc/1/ns'' 0)"
  by (simp add: LogoutTarget_simps run_simps)

lemma record_run_cases:
  assumes "record_run ip target tr r"
  obtains fails tl' where "tr = concat (map (delete_failed ip target) fails) @ tl'"
    and "list_all (\<lambda>e. \<not> not_found e) fails"
    and "(tl' = [] \<and> length fails = RetryCounts \<and> r = Some (last fails)
                   \<or> length fails < RetryCounts \<and> r = None
                      \<and> (tl' = [IsTargetDiscoveredE ip target False]
                         \<or> (\<exists>dr. tl' = [IsTargetDiscoveredE ip target True,
                                        DeleteDiscoveredTargetE ip target dr]
                               \<and> (dr = None \<or> (\<exists>e. dr = Some e \<and> not_found e)))))"
proof -
  from assms obtain fails where
    p: "list_all (\<lambda>e. \<not> not_found e) fails"
    and g: "tr = concat (map (delete_failed ip target) fails) \<and> length fails = RetryCounts \<and>
           r = Some (last fails)
         \<or> length fails < RetryCounts \<and> r = None \<and>
           (tr = concat (map (delete_failed ip target) fails) @ [IsTargetDiscoveredE ip target False]
            \<or> (\<exists>dr. tr = concat (map (delete_failed ip target) fails) @
                        [IsTargetDiscoveredE ip target True, DeleteDiscoveredTargetE ip target dr] \<and>
                     (dr = None \<or> (\<exists>e. dr = Some e \<and> not_found e))))"
    unfolding record_run_def by blast
  from g consider
    (exhausted) "tr = concat (map (delete_failed ip target) fails)" "length fails = RetryCounts"
      "r = Some (last fails)"
    | (gone) "tr = concat (map (delete_failed ip target) fails) @
                [IsTargetDiscoveredE ip target False]" "length fails < RetryCounts" "r = None"
    | (deleted) dr where "tr = concat (map (delete_failed ip target) fails) @
                [IsTargetDiscoveredE ip target True, DeleteDiscoveredTargetE ip target dr]"
        "dr = None \<or> (\<exists>e. dr = Some e \<and> not_found e)" "length fails < RetryCounts" "r = None"
    by blast
  then show thesis
  proof cases
    case exhausted
    with p show thesis
      by (intro that [of fails "[]"]) simp_all
  next
    case gone
    with p show thesis
      by (intro that [of fails "[IsTargetDiscoveredE ip target False]"]) simp_all
  next
    case deleted
    with p show thesis
      by (intro that [of fails "[IsTargetDiscoveredE ip target True,
            DeleteDiscoveredTargetE ip target dr]"]) simp_all
  qed
qed

text \<open>
  C2, as the code has it. When \<^verbatim>\<open>LogoutTarget\<close> finds no session logged in, it returns \<^verbatim>\<open>nil\<close>
  at once: the run ends with the test for a session, and the discovered record is left
  alone. When it finds a session, the logout phase runs; if that phase ends with an
  error, the error is returned and the record is not looked at; if it ends without one,
  the record is removed: the target is found not discovered, which is success; or a
  deletion succeeds or reports \<^verbatim>\<open>exit status 21\<close>, which is success; a deletion that fails
  otherwise is retried after a sleep of \<open>RetryIntervalSCSI\<close>, and after \<open>RetryCounts\<close> such
  failures the last error is returned. And every run of \<^verbatim>\<open>LogoutTarget\<close> is of one of these
  kinds, after steps of the setup only, or returns an error after such steps.
\<close>

theorem LogoutTarget_record_removal:
  assumes "LogoutTarget env target s = (r, s')"
  shows
    "(call (util_NewNamespaceExecutor env (util_GetHostNamespacePath env HostProc))
         (\<lambda>(ne, err). NewNamespaceExecutorE (util_GetHostNamespacePath env HostProc) err) s
           = ((ne, None), s1)
      \<and> call (util_GetIPToHost env) (case_prod GetIPToHostE) s1 = ((ip, None), s2)
      \<and> call (iscsi_CheckForInitiatorExistence env ne) CheckForInitiatorExistenceE s2 = (None, s3)
      \<and> call (iscsi_IsTargetLoggedIn env ip target ne) (IsTargetLoggedInE ip target) s3 = (False, s4)
      \<longrightarrow> (r = None \<and> s' = s4))
     \<and> (call (util_NewNamespaceExecutor env (util_GetHostNamespacePath env HostProc))
         (\<lambda>(ne, err). NewNamespaceExecutorE (util_GetHostNamespacePath env HostProc) err) s
           = ((ne, None), s1)
      \<and> call (util_GetIPToHost env) (case_prod GetIPToHostE) s1 = ((ip, None), s2)
      \<and> call (iscsi_CheckForInitiatorExistence env ne) CheckForInitiatorExistenceE s2 = (None, s3)
      \<and> call (iscsi_IsTargetLoggedIn env ip target ne) (IsTargetLoggedInE ip target) s3 = (True, s4)
      \<longrightarrow> (\<exists>tlo err.
            logout_run ip target tlo err \<and> list_all (\<lambda>e. \<not> is_record_step e) tlo
            \<and> ((\<exists>e. err = Some e \<and> r = Some (''Failed to logout target: '' @ e)
                     \<and> snd s' = snd s4 @ LogE Info ''Shutdown SCSI device for %v:%v'' [AStr ip, AStr target] # tlo)
               \<or> err = None
                  \<and> (\<exists>fails tl.
                        snd s' = snd s4 @ LogE Info ''Shutdown SCSI device for %v:%v'' [AStr ip, AStr target] #
                                   tlo @ concat (map (delete_failed ip target) fails) @ tl
                        \<and> list_all (\<lambda>e. \<not> not_found e) fails
                        \<and> (tl = [] \<and> length fails = RetryCounts \<and> r = Some (last fails)
                   \<or> length fails < RetryCounts \<and> r = None
                      \<and> (tl = [IsTargetDiscoveredE ip target False]
                         \<or> (\<exists>dr. tl = [IsTargetDiscoveredE ip target True,
                                        DeleteDiscoveredTargetE ip target dr]
                               \<and> (dr = None \<or> (\<exists>e. dr = Some e \<and> not_found e)))))))))
     \<and> (\<exists>t. snd s' = snd s @ t \<and>
          (r \<noteq> None \<and> list_all is_setup_step t
           \<or> (\<exists>pre ip. t = pre @ [IsTargetLoggedInE ip target False]
                 \<and> list_all is_setup_step pre \<and> r = None)
           \<or> (\<exists>pre ip tlo e.
                 t = pre @ IsTargetLoggedInE ip target True # LogE Info ''Shutdown SCSI device for %v:%v'' [AStr ip, AStr target] # tlo
                 \<and> list_all is_setup_step pre
                 \<and> logout_run ip target tlo (Some e)
                 \<and> list_all (\<lambda>e. \<not> is_record_step e) tlo
                 \<and> r = Some (''Failed to logout target: '' @ e))
           \<or> (\<exists>pre ip tlo fails tl.
                 t = pre @ IsTargetLoggedInE ip target True # LogE Info ''Shutdown SCSI device for %v:%v'' [AStr ip, AStr target] #
                       tlo @ concat (map (delete_failed ip target) fails) @ tl
                 \<and> list_all is_setup_step pre
                 \<and> logout_run ip target tlo None
                 \<and> list_all (\<lambda>e. \<not> is_record_step e) tlo
                 \<and> list_all (\<lambda>e. \<not> not_found e) fails
                 \<and> (tl = [] \<and> length fails = RetryCounts \<and> r = Some (last fails)
                   \<or> length fails < RetryCounts \<and> r = None
                      \<and> (tl = [IsTargetDiscoveredE ip target False]
                         \<or> (\<exists>dr. tl = [IsTargetDiscoveredE ip target True,
                                        DeleteDiscoveredTargetE ip target dr]
                               \<and> (dr = None \<or> (\<exists>e. dr = Some e \<and> not_found e))))))))"
proof (intro conjI impI)
  assume h: "call (util_NewNamespaceExecutor env (util_GetHostNamespacePath env HostProc))
         (\<lambda>(ne, err). NewNamespaceExecutorE (util_GetHostNamespacePath env HostProc) err) s
           = ((ne, None), s1)
      \<and> call (util_GetIPToHost env) (case_prod GetIPToHostE) s1 = ((ip, None), s2)
      \<and> call (iscsi_CheckForInitiatorExistence env ne) CheckForInitiatorExistenceE s2 = (None, s3)
      \<and> call (iscsi_IsTargetLoggedIn env ip target ne) (IsTargetLoggedInE ip target) s3 = (False, s4)"
  from LogoutTarget_no_session [OF h [THEN conjunct1] h [THEN conjunct2, THEN conjunct1]
      h [THEN conjunct2, THEN conjunct2, THEN conjunct1]
      h [THEN conjunct2, THEN conjunct2, THEN conjunct2] assms]
  show "r = None" and "s' = s4" by simp_all
next
  assume h: "call (util_NewNamespaceExecutor env (util_GetHostNamespacePath env HostProc))
         (\<lambda>(ne, err). NewNamespaceExecutorE (util_GetHostNamespacePath env HostProc) err) s
           = ((ne, None), s1)
      \<and> call (util_GetIPToHost env) (case_prod GetIPToHostE) s1 = ((ip, None), s2)
      \<and> call (iscsi_CheckForInitiatorExistence env ne) CheckForInitiatorExistenceE s2 = (None, s3)
      \<and> call (iscsi_IsTargetLoggedIn env ip target ne) (IsTargetLoggedInE ip target) s3 = (True, s4)"
  from LogoutTarget_session [OF h [THEN conjunct1] h [THEN conjunct2, THEN conjunct1]
      h [THEN conjunct2, THEN conjunct2, THEN conjunct1]
      h [THEN conjunct2, THEN conjunct2, THEN conjunct2] assms]
  obtain tlo err tr where
    a: "snd s' = snd s4 @ LogE Info ''Shutdown SCSI device for %v:%v'' [AStr ip, AStr target] # tlo @ tr"
      "logout_run ip target tlo err"
      "(\<exists>e. err = Some e \<and> tr = [] \<and> r = Some (''Failed to logout target: '' @ e))
              \<or> err = None \<and> record_run ip target tr r"
    by blast
  note nr = logout_run_no_record [OF a(2)]
  from a(3) show "(\<exists>tlo err.
            logout_run ip target tlo err \<and> list_all (\<lambda>e. \<not> is_record_step e) tlo
            \<and> ((\<exists>e. err = Some e \<and> r = Some (''Failed to logout target: '' @ e)
                     \<and> snd s' = snd s4 @ LogE Info ''Shutdown SCSI device for %v:%v'' [AStr ip, AStr target] # tlo)
               \<or> err = None
                  \<and> (\<exists>fails tl.
                        snd s' = snd s4 @ LogE Info ''Shutdown SCSI device for %v:%v'' [AStr ip, AStr target] #
                                   tlo @ concat (map (delete_failed ip target) fails) @ tl
                        \<and> list_all (\<lambda>e. \<not> not_found e) fails
                        \<and> (tl = [] \<and> length fails = RetryCounts \<and> r = Some (last fails)
                   \<or> length fails < RetryCounts \<and> r = None
                      \<and> (tl = [IsTargetDiscoveredE ip target False]
                         \<or> (\<exists>dr. tl = [IsTargetDiscoveredE ip target True,
                                        DeleteDiscoveredTargetE ip target dr]
                               \<and> (dr = None \<or> (\<exists>e. dr = Some e \<and> not_found e))))))))"
  proof
    assume "\<exists>e. err = Some e \<and> tr = [] \<and> r = Some (''Failed to logout target: '' @ e)"
    then obtain e where e: "err = Some e" "tr = []" "r = Some (''Failed to logout target: '' @ e)"
      by blast
    show ?thesis
      by (rule exI [of _ tlo], rule exI [of _ err], rule conjI [OF a(2)], rule conjI [OF nr],
          rule disjI1, rule exI [of _ e], insert e a(1), simp)
  next
    assume n: "err = None \<and> record_run ip target tr r"
    then have "record_run ip target tr r" by simp
    then obtain fails tl' where
      c: "tr = concat (map (delete_failed ip target) fails) @ tl'"
        "list_all (\<lambda>e. \<not> not_found e) fails"
        "(tl' = [] \<and> length fails = RetryCounts \<and> r = Some (last fails)
                   \<or> length fails < RetryCounts \<and> r = None
                      \<and> (tl' = [IsTargetDiscoveredE ip target False]
                         \<or> (\<exists>dr. tl' = [IsTargetDiscoveredE ip target True,
                                        DeleteDiscoveredTargetE ip target dr]
                               \<and> (dr = None \<or> (\<exists>e. dr = Some e \<and> not_found e)))))"
      by (rule record_run_cases)
    show ?thesis
    proof (rule exI [of _ tlo], rule exI [of _ err], rule conjI [OF a(2)], rule conjI [OF nr],
          rule disjI2, rule conjI, (insert n, simp)[1],
          rule exI [of _ fails], rule exI [of _ tl'], intro conjI)
      show "snd s' = snd s4 @ LogE Info ''Shutdown SCSI device for %v:%v'' [AStr ip, AStr target] #
                                   tlo @ concat (map (delete_failed ip target) fails) @ tl'"
        using a(1) c(1) by simp
      show "list_all (\<lambda>e. \<not> not_found e) fails" by fact
      show "(tl' = [] \<and> length fails = RetryCounts \<and> r = Some (last fails)
                   \<or> length fails < RetryCounts \<and> r = None
                      \<and> (tl' = [IsTargetDiscoveredE ip target False]
                         \<or> (\<exists>dr. tl' = [IsTargetDiscoveredE ip target True,
                                        DeleteDiscoveredTargetE ip target dr]
                               \<and> (dr = None \<or> (\<exists>e. dr = Some e \<and> not_found e)))))" by (rule c(3))
    qed
  qed
next
  from LogoutTarget_shape [OF assms] obtain t where
    t: "snd s' = snd s @ t"
    and d: "r \<noteq> None \<and> list_all is_setup_step t
      \<or> (\<exists>pre ip. t = pre @ [IsTargetLoggedInE ip target False] \<and>
            list_all is_setup_step pre \<and> r = None)
      \<or> (\<exists>pre ip tl err tr.
            t = pre @ IsTargetLoggedInE ip target True #
                  LogE Info ''Shutdown SCSI device for %v:%v'' [AStr ip, AStr target] # tl @ tr \<and>
            list_all is_setup_step pre \<and> logout_run ip target tl err \<and>
            ((\<exists>e. err = Some e \<and> tr = [] \<and> r = Some (''Failed to logout target: '' @ e))
             \<or> err = None \<and> record_run ip target tr r))"
    by blast
  from d consider (early) "r \<noteq> None" "list_all is_setup_step t"
    | (nosession) pre ip where "t = pre @ [IsTargetLoggedInE ip target False]"
        "list_all is_setup_step pre" "r = None"
    | (failed) pre ip tlo e where
        "t = pre @ IsTargetLoggedInE ip target True # LogE Info ''Shutdown SCSI device for %v:%v'' [AStr ip, AStr target] # tlo"
        "list_all is_setup_step pre" "logout_run ip target tlo (Some e)"
        "r = Some (''Failed to logout target: '' @ e)"
    | (removal) pre ip tlo tr where
        "t = pre @ IsTargetLoggedInE ip target True # LogE Info ''Shutdown SCSI device for %v:%v'' [AStr ip, AStr target] # tlo @ tr"
        "list_all is_setup_step pre" "logout_run ip target tlo None"
        "record_run ip target tr r"
    by (elim disjE exE conjE) (simp, blast)+
  then show "(\<exists>t. snd s' = snd s @ t \<and>
          (r \<noteq> None \<and> list_all is_setup_step t
           \<or> (\<exists>pre ip. t = pre @ [IsTargetLoggedInE ip target False]
                 \<and> list_all is_setup_step pre \<and> r = None)
           \<or> (\<exists>pre ip tlo e.
                 t = pre @ IsTargetLoggedInE ip target True # LogE Info ''Shutdown SCSI device for %v:%v'' [AStr ip, AStr target] # tlo
                 \<and> list_all is_setup_step pre
                 \<and> logout_run ip target tlo (Some e)
                 \<and> list_all (\<lambda>e. \<not> is_record_step e) tlo
                 \<and> r = Some (''Failed to logout target: '' @ e))
           \<or> (\<exists>pre ip tlo fails tl.
                 t = pre @ IsTargetLoggedInE ip target True # LogE Info ''Shutdown SCSI device for %v:%v'' [AStr ip, AStr target] #
                       tlo @ concat (map (delete_failed ip target) fails) @ tl
                 \<and> list_all is_setup_step pre
                 \<and> logout_run ip target tlo None
                 \<and> list_all (\<lambda>e. \<not> is_record_step e) tlo
                 \<and> list_all (\<lambda>e. \<not> not_found e) fails
                 \<and> (tl = [] \<and> length fails = RetryCounts \<and> r = Some (last fails)
                   \<or> length fails < RetryCounts \<and> r = None
                      \<and> (tl = [IsTargetDiscoveredE ip target False]
                         \<or> (\<exists>dr. tl = [IsTargetDiscoveredE ip target True,
                                        DeleteDiscoveredTargetE ip target dr]
                               \<and> (dr = None \<or> (\<exists>e. dr = Some e \<and> not_found e))))))))"
  proof cases
    case early
    show ?thesis
      by (rule exI [of _ t], rule conjI [OF t], rule disjI1, insert early, simp)
  next
    case nosession
    show ?thesis
      by (rule exI [of _ t], rule conjI [OF t], rule disjI2, rule disjI1,
          rule exI [of _ pre], rule exI [of _ ip], insert nosession, simp)
  next
    case failed
    note nr = logout_run_no_record [OF failed(3)]
    show ?thesis
      by (rule exI [of _ t], rule conjI [OF t], rule disjI2, rule disjI2, rule disjI1,
          rule exI [of _ pre], rule exI [of _ ip], rule exI [of _ tlo], rule exI [of _ e],
          insert failed nr, simp)
  next
    case removal
    note nr = logout_run_no_record [OF removal(3)]
    from removal(4) obtain fails tl' where
      c: "tr = concat (map (delete_failed ip target) fails) @ tl'"
        "list_all (\<lambda>e. \<not> not_found e) fails"
        "(tl' = [] \<and> length fails = RetryCounts \<and> r = Some (last fails)
                   \<or> length fails < RetryCounts \<and> r = None
                      \<and> (tl' = [IsTargetDiscoveredE ip target False]
                         \<or> (\<exists>dr. tl' = [IsTargetDiscoveredE ip target True,
                                        DeleteDiscoveredTargetE ip target dr]
                               \<and> (dr = None \<or> (\<exists>e. dr = Some e \<and> not_found e)))))"
      by (rule record_run_cases)
    show ?thesis
    proof (rule exI [of _ t], rule conjI [OF t], rule disjI2, rule disjI2, rule disjI2,
          rule exI [of _ pre], rule exI [of _ ip], rule exI [of _ tlo], rule exI [of _ fails],
          rule exI [of _ tl'], intro conjI)
      show "t = pre @ IsTargetLoggedInE ip target True # LogE Info ''Shutdown SCSI device for %v:%v'' [AStr ip, AStr target] #
                       tlo @ concat (map (delete_failed ip target) fails) @ tl'"
        using removal(1) c(1) by simp
      show "list_all is_setup_step pre" by fact
      show "logout_run ip target tlo None" by fact
      show "list_all (\<lambda>e. \<not> is_record_step e) tlo" by fact
      show "list_all (\<lambda>e. \<not> not_found e) fails" by fact
      show "(tl' = [] \<and> length fails = RetryCounts \<and> r = Some (last fails)
                   \<or> length fails < RetryCounts \<and> r = None
                      \<and> (tl' = [IsTargetDiscoveredE ip target False]
                         \<or> (\<exists>dr. tl' = [IsTargetDiscoveredE ip target True,
                                        DeleteDiscoveredTargetE ip target dr]
                               \<and> (dr = None \<or> (\<exists>e. dr = Some e \<and> not_found e)))))" by (rule c(3))
    qed
  qed
qed

theorem LogoutTarget_record_removal_witness:
  "call (iscsi_IsTargetLoggedIn sim ''10.0.0.1'' ''iqn.2014-09.com.rancher:data:01'' ''/host/proc/1/ns'')
       (IsTargetLoggedInE ''10.0.0.1'' ''iqn.2014-09.com.rancher:data:01'')
       (0, [NewNamespaceExecutorE ''/host/proc/1/ns'' None,
            GetIPToHostE ''10.0.0.1'' None,
            CheckForInitiatorExistenceE None]) =
     (False, (0, [NewNamespaceExecutorE ''/host/proc/1/ns'' None,
            GetIPToHostE ''10.0.0.1'' None,
            CheckForInitiatorExistenceE None,
            IsTargetLoggedInE ''10.0.0.1'' ''iqn.2014-09.com.rancher:data:01'' False]))
   \<and> fst (LogoutTarget sim ''iqn.2014-09.com.rancher:data:01'' (0, [])) = None
   \<and> snd (LogoutTarget sim ''iqn.2014-09.com.rancher:data:01'' (0, [])) = (0, [NewNamespaceExecutorE ''/host/proc/1/ns'' None,
            GetIPToHostE ''10.0.0.1'' None,
            CheckForInitiatorExistenceE None,
            IsTargetLoggedInE ''10.0.0.1'' ''iqn.2014-09.com.rancher:data:01'' False])
   \<and> call (iscsi_IsTargetLoggedIn sim_session ''10.0.0.1'' ''iqn.2014-09.com.rancher:data:01'' ''/host/proc/1/ns'')
       (IsTargetLoggedInE ''10.0.0.1'' ''iqn.2014-09.com.rancher:data:01'')
       (0, [NewNamespaceExecutorE ''/host/proc/1/ns'' None,
            GetIPToHostE ''10.0.0.1'' None,
            CheckForInitiatorExistenceE None]) =
     (True, (0, [NewNamespaceExecutorE ''/host/proc/1/ns'' None,
            GetIPToHostE ''10.0.0.1'' None,
            CheckForInitiatorExistenceE None,
            IsTargetLoggedInE ''10.0.0.1'' ''iqn.2014-09.com.rancher:data:01'' True]))
   \<and> fst (LogoutTarget sim_session ''iqn.2014-09.com.rancher:data:01'' (0, [])) = None
   \<and> snd (snd (LogoutTarget sim_session ''iqn.2014-09.com.rancher:data:01'' (0, []))) =
        [NewNamespaceExecutorE ''/host/proc/1/ns'' None,
            GetIPToHostE ''10.0.0.1'' None,
            CheckForInitiatorExistenceE None,
            IsTargetLoggedInE ''10.0.0.1'' ''iqn.2014-09.com.rancher:data:01'' True] @
        LogE Info ''Shutdown SCSI device for %v:%v'' [AStr ''10.0.0.1'', AStr ''iqn.2014-09.com.rancher:data:01''] #
        [LogoutTargetE ''10.0.0.1'' ''iqn.2014-09.com.rancher:data:01'' None] @
        concat (map (delete_failed ''10.0.0.1'' ''iqn.2014-09.com.rancher:data:01'') [''exit status 6'']) @
        [IsTargetDiscoveredE ''10.0.0.1'' ''iqn.2014-09.com.rancher:data:01'' True,
         DeleteDiscoveredTargetE ''10.0.0.1'' ''iqn.2014-09.com.rancher:data:01'' (Some ''exit status 21'')]
   \<and> (\<exists>tlo err.
            logout_run ''10.0.0.1'' ''iqn.2014-09.com.rancher:data:01'' tlo err \<and> list_all (\<lambda>e. \<not> is_record_step e) tlo
            \<and> ((\<exists>e. err = Some e \<and> None = Some (''Failed to logout target: '' @ e)
                     \<and> snd (snd (LogoutTarget sim_session ''iqn.2014-09.com.rancher:data:01'' (0, []))) =
           [NewNamespaceExecutorE ''/host/proc/1/ns'' None,
            GetIPToHostE ''10.0.0.1'' None,
            CheckForInitiatorExistenceE None,
            IsTargetLoggedInE ''10.0.0.1'' ''iqn.2014-09.com.rancher:data:01'' True] @ LogE Info ''Shutdown SCSI device for %v:%v'' [AStr ''10.0.0.1'', AStr ''iqn.2014-09.com.rancher:data:01''] # tlo)
               \<or> err = None
                  \<and> (\<exists>fails tl.
                        snd (snd (LogoutTarget sim_session ''iqn.2014-09.com.rancher:data:01'' (0, []))) =
           [NewNamespaceExecutorE ''/host/proc/1/ns'' None,
            GetIPToHostE ''10.0.0.1'' None,
            CheckForInitiatorExistenceE None,
            IsTargetLoggedInE ''10.0.0.1'' ''iqn.2014-09.com.rancher:data:01'' True] @ LogE Info ''Shutdown SCSI device for %v:%v'' [AStr ''10.0.0.1'', AStr ''iqn.2014-09.com.rancher:data:01''] #
                                   tlo @ concat (map (delete_failed ''10.0.0.1'' ''iqn.2014-09.com.rancher:data:01'') fails) @ tl
                        \<and> list_all (\<lambda>e. \<not> not_found e) fails
                        \<and> (tl = [] \<and> length fails = RetryCounts \<and> None = Some (last fails)
                   \<or> length fails < RetryCounts \<and> None = None
                      \<and> (tl = [IsTargetDiscoveredE ''10.0.0.1'' ''iqn.2014-09.com.rancher:data:01'' False]
                         \<or> (\<exists>dr. tl = [IsTargetDiscoveredE ''10.0.0.1'' ''iqn.2014-09.com.rancher:data:01'' True,
                                        DeleteDiscoveredTargetE ''10.0.0.1'' ''iqn.2014-09.com.rancher:data:01'' dr]
                               \<and> (dr = None \<or> (\<exists>e. dr = Some e \<and> not_found e))))))))"
proof -
  let ?T = "''iqn.2014-09.com.rancher:data:01''"
  let ?ns = "''/host/proc/1/ns''"
  let ?R = "LogoutTarget sim_session ?T (0, [])"
  let ?Q = "LogoutTarget sim ?T (0, [])"
  let ?t1 = "[NewNamespaceExecutorE ?ns None]"
  let ?t2 = "?t1 @ [GetIPToHostE ''10.0.0.1'' None]"
  let ?t3 = "?t2 @ [CheckForInitiatorExistenceE None]"
  let ?t4 = "?t3 @ [IsTargetLoggedInE ''10.0.0.1'' ?T True]"
  have run: "?R = (fst ?R, snd ?R)" by simp
  have run0: "?Q = (fst ?Q, snd ?Q)" by simp
  have q1: "call (util_NewNamespaceExecutor sim (util_GetHostNamespacePath sim HostProc))
              (\<lambda>(ne, err). NewNamespaceExecutorE (util_GetHostNamespacePath sim HostProc) err)
              (0, []) = ((?ns, None), (0, ?t1))"
    by (simp add: run_simps)
  have q2: "call (util_GetIPToHost sim) (case_prod GetIPToHostE) (0, ?t1)
              = ((''10.0.0.1'', None), (0, ?t2))"
    by (simp add: run_simps)
  have q3: "call (iscsi_CheckForInitiatorExistence sim ?ns) CheckForInitiatorExistenceE
              (0, ?t2) = (None, (0, ?t3))"
    by (simp add: run_simps)
  have q4: "call (iscsi_IsTargetLoggedIn sim ''10.0.0.1'' ?T ?ns)
              (IsTargetLoggedInE ''10.0.0.1'' ?T) (0, ?t3) = (False, (0, ?t3 @ [IsTargetLoggedInE ''10.0.0.1'' ?T False]))"
    by (simp add: run_simps)
  have p1: "call (util_NewNamespaceExecutor sim_session (util_GetHostNamespacePath sim_session HostProc))
              (\<lambda>(ne, err). NewNamespaceExecutorE (util_GetHostNamespacePath sim_session HostProc) err)
              (0, []) = ((?ns, None), (0, ?t1))"
    by (simp add: sim_session_def run_simps)
  have p2: "call (util_GetIPToHost sim_session) (case_prod GetIPToHostE) (0, ?t1)
              = ((''10.0.0.1'', None), (0, ?t2))"
    by (simp add: sim_session_def run_simps)
  have p3: "call (iscsi_CheckForInitiatorExistence sim_session ?ns) CheckForInitiatorExistenceE
              (0, ?t2) = (None, (0, ?t3))"
    by (simp add: sim_session_def run_simps)
  have p4: "call (iscsi_IsTargetLoggedIn sim_session ''10.0.0.1'' ?T ?ns)
              (IsTargetLoggedInE ''10.0.0.1'' ?T) (0, ?t3) = (True, (0, ?t3 @ [IsTargetLoggedInE ''10.0.0.1'' ?T True]))"
    by (simp add: sim_session_def run_simps)
  have a: "fst ?R = None"
    by (simp add: LogoutTarget_simps run_simps sim_session_def)
  have b: "snd (snd ?R) =
        ?t4 @ LogE Info ''Shutdown SCSI device for %v:%v'' [AStr ''10.0.0.1'', AStr ?T] #
        [LogoutTargetE ''10.0.0.1'' ?T None] @
        concat (map (delete_failed ''10.0.0.1'' ?T) [''exit status 6'']) @
        [IsTargetDiscoveredE ''10.0.0.1'' ?T True,
         DeleteDiscoveredTargetE ''10.0.0.1'' ?T (Some ''exit status 21'')]"
    by (simp add: LogoutTarget_simps run_simps sim_session_def delete_failed_def)
  note n = LogoutTarget_record_removal [OF run0, THEN conjunct1, THEN mp,
      OF conjI [OF q1 conjI [OF q2 conjI [OF q3 q4]]]]
  note c = LogoutTarget_record_removal [OF run, THEN conjunct2, THEN conjunct1, THEN mp,
      OF conjI [OF p1 conjI [OF p2 conjI [OF p3 p4]]]]
  have c': "(\<exists>tlo err.
            logout_run ''10.0.0.1'' ''iqn.2014-09.com.rancher:data:01'' tlo err \<and> list_all (\<lambda>e. \<not> is_record_step e) tlo
            \<and> ((\<exists>e. err = Some e \<and> None = Some (''Failed to logout target: '' @ e)
                     \<and> snd (snd (LogoutTarget sim_session ''iqn.2014-09.com.rancher:data:01'' (0, []))) =
           ?t4 @ LogE Info ''Shutdown SCSI device for %v:%v'' [AStr ''10.0.0.1'', AStr ''iqn.2014-09.com.rancher:data:01''] # tlo)
               \<or> err = None
                  \<and> (\<exists>fails tl.
                        snd (snd (LogoutTarget sim_session ''iqn.2014-09.com.rancher:data:01'' (0, []))) =
           ?t4 @ LogE Info ''Shutdown SCSI device for %v:%v'' [AStr ''10.0.0.1'', AStr ''iqn.2014-09.com.rancher:data:01''] #
                                   tlo @ concat (map (delete_failed ''10.0.0.1'' ''iqn.2014-09.com.rancher:data:01'') fails) @ tl
                        \<and> list_all (\<lambda>e. \<not> not_found e) fails
                        \<and> (tl = [] \<and> length fails = RetryCounts \<and> None = Some (last fails)
                   \<or> length fails < RetryCounts \<and> None = None
                      \<and> (tl = [IsTargetDiscoveredE ''10.0.0.1'' ''iqn.2014-09.com.rancher:data:01'' False]
                         \<or> (\<exists>dr. tl = [IsTargetDiscoveredE ''10.0.0.1'' ''iqn.2014-09.com.rancher:data:01'' True,
                                        DeleteDiscoveredTargetE ''10.0.0.1'' ''iqn.2014-09.com.rancher:data:01'' dr]
                               \<and> (dr = None \<or> (\<exists>e. dr = Some e \<and> not_found e))))))))"
    using c a by simp
  from n q4 a p4 b c' show ?thesis by simp
qed

section \<open>The allocation of the target ID\<close>

text \<open>
  The runs of \<^verbatim>\<open>SetupTarget\<close>. After the daemon has started, a number of attempts fail in
  \<^verbatim>\<open>CreateTarget\<close>. If \<^verbatim>\<open>FindNextAvailableTargetID\<close> then fails, its error is returned. If an
  attempt succeeds after fewer than \<open>RetryCounts\<close> failures, \<^verbatim>\<open>dev.TargetID\<close> is the ID it
  created and the LUN is attached to that ID. If \<open>RetryCounts\<close> attempts have failed, the
  function goes on all the same: it attaches the LUN to the ID that was in \<^verbatim>\<open>dev.TargetID\<close>
  before the call, and its result is that of \<^verbatim>\<open>AddLun\<close> and \<^verbatim>\<open>BindInitiator\<close>.
\<close>

lemma SetupTarget_runs:
  assumes "SetupTarget env dev s = (r, dev', s')"
  shows "\<exists>t. snd s' = snd s @ t \<and>
    ((\<exists>e. t = [StartDaemonE False (Some e)] \<and> r = Some e \<and> dev' = dev)
     \<or> (\<exists>fails tid e.
           t = StartDaemonE False None # concat (map (create_failed (Target dev)) fails) @
                 [FindNextAvailableTargetIDE tid (Some e)]
           \<and> length fails < RetryCounts \<and> r = Some e \<and> dev' = dev)
     \<or> (\<exists>fails tid ar rest.
           t = StartDaemonE False None # concat (map (create_failed (Target dev)) fails) @
                 create_succeeded (Target dev) tid @
                 AddLunE tid TargetLunID (BackingFile dev) (BSType dev) (BSOpts dev) ar # rest
           \<and> length fails < RetryCounts \<and> dev' = dev\<lparr>TargetID := tid\<rparr>
           \<and> ((\<exists>e. ar = Some e \<and> rest = [] \<and> r = Some e)
               \<or> ar = None \<and> rest = [BindInitiatorE tid ''ALL'' r]))
     \<or> (\<exists>fails ar rest.
           t = StartDaemonE False None # concat (map (create_failed (Target dev)) fails) @
                 AddLunE (TargetID dev) TargetLunID (BackingFile dev) (BSType dev) (BSOpts dev) ar #
                 rest
           \<and> length fails = RetryCounts \<and> dev' = dev
           \<and> ((\<exists>e. ar = Some e \<and> rest = [] \<and> r = Some e)
               \<or> ar = None \<and> rest = [BindInitiatorE (TargetID dev) ''ALL'' r])))"
proof -
  obtain e1 w1 where c1: "iscsi_StartDaemon env False (fst s) = (e1, w1)" by (metis surj_pair)
  show ?thesis
  proof (cases e1)
    case (Some e)
    with assms c1 show ?thesis by (auto simp: SetupTarget_def call_def)
  next
    case None
    let ?s1 = "(w1, snd s @ [StartDaemonE False None])"
    obtain r2 dev2 s2 where c2: "SetupTarget_loop env 0 dev ?s1 = (r2, dev2, s2)"
      by (metis prod_cases3)
    from SetupTarget_loop_shape [OF c2] obtain fails tl where
      f: "snd s2 = snd ?s1 @ concat (map (create_failed (Target dev)) fails) @ tl"
      and g: "tl = [] \<and> 0 + length fails = max 0 RetryCounts \<and> r2 = None \<and> dev2 = dev
      \<or> (\<exists>tid. tl = create_succeeded (Target dev) tid \<and> r2 = None \<and> dev2 = dev\<lparr>TargetID := tid\<rparr>)
          \<and> 0 + length fails < RetryCounts
      \<or> (\<exists>tid e. tl = [FindNextAvailableTargetIDE tid (Some e)] \<and> r2 = Some e \<and> dev2 = dev)
          \<and> 0 + length fails < RetryCounts"
      by blast
    obtain ar w3 where c3:
      "iscsi_AddLun env (TargetID dev2) TargetLunID (BackingFile dev2) (BSType dev2) (BSOpts dev2)
         (fst s2) = (ar, w3)" by (metis surj_pair)
    obtain br w4 where c4: "iscsi_BindInitiator env (TargetID dev2) ''ALL'' w3 = (br, w4)"
      by (metis surj_pair)
    have unf: "SetupTarget env dev s =
       (case r2 of Some e \<Rightarrow> (Some e, dev2, s2)
        | None \<Rightarrow>
          (case ar of
             Some e \<Rightarrow> (Some e, dev2, (w3, snd s2 @
                [AddLunE (TargetID dev2) TargetLunID (BackingFile dev2) (BSType dev2) (BSOpts dev2) ar]))
           | None \<Rightarrow> (br, dev2, (w4, snd s2 @
                [AddLunE (TargetID dev2) TargetLunID (BackingFile dev2) (BSType dev2) (BSOpts dev2) None,
                 BindInitiatorE (TargetID dev2) ''ALL'' br]))))"
      using c1 c2 c3 c4 None
      by (auto simp: SetupTarget_def call_def split: option.splits)
    from g consider
      (exhausted) "tl = []" "length fails = RetryCounts" "r2 = None" "dev2 = dev"
      | (created) tid where "tl = create_succeeded (Target dev) tid" "r2 = None"
          "dev2 = dev\<lparr>TargetID := tid\<rparr>" "length fails < RetryCounts"
      | (nofree) tid e where "tl = [FindNextAvailableTargetIDE tid (Some e)]" "r2 = Some e"
          "dev2 = dev" "length fails < RetryCounts"
      by (elim disjE exE conjE) auto
    then show ?thesis
    proof cases
      case exhausted
      let ?add = "AddLunE (TargetID dev) TargetLunID (BackingFile dev) (BSType dev) (BSOpts dev) ar"
      let ?rest = "case ar of Some e \<Rightarrow> [] | None \<Rightarrow> [BindInitiatorE (TargetID dev) ''ALL'' br]"
      from assms unf exhausted f
      have "snd s' = snd s @ StartDaemonE False None #
              concat (map (create_failed (Target dev)) fails) @ ?add # ?rest"
        and "dev' = dev"
        and "(\<exists>e. ar = Some e \<and> ?rest = [] \<and> r = Some e)
               \<or> ar = None \<and> ?rest = [BindInitiatorE (TargetID dev) ''ALL'' r]"
        by (auto split: option.splits)
      with exhausted(2) show ?thesis
        by - (rule exI [of _ "StartDaemonE False None #
              concat (map (create_failed (Target dev)) fails) @ ?add # ?rest"],
            rule conjI, assumption, rule disjI2, rule disjI2, rule disjI2,
            rule exI [of _ fails], rule exI [of _ ar], rule exI [of _ ?rest], simp)
    next
      case created
      let ?add = "AddLunE tid TargetLunID (BackingFile dev) (BSType dev) (BSOpts dev) ar"
      let ?rest = "case ar of Some e \<Rightarrow> [] | None \<Rightarrow> [BindInitiatorE tid ''ALL'' br]"
      from assms unf created f
      have "snd s' = snd s @ StartDaemonE False None #
              concat (map (create_failed (Target dev)) fails) @
              create_succeeded (Target dev) tid @ ?add # ?rest"
        and "dev' = dev\<lparr>TargetID := tid\<rparr>"
        and "(\<exists>e. ar = Some e \<and> ?rest = [] \<and> r = Some e)
               \<or> ar = None \<and> ?rest = [BindInitiatorE tid ''ALL'' r]"
        by (auto split: option.splits)
      with created(4) show ?thesis
        by - (rule exI [of _ "StartDaemonE False None #
              concat (map (create_failed (Target dev)) fails) @
              create_succeeded (Target dev) tid @ ?add # ?rest"],
            rule conjI, assumption, rule disjI2, rule disjI2, rule disjI1,
            rule exI [of _ fails], rule exI [of _ tid], rule exI [of _ ar],
            rule exI [of _ ?rest], simp)
    next
      case nofree
      from assms unf nofree f
      have "snd s' = snd s @ StartDaemonE False None #
              concat (map (create_failed (Target dev)) fails) @
              [FindNextAvailableTargetIDE tid (Some e)]"
        and "dev' = dev" and "r = Some e"
        by auto
      with nofree(4) show ?thesis
        by - (rule exI [of _ "StartDaemonE False None #
              concat (map (create_failed (Target dev)) fails) @
              [FindNextAvailableTargetIDE tid (Some e)]"],
            rule conjI, assumption, rule disjI2, rule disjI1,
            rule exI [of _ fails], rule exI [of _ tid], rule exI [of _ e], simp)
    qed
  qed
qed

text \<open>
  C1. The claim holds for a success after fewer than \<open>RetryCounts\<close> collisions, and fails
  when every attempt collides. On the host where each of the five attempts to create
  the target fails, \<^verbatim>\<open>SetupTarget\<close> does not return the last creation error: it attaches the
  LUN to the ID 0, which the device held before the call, binds the initiators to it and
  returns \<^verbatim>\<open>nil\<close>, leaving \<^verbatim>\<open>dev.TargetID\<close> as it was.
\<close>

theorem SetupTarget_exhausted_attaches_lun:
  "SetupTarget sim_collide dev01 (0, []) =
     (None, dev01,
      (5, StartDaemonE False None #
          concat (map (create_failed ''iqn.2014-09.com.rancher:data:01'')
            [(1, ''exit status 22''), (2, ''exit status 22''), (3, ''exit status 22''),
             (4, ''exit status 22''), (5, ''exit status 22'')]) @
          [AddLunE 0 1 ''/var/lib/longhorn/data01.img'' ''file'' [] None,
           BindInitiatorE 0 ''ALL'' None]))
   \<and> TargetID dev01 = 0"
  by (simp add: SetupTarget_def SetupTarget_loop.simps run_simps sim_collide_def
      create_failed_def TargetLunID_def RetryIntervalTargetID_def)

end
